theory Spec2Isabelle
  imports Complex_Main
begin

section \<open>JavaScript numbers\<close>

text \<open>
  The simulator computes with JavaScript numbers, which are IEEE doubles.  A finite number
  is modelled by a real; the three non-finite values are kept as constructors of their
  own, because the code tests for them (\<open>Number.isFinite\<close>, \<open>=== Infinity\<close>,
  \<open>=== -Infinity\<close>).  \<open>null\<close> and \<open>undefined\<close> behave like \<open>NaN\<close> in every test
  the modelled code applies to a number, and are represented by it.

  The rounding of an operation is modelled where the outcome of a test turns on it: in
  the coercion of the arterial pressures (\<open>safeDia + 1\<close>, which is \<open>safeDia\<close> again from
  \<open>2^53\<close> on) and in the catch-up loop of the rendering callback (the step constant and
  the repeated subtraction).  Everywhere else an operation is the one on the reals.
\<close>

datatype jsnum = Fin real | PInf | NInf | NaN

fun isFinite :: "jsnum \<Rightarrow> bool" where
  "isFinite (Fin x) = True"
| "isFinite _ = False"

text \<open>\<open>ensureFinite(value, defaultValue)\<close> of waveformUtils.js.\<close>

fun ensureFinite :: "jsnum \<Rightarrow> real \<Rightarrow> real" where
  "ensureFinite (Fin x) d = x"
| "ensureFinite _ d = d"

text \<open>The comparisons \<open><\<close>, \<open><=\<close>, \<open>>=\<close> of two numbers: false as soon as one is NaN.\<close>

fun js_lt :: "jsnum \<Rightarrow> jsnum \<Rightarrow> bool" where
  "js_lt NaN _ = False"
| "js_lt _ NaN = False"
| "js_lt (Fin a) (Fin b) = (a < b)"
| "js_lt NInf NInf = False"
| "js_lt NInf _ = True"
| "js_lt _ NInf = False"
| "js_lt PInf _ = False"
| "js_lt _ PInf = True"

fun js_le :: "jsnum \<Rightarrow> jsnum \<Rightarrow> bool" where
  "js_le NaN _ = False"
| "js_le _ NaN = False"
| "js_le (Fin a) (Fin b) = (a \<le> b)"
| "js_le NInf _ = True"
| "js_le _ PInf = True"
| "js_le _ _ = False"

definition js_ge :: "jsnum \<Rightarrow> jsnum \<Rightarrow> bool" where
  "js_ge a b = js_le b a"

definition js_gt :: "jsnum \<Rightarrow> jsnum \<Rightarrow> bool" where
  "js_gt a b = js_lt b a"

text \<open>Addition, with the IEEE rules for the infinities.\<close>

fun js_add :: "jsnum \<Rightarrow> jsnum \<Rightarrow> jsnum" where
  "js_add NaN _ = NaN"
| "js_add _ NaN = NaN"
| "js_add (Fin a) (Fin b) = Fin (a + b)"
| "js_add PInf NInf = NaN"
| "js_add NInf PInf = NaN"
| "js_add PInf _ = PInf"
| "js_add _ PInf = PInf"
| "js_add NInf _ = NInf"
| "js_add _ NInf = NInf"

fun js_neg :: "jsnum \<Rightarrow> jsnum" where
  "js_neg (Fin a) = Fin (- a)"
| "js_neg PInf = NInf"
| "js_neg NInf = PInf"
| "js_neg NaN = NaN"

definition js_sub :: "jsnum \<Rightarrow> jsnum \<Rightarrow> jsnum" where
  "js_sub a b = js_add a (js_neg b)"

text \<open>
  The double nearest to a real, with ties to the even significand (the rounding of every
  arithmetic operation on doubles): a significand of 53 bits, scaled by the power of two
  of the binade of the argument.  Overflow and subnormal numbers are not modelled.
\<close>

definition round_even :: "real \<Rightarrow> int" where
  "round_even x =
     (let f = \<lfloor>x\<rfloor>; r = x - of_int f
      in if r < 1 / 2 then f else if r > 1 / 2 then f + 1 else if even f then f else f + 1)"

definition js_double :: "real \<Rightarrow> real" where
  "js_double x =
     (if x = 0 then 0
      else (let q = 2 powr (of_int \<lfloor>log 2 \<bar>x\<bar>\<rfloor> - 52)
            in q * of_int (round_even (x / q))))"

text \<open>
  The remainder operator \<open>%\<close> on finite numbers with a non-zero divisor: the quotient is
  truncated towards zero, so the result has the sign of the dividend.
\<close>

definition js_trunc :: "real \<Rightarrow> int" where
  "js_trunc x = (if 0 \<le> x then \<lfloor>x\<rfloor> else \<lceil>x\<rceil>)"

definition js_mod :: "real \<Rightarrow> real \<Rightarrow> real" where
  "js_mod a b = a - b * of_int (js_trunc (a / b))"

text \<open>
  \<open>Math.pow\<close>.  Every call site of the shape functions raises the sine of a phase in
  \<open>[0, pi)\<close>, a non-negative base, where \<open>Math.pow\<close> is the real power.
\<close>

definition math_pow :: "real \<Rightarrow> real \<Rightarrow> real" where
  "math_pow x y = x powr y"

section \<open>waveformUtils.js: the shape library\<close>

text \<open>\<open>gaussian(t, mean, stdDev, amplitude)\<close>.\<close>

definition gaussian :: "real \<Rightarrow> real \<Rightarrow> real \<Rightarrow> real \<Rightarrow> real" where
  "gaussian t mean stdDev amplitude =
     (let safeStdDev = max \<bar>stdDev\<bar> (1 / 10 ^ 9);
          safeAmplitude = amplitude
      in if safeAmplitude = 0 then 0
         else let exponent = - ((t - mean) ^ 2) / (2 * safeStdDev * safeStdDev)
              in if exponent < - 700 then 0
                 else safeAmplitude * exp exponent)"

text \<open>
  The shape functions read the wall clock when the elapsed-time argument is \<open>null\<close>, not
  finite or negative: \<open>effectiveTime = (t !== null && Number.isFinite(t) && t >= 0) ? t :
  (performance.now() / 1000)\<close>.  The clock reading (milliseconds) is the explicit
  argument \<open>now\<close> of the model.
\<close>

definition effectiveTime :: "real \<Rightarrow> jsnum \<Rightarrow> real" where
  "effectiveTime now t =
     (case t of Fin x \<Rightarrow> if 0 \<le> x then x else now / 1000 | _ \<Rightarrow> now / 1000)"

text \<open>\<open>(beatDuration > 0 && Number.isFinite(beatDuration)) ? beatDuration : 2.0\<close>.\<close>

definition effectiveDuration :: "jsnum \<Rightarrow> real" where
  "effectiveDuration beatDuration =
     (case beatDuration of Fin d \<Rightarrow> if 0 < d then d else 2 | _ \<Rightarrow> 2)"

subsection \<open>Capnogram\<close>

definition ETCO2_MAX_SHAPE_REFERENCE_RR :: real where
  "ETCO2_MAX_SHAPE_REFERENCE_RR = 20"

definition ETCO2_MAX_ACTIVE_SHAPE_DURATION :: real where
  "ETCO2_MAX_ACTIVE_SHAPE_DURATION = 60 / ETCO2_MAX_SHAPE_REFERENCE_RR"

record etco2_factors =
  plateauStartFactor :: real
  plateauSlopeFactor :: real
  upstrokeSteepness :: real

text \<open>The \<open>switch (shapeType)\<close> of \<open>generateEtco2WaveformShape\<close>.\<close>

definition etco2_shape_factors :: "string \<Rightarrow> etco2_factors" where
  "etco2_shape_factors shapeType =
     (if shapeType = ''bronchospasm'' then
        \<lparr>plateauStartFactor = 65 / 100, plateauSlopeFactor = 30 / 100, upstrokeSteepness = 6\<rparr>
      else if shapeType = ''leak_obstruction'' then
        \<lparr>plateauStartFactor = 60 / 100, plateauSlopeFactor = - (15 / 100), upstrokeSteepness = 7\<rparr>
      else
        \<lparr>plateauStartFactor = 50 / 100, plateauSlopeFactor = 5 / 100, upstrokeSteepness = 10\<rparr>)"

text \<open>\<open>t_rel = (effectiveTime % breathDuration + breathDuration) % breathDuration\<close>.\<close>

definition etco2_t_rel :: "real \<Rightarrow> jsnum \<Rightarrow> real \<Rightarrow> real" where
  "etco2_t_rel now t breathDuration =
     js_mod (js_mod (effectiveTime now t) breathDuration + breathDuration) breathDuration"

text \<open>
  The body of \<open>generateEtco2WaveformShape\<close> after the guards, as a function of the
  relative time in the breath.
\<close>

definition etco2_value :: "real \<Rightarrow> real \<Rightarrow> real \<Rightarrow> string \<Rightarrow> real" where
  "etco2_value t_rel breathDuration targetEtco2 shapeType =
     (let durationForShapeCalculation = min breathDuration ETCO2_MAX_ACTIVE_SHAPE_DURATION;
          inspirationEndFactor = 40 / 100;
          plateauEndFactor = 90 / 100;
          downstrokeSteepness = 12;
          f = etco2_shape_factors shapeType;
          inspirationEnd = durationForShapeCalculation * inspirationEndFactor;
          plateauStart = durationForShapeCalculation * plateauStartFactor f;
          plateauEnd = durationForShapeCalculation * plateauEndFactor;
          activeWaveformEnd = durationForShapeCalculation
      in if t_rel < activeWaveformEnd then
           (if t_rel < inspirationEnd then 0
            else if t_rel < plateauStart then
              (let phaseDuration = plateauStart - inspirationEnd
               in if phaseDuration > 1 / 10 ^ 6 then
                    (let phaseProgress = (t_rel - inspirationEnd) / phaseDuration
                     in targetEtco2 *
                        (1 / (1 + exp (- upstrokeSteepness f * (phaseProgress - 1 / 2)))))
                  else targetEtco2)
            else if t_rel < plateauEnd then
              (let plateauDuration = plateauEnd - plateauStart
               in if plateauDuration > 1 / 10 ^ 6 then
                    (let plateauProgress = (t_rel - plateauStart) / plateauDuration
                     in targetEtco2 * (1 + plateauProgress * plateauSlopeFactor f))
                  else targetEtco2)
            else
              (let phaseDuration = activeWaveformEnd - plateauEnd
               in if phaseDuration > 1 / 10 ^ 6 then
                    (let phaseProgress = (t_rel - plateauEnd) / phaseDuration;
                         startValue = targetEtco2 * (1 + plateauSlopeFactor f)
                     in startValue *
                        (1 - (1 / (1 + exp (- downstrokeSteepness * (phaseProgress - 1 / 2))))))
                  else 0))
         else 0)"

text \<open>\<open>generateEtco2WaveformShape(t, breathDuration, etco2Value, shapeType)\<close>.\<close>

definition generateEtco2WaveformShape :: "real \<Rightarrow> jsnum \<Rightarrow> jsnum \<Rightarrow> jsnum \<Rightarrow> string \<Rightarrow> real" where
  "generateEtco2WaveformShape now t breathDuration etco2Value shapeType =
     (case breathDuration of
        Fin bd \<Rightarrow>
          if bd \<le> 0 then 0
          else if ensureFinite etco2Value 0 < 1 / 100 \<or> shapeType = ''disconnect'' then 0
          else max 0 (etco2_value (etco2_t_rel now t bd) bd (ensureFinite etco2Value 0) shapeType)
      | _ \<Rightarrow> 0)"

subsection \<open>Arterial pressure pulse\<close>

record abp_factors =
  upstrokeEndTimeFactor :: real
  upstrokePower :: real
  abpNotchTimeFactor :: real
  abpNotchWidthFactor :: real
  abpNotchDepthFactor :: real
  diastolicDecayFactor :: real

text \<open>The \<open>switch (shapeType)\<close> of \<open>generateAbpWaveformShape\<close>.\<close>

definition abp_shape_factors :: "string \<Rightarrow> abp_factors" where
  "abp_shape_factors shapeType =
     (if shapeType = ''damped'' then
        \<lparr>upstrokeEndTimeFactor = 28 / 100, upstrokePower = 2,
         abpNotchTimeFactor = 45 / 100, abpNotchWidthFactor = 15 / 100,
         abpNotchDepthFactor = 5 / 1000, diastolicDecayFactor = 25 / 10\<rparr>
      else if shapeType = ''hyperdynamic'' then
        \<lparr>upstrokeEndTimeFactor = 9 / 100, upstrokePower = 5,
         abpNotchTimeFactor = 45 / 100, abpNotchWidthFactor = 6 / 100,
         abpNotchDepthFactor = 7 / 100, diastolicDecayFactor = 48 / 10\<rparr>
      else if shapeType = ''vasoconstricted'' then
        \<lparr>upstrokeEndTimeFactor = 13 / 100, upstrokePower = 35 / 10,
         abpNotchTimeFactor = 30 / 100, abpNotchWidthFactor = 4 / 100,
         abpNotchDepthFactor = 9 / 100, diastolicDecayFactor = 19 / 10\<rparr>
      else
        \<lparr>upstrokeEndTimeFactor = 15 / 100, upstrokePower = 3,
         abpNotchTimeFactor = 35 / 100, abpNotchWidthFactor = 5 / 100,
         abpNotchDepthFactor = 10 / 100, diastolicDecayFactor = 3\<rparr>)"

text \<open>
  \<open>safeDia = Math.max(0, dia)\<close>, \<open>safeSys = Math.max(safeDia + 1, sys)\<close> and
  \<open>pulsePressure = safeSys - safeDia\<close>, of the values \<open>sys\<close> and \<open>dia\<close> that
  \<open>ensureFinite\<close> returned.  The sum and the difference are the rounded ones: the test
  \<open>pulsePressure <= 0\<close> depends on them.
\<close>

definition abp_safeDia :: "real \<Rightarrow> real" where
  "abp_safeDia dia = max 0 dia"

definition abp_safeSys :: "real \<Rightarrow> real \<Rightarrow> real" where
  "abp_safeSys sys dia = max (js_double (abp_safeDia dia + 1)) sys"

definition abp_pulsePressure :: "real \<Rightarrow> real \<Rightarrow> real" where
  "abp_pulsePressure sys dia = js_double (abp_safeSys sys dia - abp_safeDia dia)"

text \<open>
  The waveform of \<open>generateAbpWaveformShape\<close> from the shape \<open>switch\<close> to the last
  line, as a function of the relative time in the beat.
\<close>

definition abp_value :: "real \<Rightarrow> real \<Rightarrow> real \<Rightarrow> real \<Rightarrow> string \<Rightarrow> real" where
  "abp_value t_rel effDuration sys dia shapeType =
     (let safeDia = abp_safeDia dia;
          safeSys = abp_safeSys sys dia;
          pulsePressure = abp_pulsePressure sys dia;
          f = abp_shape_factors shapeType;
          upstrokeEndTime = effDuration * upstrokeEndTimeFactor f;
          notchTime = effDuration * abpNotchTimeFactor f;
          safeNotchWidth = max (effDuration * abpNotchWidthFactor f) (1 / 10 ^ 4);
          value =
            (if t_rel < upstrokeEndTime \<and> upstrokeEndTime > 1 / 10 ^ 6 then
               (let phase = (t_rel / upstrokeEndTime) * (pi / 2)
                in safeDia + pulsePressure * math_pow (sin phase) (upstrokePower f))
             else if upstrokeEndTime \<le> t_rel then
               (let timeSinceUpstrokeEnd = t_rel - upstrokeEndTime;
                    decayTimeConstant = effDuration / diastolicDecayFactor f;
                    effectiveDecay = pulsePressure * exp (- timeSinceUpstrokeEnd / decayTimeConstant)
                in safeDia + effectiveDecay)
             else safeDia);
          notchDepth = pulsePressure * abpNotchDepthFactor f;
          notch = gaussian t_rel notchTime safeNotchWidth (- notchDepth)
      in ensureFinite (Fin (max 0 (min (safeSys + 15) (value + notch)))) safeDia)"

text \<open>
  \<open>generateAbpWaveformShape(t, beatDuration, amplitudeSystolic, amplitudeDiastolic,
  shapeType)\<close>, with its two early returns.
\<close>

definition generateAbpWaveformShape ::
  "real \<Rightarrow> jsnum \<Rightarrow> jsnum \<Rightarrow> jsnum \<Rightarrow> jsnum \<Rightarrow> string \<Rightarrow> real" where
  "generateAbpWaveformShape now t beatDuration amplitudeSystolic amplitudeDiastolic shapeType =
     (let sys = ensureFinite amplitudeSystolic 0;
          dia = ensureFinite amplitudeDiastolic 0
      in if sys < 1 \<and> dia < 1 then 0
         else
           (let effDuration = effectiveDuration beatDuration;
                t_rel = js_mod (effectiveTime now t) effDuration
            in if abp_pulsePressure sys dia \<le> 0 then abp_safeDia dia
               else abp_value t_rel effDuration sys dia shapeType))"

subsection \<open>Plethysmography pulse\<close>

record pleth_factors =
  pulseAmplitude :: real
  riseTimeFactor :: real
  risePower :: real
  notchTimeFactor :: real
  notchWidthFactor :: real
  notchDepthFactor :: real
  decayFactor :: real

text \<open>The defaults of \<open>generatePlethPulseShape\<close> and its \<open>low_perfusion\<close> variant.\<close>

definition pleth_shape_factors :: "string \<Rightarrow> pleth_factors" where
  "pleth_shape_factors shapeType =
     (if shapeType = ''low_perfusion'' then
        \<lparr>pulseAmplitude = 40 / 100, riseTimeFactor = 35 / 100, risePower = 15 / 10,
         notchTimeFactor = 55 / 100, notchWidthFactor = 8 / 100, notchDepthFactor = 5 / 100,
         decayFactor = 22 / 10\<rparr>
      else
        \<lparr>pulseAmplitude = 85 / 100, riseTimeFactor = 28 / 100, risePower = 2,
         notchTimeFactor = 50 / 100, notchWidthFactor = 6 / 100, notchDepthFactor = 20 / 100,
         decayFactor = 25 / 10\<rparr>)"

definition pleth_value :: "real \<Rightarrow> real \<Rightarrow> real \<Rightarrow> string \<Rightarrow> real" where
  "pleth_value t_rel effDuration currentSpo2 shapeType =
     (let baseLevel = 1 / 10;
          f = pleth_shape_factors shapeType;
          amp = pulseAmplitude f * ((currentSpo2 / 100) * (8 / 10) + 2 / 10);
          riseEndTime = effDuration * riseTimeFactor f;
          notchTime = effDuration * notchTimeFactor f;
          notchWidth = effDuration * notchWidthFactor f;
          value =
            (if t_rel < riseEndTime \<and> riseEndTime > 1 / 10 ^ 6 then
               (let phase = (t_rel / riseEndTime) * (pi / 2)
                in amp * math_pow (sin phase) (risePower f))
             else if riseEndTime \<le> t_rel then
               (let timeSinceRiseEnd = t_rel - riseEndTime;
                    decayTimeConstant = effDuration / decayFactor f
                in amp * exp (- timeSinceRiseEnd / decayTimeConstant))
             else 0);
          notchDepth = amp * notchDepthFactor f;
          safeNotchWidth = max notchWidth (1 / 10 ^ 4);
          notch = gaussian t_rel notchTime safeNotchWidth (- notchDepth)
      in ensureFinite (Fin (max 0 (baseLevel + (value + notch)))) baseLevel)"

text \<open>\<open>generatePlethPulseShape(t, beatDuration, spo2Value, shapeType)\<close>.\<close>

definition generatePlethPulseShape :: "real \<Rightarrow> jsnum \<Rightarrow> jsnum \<Rightarrow> jsnum \<Rightarrow> string \<Rightarrow> real" where
  "generatePlethPulseShape now t beatDuration spo2Value shapeType =
     (let currentSpo2 = ensureFinite spo2Value 0;
          baseLevel = 1 / 10
      in if shapeType = ''no_signal'' then baseLevel
         else if currentSpo2 < 1 then baseLevel
         else
           (let effDuration = effectiveDuration beatDuration;
                t_rel = js_mod (effectiveTime now t) effDuration
            in pleth_value t_rel effDuration currentSpo2 shapeType))"

subsection \<open>ecgGenerators/pqrstGenerator.js: the cardiac complex\<close>

text \<open>
  The fields of a catalog entry that \<open>generatePQRST\<close> reads; \<open>None\<close> is \<open>undefined\<close>
  and selects the default of the \<open>??\<close> operator.
\<close>

record wave_params =
  p_amp :: "real option"
  t_amp :: "real option"
  qrs_amp :: "real option"
  q_amp_factor :: "real option"
  s_amp_factor :: "real option"
  pr_interval :: "real option"
  qrs_width :: "real option"
  t_width :: "real option"
  t_mean_offset :: "real option"
  hasP :: "bool option"
  hasT :: "bool option"
  st_elevation_amp :: "real option"
  p_duration :: "real option"

definition dflt :: "real option \<Rightarrow> real \<Rightarrow> real" where
  "dflt x d = (case x of None \<Rightarrow> d | Some v \<Rightarrow> v)"

text \<open>
  \<open>generatePQRST(t_relative, params)\<close>.  The function has no other input: it reads
  neither the clock nor the random generator (its caller adds the noise).  The end of
  the ST elevation is the end of the T wave, which is \<open>-Infinity\<close> when no T wave is
  drawn; no time is before that, so the elevation applies for a finite end only.
\<close>

definition generatePQRST :: "real \<Rightarrow> wave_params \<Rightarrow> real" where
  "generatePQRST t_relative w =
     (let pAmp = dflt (p_amp w) (15 / 100);
          tAmp = dflt (t_amp w) (25 / 100);
          qrsAmp = dflt (qrs_amp w) 1;
          qAmpFactor = dflt (q_amp_factor w) (1 / 10);
          sAmpFactor = dflt (s_amp_factor w) (15 / 100);
          prInterval = dflt (pr_interval w) (16 / 100);
          qrsWidth = dflt (qrs_width w) (8 / 100);
          tWidth = dflt (t_width w) (7 / 100);
          tMeanOffset = dflt (t_mean_offset w) (25 / 100);
          hasPv = (case hasP w of None \<Rightarrow> True | Some b \<Rightarrow> b);
          hasTv = (case hasT w of None \<Rightarrow> True | Some b \<Rightarrow> b);
          stElevationAmp = dflt (st_elevation_amp w) 0;
          p_value =
            (if hasPv \<and> pAmp \<noteq> 0 \<and> prInterval > 0 then
               (let pDuration = dflt (p_duration w) (min (prInterval * (7 / 10)) (12 / 100))
                in if pDuration > 1 / 10 ^ 3 \<and> t_relative \<ge> 0 \<and> t_relative < pDuration then
                     (let v = pAmp * sin (pi / pDuration * t_relative)
                      in if v < 0 then 0 else v)
                   else 0)
             else 0);
          qrs_value =
            (if qrsAmp \<noteq> 0 \<and> qrsWidth > 0 then
               gaussian t_relative (prInterval + qrsWidth * (5 / 10)) (qrsWidth / 5) qrsAmp -
               gaussian t_relative (prInterval + qrsWidth * (1 / 10)) (qrsWidth / 6)
                 (qrsAmp * qAmpFactor) -
               gaussian t_relative (prInterval + qrsWidth * (9 / 10)) (qrsWidth / 5)
                 (qrsAmp * sAmpFactor)
             else 0);
          tOn = (hasTv \<and> tAmp \<noteq> 0 \<and> tWidth > 0);
          tDuration = max (1 / 10) (3 * tWidth);
          tStart = prInterval + tMeanOffset - tDuration / 2;
          t_wave_start_time = (if tOn then Fin tStart else PInf);
          t_wave_end_time = (if tOn then Fin (tStart + tDuration) else NInf);
          inT = (js_ge (Fin t_relative) t_wave_start_time \<and> js_lt (Fin t_relative) t_wave_end_time);
          t_value =
            (if tOn \<and> inT then
               (let v = tAmp * math_pow (sin (pi / tDuration * (t_relative - tStart))) 2
                in if tAmp > 0 \<and> v < 0 then 0 else if tAmp < 0 \<and> v > 0 then 0 else v)
             else 0);
          j_point_time = prInterval + qrsWidth * (9 / 10);
          total_value =
            (if stElevationAmp > 0 then
               (case (if hasTv then t_wave_end_time else Fin (j_point_time + 3 / 10)) of
                  Fin elevation_end_time \<Rightarrow>
                    if t_relative \<ge> j_point_time \<and> t_relative < elevation_end_time then
                      (let time_since_j_point = t_relative - j_point_time;
                           total_elevation_duration =
                             max (1 / 10 ^ 6) (elevation_end_time - j_point_time);
                           progress = time_since_j_point / total_elevation_duration;
                           current_decay = 1 - (1 - 6 / 10) * progress;
                           current_st_elevation = stElevationAmp * current_decay
                       in if inT
                          then p_value + qrs_value + current_st_elevation + t_value * current_decay
                          else p_value + qrs_value + current_st_elevation)
                    else p_value + qrs_value + t_value
                | _ \<Rightarrow> p_value + qrs_value + t_value)
             else if stElevationAmp < 0 then
               (if t_relative \<ge> j_point_time \<and> js_lt (Fin t_relative) t_wave_start_time
                then p_value + qrs_value + stElevationAmp
                else p_value + qrs_value + t_value)
             else p_value + qrs_value + t_value)
      in ensureFinite (Fin total_value) 0)"

section \<open>Properties of the rounding\<close>

lemma round_even_floor: "\<lfloor>x\<rfloor> \<le> round_even x"
  by (simp add: round_even_def Let_def)

lemma round_even_near: "\<bar>of_int (round_even x) - x\<bar> \<le> 1 / 2"
proof -
  have a: "of_int \<lfloor>x\<rfloor> \<le> x" "x < of_int \<lfloor>x\<rfloor> + 1" by linarith+
  show ?thesis using a by (auto simp add: round_even_def Let_def)
qed

lemma js_double_zero [simp]: "js_double 0 = 0"
  by (simp add: js_double_def)

lemma js_double_pos:
  assumes "0 < x"
  shows "0 < js_double x"
proof -
  define e where "e = \<lfloor>log 2 \<bar>x\<bar>\<rfloor>"
  define q :: real where "q = 2 powr (of_int e - 52)"
  have q0: "0 < q" by (simp add: q_def)
  have "(2::real) powr (of_int e) \<le> x"
    using assms floor_log_eq_powr_iff[of x 2 e] by (simp add: e_def)
  then have "(2::real) powr (of_int e) / q \<le> x / q" using q0 by (simp add: divide_right_mono)
  moreover have "(2::real) powr (of_int e) / q = 2 powr 52"
    by (simp add: q_def powr_diff)
  ultimately have "1 \<le> x / q" by (simp add: powr_numeral) 
  then have "1 \<le> \<lfloor>x / q\<rfloor>" by (simp add: le_floor_iff)
  then have "1 \<le> round_even (x / q)" using round_even_floor[of "x / q"] by linarith
  then have "0 < q * of_int (round_even (x / q))" using q0 by simp
  then show ?thesis using assms
    by (simp add: js_double_def Let_def q_def e_def)
qed

lemma js_double_near:
  assumes "x \<noteq> 0"
  shows "\<bar>js_double x - x\<bar> \<le> 2 powr (of_int \<lfloor>log 2 \<bar>x\<bar>\<rfloor> - 52) / 2"
proof -
  define q :: real where "q = 2 powr (of_int \<lfloor>log 2 \<bar>x\<bar>\<rfloor> - 52)"
  have q0: "0 < q" by (simp add: q_def)
  have "js_double x - x = q * (of_int (round_even (x / q)) - x / q)"
    using assms q0 by (simp add: js_double_def Let_def q_def[symmetric] algebra_simps)
  then have "\<bar>js_double x - x\<bar> = q * \<bar>of_int (round_even (x / q)) - x / q\<bar>"
    using q0 by (simp add: abs_mult)
  also have "\<dots> \<le> q * (1 / 2)"
    using round_even_near[of "x / q"] q0 by (intro mult_left_mono) auto
  finally show ?thesis by (simp add: q_def)
qed

lemma js_double_succ:
  assumes "0 \<le> x" "x < 2 ^ 53"
  shows "x < js_double (x + 1)"
proof (cases "x + 1 < 2 ^ 53")
  case True
  define y where "y = x + 1"
  have y1: "1 \<le> y" "y < 2 ^ 53" using assms True by (simp_all add: y_def)
  have "log 2 y < 53"
    using y1 by (simp add: log_less_iff powr_numeral)
  then have "\<lfloor>log 2 \<bar>y\<bar>\<rfloor> \<le> 52" using y1 by (simp add: floor_le_iff)
  then have "of_int \<lfloor>log 2 \<bar>y\<bar>\<rfloor> - 52 \<le> (0::real)" by simp
  then have "(2::real) powr (of_int \<lfloor>log 2 \<bar>y\<bar>\<rfloor> - 52) \<le> 2 powr 0"
    by (intro powr_mono) auto
  then have "(2::real) powr (of_int \<lfloor>log 2 \<bar>y\<bar>\<rfloor> - 52) / 2 \<le> 1 / 2" by simp
  then have "\<bar>js_double y - y\<bar> \<le> 1 / 2"
    using js_double_near[of y] y1 by linarith
  then show ?thesis unfolding y_def by linarith
next
  case False
  define y where "y = x + 1"
  have y1: "2 ^ 53 \<le> y" "y < 2 ^ 53 + 1" using assms False by (simp_all add: y_def)
  have y0: "0 < y" using y1 by simp
  have "(2::real) powr 53 \<le> y \<and> y < 2 powr (53 + 1)" using y1 by (simp add: powr_numeral)
  then have e: "\<lfloor>log 2 \<bar>y\<bar>\<rfloor> = 53"
    using floor_log_eq_powr_iff[of y 2 53] y0 by simp
  have q: "(2::real) powr (of_int \<lfloor>log 2 \<bar>y\<bar>\<rfloor> - 52) = 2" unfolding e by simp
  have f: "\<lfloor>y / 2\<rfloor> = 2 ^ 52"
  proof -
    have "2 ^ 52 \<le> y / 2" "y / 2 < 2 ^ 52 + 1" using y1 by simp_all
    then show ?thesis by (simp add: floor_eq_iff)
  qed
  have "y / 2 - of_int \<lfloor>y / 2\<rfloor> < 1 / 2" unfolding f using y1 by simp
  then have "round_even (y / 2) = 2 ^ 52" using f by (simp add: round_even_def Let_def)
  then have "js_double y = 2 ^ 53" using y0 q by (simp add: js_double_def Let_def)
  then show ?thesis unfolding y_def[symmetric] using assms by simp
qed

lemma js_double_2_53: "js_double (2 ^ 53 + 1) = 2 ^ 53"
proof -
  define y :: real where "y = 2 ^ 53 + 1"
  have y0: "0 < y" by (simp add: y_def)
  have "(2::real) powr 53 \<le> y \<and> y < 2 powr (53 + 1)" by (simp add: y_def powr_numeral)
  then have e: "\<lfloor>log 2 \<bar>y\<bar>\<rfloor> = 53"
    using floor_log_eq_powr_iff[of y 2 53] y0 by simp
  have q: "(2::real) powr (of_int \<lfloor>log 2 \<bar>y\<bar>\<rfloor> - 52) = 2" unfolding e by simp
  have h: "y / 2 = 2 ^ 52 + 1 / 2" by (simp add: y_def)
  have f: "\<lfloor>y / 2\<rfloor> = 2 ^ 52" unfolding h by (simp add: floor_eq_iff)
  have "round_even (y / 2) = 2 ^ 52"
    using f h by (simp add: round_even_def Let_def)
  then show ?thesis unfolding y_def[symmetric] using y0 q by (simp add: js_double_def Let_def)
qed

section \<open>The rhythm catalog entry\<close>

text \<open>
  An entry of \<open>RHYTHM_PARAMS\<close> (rhythms.js is not among the sources; the catalog is a
  parameter of the model wherever the code reads it).  Every field is optional, as in a
  JavaScript object: \<open>None\<close> is \<open>undefined\<close>, and the empty object \<open>{}\<close> that the
  engine stores for a rhythm without entry is \<open>empty_params\<close>.  Only the fields that the
  modelled code reads are kept.
\<close>

record rhythm_params =
  generatorType :: "string option"
  isPEA :: "bool option"
  isChaotic :: "bool option"
  isFlat :: "bool option"
  isArtifact :: "bool option"
  artifactType :: "string option"
  baseHR :: "real option"
  irregular :: "real option"
  artifact_freq :: "real option"
  blockType :: "string option"
  atrialRate :: "real option"
  prIntervalStart :: "real option"
  prIncrement :: "real option"
  wenckebachRatioBeats :: "real option"
  conductionProbability :: "real option"
  prIntervalFixed :: "real option"
  escapeEnabled :: "bool option"
  escapeRate :: "real option"
  spo2Value :: "real option"
  spo2Shape :: "string option"
  cpr_abp_sys :: "real option"
  cpr_abp_dia :: "real option"
  cpr_abp_shape :: "string option"
  abpSys :: "real option"
  abpDia :: "real option"
  abpShape :: "string option"
  etco2ValueKpa :: "real option"
  respiratoryRate :: "real option"
  rp_etco2Shape :: "string option"

definition empty_params :: rhythm_params where
  "empty_params =
     \<lparr>generatorType = None, isPEA = None, isChaotic = None, isFlat = None, isArtifact = None,
      artifactType = None, baseHR = None, irregular = None, artifact_freq = None,
      blockType = None, atrialRate = None, prIntervalStart = None, prIncrement = None,
      wenckebachRatioBeats = None, conductionProbability = None, prIntervalFixed = None,
      escapeEnabled = None, escapeRate = None, spo2Value = None, spo2Shape = None, cpr_abp_sys = None,
      cpr_abp_dia = None, cpr_abp_shape = None, abpSys = None, abpDia = None, abpShape = None,
      etco2ValueKpa = None, respiratoryRate = None, rp_etco2Shape = None\<rparr>"

text \<open>A flag used as a condition: \<open>undefined\<close> and \<open>false\<close> are falsy.\<close>

definition truthy :: "bool option \<Rightarrow> bool" where
  "truthy b = (b = Some True)"

text \<open>\<open>x ?? d\<close>.\<close>

definition nullish :: "'a option \<Rightarrow> 'a \<Rightarrow> 'a" where
  "nullish x d = (case x of None \<Rightarrow> d | Some v \<Rightarrow> v)"

text \<open>A string used as a condition, and \<open>s || d\<close>: \<open>undefined\<close> and the empty string are falsy.\<close>

definition str_or :: "string option \<Rightarrow> string \<Rightarrow> string" where
  "str_or s d = (case s of None \<Rightarrow> d | Some v \<Rightarrow> if v = [] then d else v)"

section \<open>ecgGenerators/avBlockGenerator.js: the AV block generator\<close>

text \<open>
  The state object that \<open>generateAVBlock\<close> receives and returns.  \<open>droppedLast\<close> is
  absent from a fresh state, which reads as false.
\<close>

record avb_state =
  lastPTime :: jsnum
  nextPTime :: jsnum
  lastQRSTime :: jsnum
  nextQRSTime :: jsnum
  wenckebachCycleBeat :: nat
  currentPR :: real
  pWaveCount :: nat
  conductedBeatCount :: nat
  nextEscapeBeatTime :: jsnum
  droppedLast :: bool
  lastQRSwasEscape :: "bool option"
  lastConductedPR :: "jsnum option"

text \<open>
  The values that \<open>Math.random()\<close> returns during one call of \<open>generateAVBlock\<close>, one
  for each place that draws a number and acts on the state: the first escape beat of a
  third-degree block, the conduction of a P wave in Mobitz II, the escape timer that a
  conducted beat pushes back, and the irregularity of an escape interval.  (The draw for
  the noise changes the sample value only.)
\<close>

record avb_draws =
  drawInitial :: real
  drawConduction :: real
  drawEscapeReset :: real
  drawIrregular :: real

text \<open>The product of a number and a finite number, with the IEEE rules for the infinities.\<close>

fun js_scale :: "jsnum \<Rightarrow> real \<Rightarrow> jsnum" where
  "js_scale (Fin a) r = Fin (a * r)"
| "js_scale PInf r = (if 0 < r then PInf else if r < 0 then NInf else NaN)"
| "js_scale NInf r = (if 0 < r then NInf else if r < 0 then PInf else NaN)"
| "js_scale NaN r = NaN"

text \<open>\<open>escapeRate > 0 ? 60.0 / escapeRate : Infinity\<close>, of a rate that may be \<open>undefined\<close>.\<close>

definition avb_escapeInterval :: "real option \<Rightarrow> jsnum" where
  "avb_escapeInterval rate =
     (case rate of Some r \<Rightarrow> if r > 0 then Fin (60 / r) else PInf | None \<Rightarrow> PInf)"

text \<open>
  The model is the state transition of \<open>generateAVBlock\<close>, for every \<open>blockType\<close>.  The
  sample value it also returns (P wave, QRS-T complex and random noise) does not feed
  back into the state and is left out.  The engine hands the state of one call to the
  next through a JSON copy, which keeps finite numbers and booleans and replaces the
  infinite times by \<open>null\<close>; that copy is not modelled.

  The state of the first call (\<open>!state || Object.keys(state).length === 0\<close>).
\<close>

definition avb_init :: "real \<Rightarrow> rhythm_params \<Rightarrow> avb_draws \<Rightarrow> avb_state" where
  "avb_init currentTime p d =
     (let st = \<lparr>lastPTime = NInf, nextPTime = Fin currentTime,
                lastQRSTime = NInf, nextQRSTime = Fin currentTime,
                wenckebachCycleBeat = 0, currentPR = nullish (prIntervalStart p) (16 / 100),
                pWaveCount = 0, conductedBeatCount = 0, nextEscapeBeatTime = PInf,
                droppedLast = False, lastQRSwasEscape = None, lastConductedPR = None\<rparr>;
          st1 = (if blockType p = Some ''avb3''
                 then st\<lparr>nextQRSTime :=
                          js_add (Fin currentTime)
                            (js_scale (avb_escapeInterval (baseHR p)) (drawInitial d))\<rparr>
                 else st)
      in if blockType p = Some ''mobitz2'' \<and> truthy (escapeEnabled p)
         then st1\<lparr>nextEscapeBeatTime :=
                    js_add (Fin currentTime) (avb_escapeInterval (escapeRate p))\<rparr>
         else st1)"

text \<open>\<open>pInterval = atrialRate > 0 ? 60.0 / atrialRate : Infinity\<close>.\<close>

definition avb_pInterval :: "rhythm_params \<Rightarrow> jsnum" where
  "avb_pInterval p =
     (let atrialRate = nullish (atrialRate p) 70
      in if atrialRate > 0 then Fin (60 / atrialRate) else PInf)"

text \<open>
  One atrial event: the body of \<open>if (currentTime >= state.nextPTime && pInterval <
  Infinity)\<close>.  The result is the new state, \<open>conductThisP\<close> and
  \<open>currentPRForConduction\<close>.  The Wenckebach branch is taken for \<open>blockType ===
  'mobitz1'\<close>; in Mobitz II the P wave conducts when the number drawn is below the
  conduction probability; for any other block type (the third-degree block) no P wave
  conducts.
\<close>

definition avb_atrial ::
  "real \<Rightarrow> rhythm_params \<Rightarrow> avb_draws \<Rightarrow> avb_state \<Rightarrow> avb_state \<times> bool \<times> real" where
  "avb_atrial currentTime p d st =
     (let st1 = st\<lparr>lastPTime := nextPTime st,
                     nextPTime := js_add (nextPTime st) (avb_pInterval p)\<rparr>;
          st3 =
            (if blockType p = Some ''mobitz1'' then
               (let st2 = st1\<lparr>wenckebachCycleBeat := wenckebachCycleBeat st1 + 1\<rparr>
                in if droppedLast st2
                   then st2\<lparr>currentPR := nullish (prIntervalStart p) (16 / 100),
                            wenckebachCycleBeat := 1, droppedLast := False\<rparr>
                   else st2)
             else if blockType p = Some ''mobitz2''
             then st1\<lparr>pWaveCount := pWaveCount st1 + 1\<rparr>
             else st1);
          (st4, conductThisP, currentPRForConduction) =
            (if blockType p = Some ''mobitz1'' then
               (if real (wenckebachCycleBeat st3) \<ge> nullish (wenckebachRatioBeats p) 4
                then (st3\<lparr>droppedLast := True\<rparr>, False, 0)
                else (st3\<lparr>currentPR := currentPR st3 + nullish (prIncrement p) (6 / 100)\<rparr>,
                      True, currentPR st3))
             else if blockType p = Some ''mobitz2'' then
               (if drawConduction d < nullish (conductionProbability p) (1 / 2)
                then (st3\<lparr>conductedBeatCount := conductedBeatCount st3 + 1\<rparr>,
                      True, nullish (prIntervalFixed p) (18 / 100))
                else (st3, False, 0))
             else (st3, False, 0))
      in if conductThisP then
           (let st5 = st4\<lparr>nextQRSTime := js_add (lastPTime st4) (Fin currentPRForConduction)\<rparr>
            in (if blockType p = Some ''mobitz2'' \<and> truthy (escapeEnabled p)
                then st5\<lparr>nextEscapeBeatTime :=
                           js_add (Fin currentTime)
                             (js_scale (avb_escapeInterval (escapeRate p))
                                (15 / 10 + drawEscapeReset d))\<rparr>
                else st5,
                True, currentPRForConduction))
         else (st4, False, currentPRForConduction))"

text \<open>
  The ventricular schedule.  In the two second-degree blocks a QRS that a conducted P
  wave has scheduled fires once its time has come; the third-degree block and the escape
  rhythm of Mobitz II fire on schedules of their own.  The result is the new state and
  \<open>generateQRSNow\<close>; when a QRS fires, the last statements of the function record in
  the state whether it was an escape beat and its PR interval.
  \<open>60.0 / (params.atrialRate * 1.5)\<close> is \<open>NaN\<close> for a missing rate.
\<close>

definition avb_irregularityFactor :: "rhythm_params \<Rightarrow> avb_draws \<Rightarrow> real" where
  "avb_irregularityFactor p d = 1 + nullish (irregular p) (2 / 100) * (drawIrregular d - 1 / 2) * 2"

definition avb_ventricular ::
  "real \<Rightarrow> rhythm_params \<Rightarrow> avb_draws \<Rightarrow> avb_state \<Rightarrow> avb_state \<times> bool" where
  "avb_ventricular currentTime p d st =
     (if (blockType p = Some ''mobitz1'' \<or> blockType p = Some ''mobitz2'') \<and>
         js_ge (Fin currentTime) (nextQRSTime st) \<and> js_gt (nextQRSTime st) (lastQRSTime st)
      then (if js_gt (nextQRSTime st) (lastPTime st)
            then (let prForThisQRS = js_sub (nextQRSTime st) (lastPTime st)
                  in (st\<lparr>lastQRSTime := nextQRSTime st, nextQRSTime := PInf,
                         lastQRSwasEscape := Some False,
                         lastConductedPR := Some prForThisQRS\<rparr>, True))
            else (st\<lparr>nextQRSTime := PInf\<rparr>, False))
      else if blockType p = Some ''avb3'' \<and> js_ge (Fin currentTime) (nextQRSTime st)
      then (st\<lparr>lastQRSTime := nextQRSTime st,
               nextQRSTime :=
                 js_add (nextQRSTime st)
                   (js_scale (avb_escapeInterval (baseHR p)) (avb_irregularityFactor p d)),
               lastQRSwasEscape := Some True, lastConductedPR := Some (Fin 0)\<rparr>, True)
      else if blockType p = Some ''mobitz2'' \<and> truthy (escapeEnabled p) \<and>
              js_ge (Fin currentTime) (nextEscapeBeatTime st)
      then (if js_gt (Fin currentTime)
                 (js_add (lastQRSTime st)
                    (case atrialRate p of
                       None \<Rightarrow> NaN
                     | Some a \<Rightarrow> if a = 0 then PInf else Fin (60 / (a * (15 / 10)))))
            then (st\<lparr>lastQRSTime := nextEscapeBeatTime st,
                     nextEscapeBeatTime :=
                       js_add (nextEscapeBeatTime st)
                         (js_scale (avb_escapeInterval (escapeRate p))
                            (avb_irregularityFactor p d)),
                     lastQRSwasEscape := Some True, lastConductedPR := Some (Fin 0)\<rparr>, True)
            else (st\<lparr>nextEscapeBeatTime := js_add (nextEscapeBeatTime st) (Fin (1 / 10))\<rparr>,
                  False))
      else (st, False))"

text \<open>
  One call of \<open>generateAVBlock(currentTime, params, state)\<close>; \<open>None\<close> is the empty
  state object.  The result is the returned state, whether this call was an atrial event,
  whether that event conducted, with which PR interval, and whether a QRS fired.
\<close>

definition generateAVBlock ::
  "real \<Rightarrow> rhythm_params \<Rightarrow> avb_draws \<Rightarrow> avb_state option \<Rightarrow>
   avb_state \<times> bool \<times> bool \<times> real \<times> bool" where
  "generateAVBlock currentTime p d state =
     (let st0 = (case state of None \<Rightarrow> avb_init currentTime p d | Some s \<Rightarrow> s);
          pEvent = (js_ge (Fin currentTime) (nextPTime st0) \<and> js_lt (avb_pInterval p) PInf);
          (st1, conductThisP, pr) =
            (if pEvent then avb_atrial currentTime p d st0 else (st0, False, 0));
          (st2, generateQRSNow) = avb_ventricular currentTime p d st1
      in (st2, pEvent, conductThisP, pr, generateQRSNow))"

text \<open>
  A run of the generator from the empty state: the engine calls it once per simulation
  step, the call number \<open>j\<close> at the time \<open>t0 + j * dt\<close> with the draws \<open>ds j\<close>.  The
  result lists, for each of the \<open>n\<close> calls from number \<open>j\<close> on, whether it was an atrial
  event, whether that event conducted, its PR interval, and whether a QRS fired.
\<close>

fun avb_calls ::
  "rhythm_params \<Rightarrow> (nat \<Rightarrow> avb_draws) \<Rightarrow> real \<Rightarrow> real \<Rightarrow> avb_state option \<Rightarrow> nat \<Rightarrow> nat \<Rightarrow>
   (bool \<times> bool \<times> real \<times> bool) list" where
  "avb_calls p ds dt t0 state j 0 = []"
| "avb_calls p ds dt t0 state j (Suc n) =
     (case generateAVBlock (t0 + real j * dt) p (ds j) state of
        (st', pEvent, c, pr, q) \<Rightarrow>
          (pEvent, c, pr, q) # avb_calls p ds dt t0 (Some st') (Suc j) n)"

text \<open>
  The decisions of \<open>n\<close> successive atrial events from a state, whatever the times of the
  calls: for each, whether it conducted and the PR interval it used; and the state after
  them.
\<close>

fun atrial_events ::
  "rhythm_params \<Rightarrow> (nat \<Rightarrow> real) \<Rightarrow> (nat \<Rightarrow> avb_draws) \<Rightarrow> avb_state \<Rightarrow> nat \<Rightarrow> nat \<Rightarrow>
   (bool \<times> real) list" where
  "atrial_events p ts ds st k 0 = []"
| "atrial_events p ts ds st k (Suc n) =
     (case avb_atrial (ts k) p (ds k) st of
        (st', c, pr) \<Rightarrow> (c, pr) # atrial_events p ts ds st' (Suc k) n)"

fun atrial_state ::
  "rhythm_params \<Rightarrow> (nat \<Rightarrow> real) \<Rightarrow> (nat \<Rightarrow> avb_draws) \<Rightarrow> avb_state \<Rightarrow> nat \<Rightarrow> nat \<Rightarrow>
   avb_state" where
  "atrial_state p ts ds st k 0 = st"
| "atrial_state p ts ds st k (Suc n) =
     atrial_state p ts ds (fst (avb_atrial (ts k) p (ds k) st)) (Suc k) n"

section \<open>The Wenckebach pattern\<close>

text \<open>
  The 3:1 conduction pattern of a Wenckebach cycle of four: the atrial event number \<open>k\<close>
  (from 0) conducts unless it is the fourth of its cycle, and a conducted one uses the
  start interval \<open>s\<close> plus one increment \<open>i\<close> for each conducted beat before it in
  the cycle.
\<close>

definition wk_pattern :: "real \<Rightarrow> real \<Rightarrow> nat \<Rightarrow> bool \<times> real" where
  "wk_pattern s i k = (k mod 4 \<noteq> 3, if k mod 4 = 3 then 0 else s + real (k mod 4) * i)"

text \<open>
  The pattern in time, for atrial events every \<open>P\<close> seconds and calls every \<open>dt\<close> seconds
  (times counted from the first call).  The call number \<open>j\<close> falls into the interval of
  the atrial event \<open>k = floor(j * dt / P)\<close>.  It is that atrial event if it is the first
  call at or after its time \<open>k * P\<close>; and it fires a QRS if the event conducts and the
  call is the first one at or after the time \<open>k * P + PR\<close> of its QRS.
\<close>

definition wk_event :: "real \<Rightarrow> real \<Rightarrow> nat \<Rightarrow> nat" where
  "wk_event P dt j = nat \<lfloor>real j * dt / P\<rfloor>"

definition wk_call :: "real \<Rightarrow> real \<Rightarrow> real \<Rightarrow> real \<Rightarrow> nat \<Rightarrow> bool \<times> bool \<times> real \<times> bool" where
  "wk_call s i P dt j =
     (let k = wk_event P dt j;
          tj = real j * dt;
          pk = real k * P;
          pEvent = (tj - dt < pk);
          (c, pr) = wk_pattern s i k;
          q = (c \<and> tj - dt < pk + pr \<and> pk + pr \<le> tj)
      in (pEvent, pEvent \<and> c, if pEvent then pr else 0, q))"

text \<open>The Wenckebach fields of the state after \<open>k\<close> atrial events.\<close>

definition wk_inv :: "rhythm_params \<Rightarrow> nat \<Rightarrow> avb_state \<Rightarrow> bool" where
  "wk_inv p k st =
     (let s = nullish (prIntervalStart p) (16 / 100); i = nullish (prIncrement p) (6 / 100)
      in if k = 0 then wenckebachCycleBeat st = 0 \<and> currentPR st = s \<and> \<not> droppedLast st
         else if k mod 4 = 0 then wenckebachCycleBeat st = 4 \<and> droppedLast st
         else wenckebachCycleBeat st = k mod 4 \<and> currentPR st = s + real (k mod 4) * i \<and>
              \<not> droppedLast st)"

text \<open>
  The schedule fields of the state once the atrial event \<open>k\<close> has been processed and the
  calls up to the time \<open>tprev\<close> have been made: the QRS of a conducted event is pending
  until its time has come and recorded as the last QRS afterwards.
\<close>

definition wk_sched ::
  "rhythm_params \<Rightarrow> real \<Rightarrow> real \<Rightarrow> nat \<Rightarrow> real \<Rightarrow> avb_state \<Rightarrow> bool" where
  "wk_sched p t0 P k tprev st =
     (let s = nullish (prIntervalStart p) (16 / 100); i = nullish (prIncrement p) (6 / 100);
          pk = t0 + real k * P;
          (c, pr) = wk_pattern s i k
      in lastPTime st = Fin pk \<and> nextPTime st = Fin (pk + P) \<and> wk_inv p (Suc k) st \<and>
         (if c \<and> tprev < pk + pr
          then nextQRSTime st = Fin (pk + pr) \<and> js_lt (lastQRSTime st) (Fin pk)
          else if c then nextQRSTime st = PInf \<and> lastQRSTime st = Fin (pk + pr)
          else nextQRSTime st = PInf \<and> js_lt (lastQRSTime st) (Fin pk)))"
section \<open>script.js: the state of the monitor\<close>

text \<open>
  The constants of config.js and script.js that the modelled code reads.
\<close>

definition SAMPLE_RATE :: real where
  "SAMPLE_RATE = 100"

text \<open>
  \<open>1.0 / SAMPLE_RATE\<close>, the length of a logical step: the quotient is rounded, to the
  double next above one hundredth.
\<close>

definition simulationStep :: real where
  "simulationStep = js_double (1 / SAMPLE_RATE)"

definition VITAL_INTERPOLATION_RATE :: real where
  "VITAL_INTERPOLATION_RATE = 3 / 10"

definition INTERPOLATION_SNAP_THRESHOLD :: real where
  "INTERPOLATION_SNAP_THRESHOLD = 1 / 10"

definition SHOCK_ARTIFACT_SAMPLES :: real where
  "SHOCK_ARTIFACT_SAMPLES = 15"

definition DEFAULT_SPO2_SHAPE :: string where
  "DEFAULT_SPO2_SHAPE = ''normal''"

definition DEFAULT_ABP_SHAPE :: string where
  "DEFAULT_ABP_SHAPE = ''normal''"

definition DEFAULT_ETCO2_SHAPE :: string where
  "DEFAULT_ETCO2_SHAPE = ''normal''"

definition DEFAULT_ETCO2_KPA :: real where
  "DEFAULT_ETCO2_KPA = 53 / 10"

definition DEFAULT_RESP_RATE :: real where
  "DEFAULT_RESP_RATE = 15"

text \<open>
  The channels of a parameter snapshot.  The vital values are finite numbers (sliders and
  the catalog supply them); where the code passes one through \<open>ensureFinite\<close> the model
  does so too.  A missing or empty string is \<open>[]\<close>.  The display attributes (\<open>visible\<close>,
  colours and the non-invasive pressure reading) play no part in scheduling or in the
  migration of values and are left out; the five channels are always present, as
  \<open>_initializeTargetParams\<close> creates them.
\<close>

record ecg_channel =
  rhythm :: string
  hr :: real
  params :: "rhythm_params option"

record spo2_channel =
  spo2_value :: real
  spo2_shape :: string

record abp_channel =
  abp_sys :: real
  abp_dia :: real
  abp_shape :: string

record etco2_channel =
  valueKpa :: real
  rr :: real
  etco2Shape :: string
  unitPref :: string

record temp_channel =
  valueC :: real
  temp_unitPref :: string

record param_set =
  ecg :: ecg_channel
  spo2 :: spo2_channel
  abp :: abp_channel
  etco2 :: etco2_channel
  temp :: temp_channel

text \<open>
  The fields of \<open>WaveformGenerator\<close> that the clock, the schedulers and the parameter
  controller read and write.  The sweep buffers and their indices are written only.
  \<open>interpolationTargetParams\<close> is \<open>null\<close> until the constructor has filled it.
\<close>

record monitor =
  rhythmTime :: real
  respiratoryTime :: real
  lastTimestamp :: real
  simulationTimeAccumulator :: real
  nextBeatTime :: jsnum
  lastBeatTime :: jsnum
  nextBreathTime :: jsnum
  lastBreathTime :: jsnum
  nextCompressionTime :: jsnum
  lastCompressionTime :: jsnum
  ecgState :: "avb_state option"
  currentParams :: param_set
  targetParams :: param_set
  interpolationTargetParams :: "param_set option"
  animationRunning :: bool
  shockRequested :: bool
  pendingEtco2Params :: "etco2_channel option"
  isEtco2UpdatePending :: bool
  pendingSpo2Params :: "spo2_channel option"
  isSpo2UpdatePending :: bool
  pendingAbpParams :: "abp_channel option"
  isAbpUpdatePending :: bool

text \<open>A numeric field of a catalog entry, as the number that \<open>ensureFinite\<close> receives.\<close>

definition opt_num :: "real option \<Rightarrow> jsnum" where
  "opt_num x = (case x of None \<Rightarrow> NaN | Some v \<Rightarrow> Fin v)"

section \<open>script.js: the schedulers\<close>

text \<open>\<open>this.interpolationTargetParams?.ecg || this.currentParams.ecg\<close>.\<close>

definition ecgSourceForRate :: "monitor \<Rightarrow> ecg_channel" where
  "ecgSourceForRate m =
     (case interpolationTargetParams m of Some ip \<Rightarrow> ecg ip | None \<Rightarrow> ecg (currentParams m))"

text \<open>
  \<open>_calculateNextBeatTime\<close>, in three parts: the variable \<open>rate\<close> after the first
  conditional, the variable \<open>interval\<close> after the second, and the assignment of
  \<open>nextBeatTime\<close>.  \<open>u\<close> is the value that \<open>Math.random()\<close> returns.
\<close>

definition beatRate :: "monitor \<Rightarrow> real" where
  "beatRate m =
     (let ecgSource = ecgSourceForRate m
      in case params ecgSource of
           None \<Rightarrow> 0
         | Some p \<Rightarrow>
             (let isPEAv = nullish (isPEA p) False;
                  isPulselessVT = (rhythm ecgSource = ''vt_pulseless'')
              in if generatorType p = Some ''pqrst'' then
                   (if isPEAv \<or> isPulselessVT
                    then max (ensureFinite (opt_num (baseHR p)) 0) 0
                    else max (ensureFinite (Fin (hr ecgSource)) 0) 0)
                 else if generatorType p = Some ''avBlock'' \<or> generatorType p = Some ''paced''
                 then max (ensureFinite (Fin (hr ecgSource)) 0) 0
                 else 0))"

text \<open>
  The variable \<open>interval\<close> after \<open>interval = 60.0 / rate\<close>, before the irregularity and
  the floor are applied (\<open>Infinity\<close> when the rate is 0), and the factor
  \<open>1.0 + (Math.random() - 0.5) * 2 * irreg\<close> by which an irregular rhythm multiplies it
  (1 when the statement is not executed).
\<close>

definition intervalBeforeIrregularity :: "monitor \<Rightarrow> jsnum" where
  "intervalBeforeIrregularity m =
     (let rate = beatRate m in if rate > 0 then Fin (60 / rate) else PInf)"

definition irregularityMultiplier :: "real \<Rightarrow> monitor \<Rightarrow> real" where
  "irregularityMultiplier u m =
     (let irreg = nullish (case params (ecgSourceForRate m) of
                             None \<Rightarrow> None | Some p \<Rightarrow> irregular p) 0
      in if irreg > 0 \<and> irreg \<le> 1 \<and> params (ecg (currentParams m)) \<noteq> None
         then 1 + (u - 1 / 2) * 2 * irreg
         else 1)"

definition beatInterval :: "real \<Rightarrow> monitor \<Rightarrow> jsnum" where
  "beatInterval u m =
     (let rate = beatRate m
      in if rate > 0 then
           (let interval = 60 / rate;
                irreg = nullish (case params (ecgSourceForRate m) of
                                   None \<Rightarrow> None | Some p \<Rightarrow> irregular p) 0;
                interval2 =
                  (if irreg > 0 \<and> irreg \<le> 1 \<and> params (ecg (currentParams m)) \<noteq> None
                   then interval * (1 + (u - 1 / 2) * 2 * irreg)
                   else interval)
            in Fin (max (1 / 10) interval2))
         else PInf)"

definition calculateNextBeatTime :: "real \<Rightarrow> monitor \<Rightarrow> monitor" where
  "calculateNextBeatTime u m =
     (let interval = beatInterval u m
      in if interval = PInf then m\<lparr>nextBeatTime := PInf\<rparr>
         else
           (let baseTime = (if lastBeatTime m = NInf then Fin (rhythmTime m) else lastBeatTime m);
                nbt = js_add baseTime interval
            in m\<lparr>nextBeatTime :=
                   (if js_le nbt (Fin (rhythmTime m))
                    then Fin (rhythmTime m + simulationStep) else nbt)\<rparr>))"

text \<open>\<open>_resetBreathTiming(interval)\<close>.\<close>

definition resetBreathTiming :: "jsnum \<Rightarrow> monitor \<Rightarrow> monitor" where
  "resetBreathTiming interval m =
     m\<lparr>lastBreathTime := Fin (respiratoryTime m),
       nextBreathTime := js_add (Fin (respiratoryTime m)) interval\<rparr>"

text \<open>\<open>_resetCompressionTiming()\<close>.\<close>

definition resetCompressionTiming :: "monitor \<Rightarrow> monitor" where
  "resetCompressionTiming m =
     (let interval =
            (case params (ecg (currentParams m)) of
               None \<Rightarrow> PInf
             | Some p \<Rightarrow>
                 if generatorType p = Some ''artifact'' \<and> artifactType p = Some ''cpr'' then
                   (let freq = nullish (artifact_freq p) 110
                    in if freq > 0 then Fin (max (1 / 10) (60 / freq)) else PInf)
                 else PInf)
      in m\<lparr>lastCompressionTime := Fin (rhythmTime m),
           nextCompressionTime := js_add (Fin (rhythmTime m)) interval,
           lastBeatTime := Fin (rhythmTime m)\<rparr>)"

text \<open>\<open>rr > 0 ? Math.max(0.5, 60.0 / rr) : Infinity\<close>.\<close>

definition breathInterval :: "real \<Rightarrow> jsnum" where
  "breathInterval r = (if r > 0 then Fin (max (1 / 2) (60 / r)) else PInf)"

text \<open>
  The two blocks that apply a pending shape at a beat or compression boundary
  (\<open>if (this.isSpo2UpdatePending && this.pendingSpo2Params)\<close> and its ABP twin).
\<close>

definition applyPendingSpo2 :: "monitor \<Rightarrow> monitor" where
  "applyPendingSpo2 m =
     (case pendingSpo2Params m of
        Some ps \<Rightarrow>
          if isSpo2UpdatePending m then
            m\<lparr>currentParams :=
                 (currentParams m)\<lparr>spo2 := (spo2 (currentParams m))\<lparr>spo2_shape := spo2_shape ps\<rparr>\<rparr>,
              isSpo2UpdatePending := False, pendingSpo2Params := None\<rparr>
          else m
      | None \<Rightarrow> m)"

definition applyPendingAbp :: "monitor \<Rightarrow> monitor" where
  "applyPendingAbp m =
     (case pendingAbpParams m of
        Some pa \<Rightarrow>
          if isAbpUpdatePending m then
            m\<lparr>currentParams :=
                 (currentParams m)\<lparr>abp := (abp (currentParams m))\<lparr>abp_shape := abp_shape pa\<rparr>\<rparr>,
              isAbpUpdatePending := False, pendingAbpParams := None\<rparr>
          else m
      | None \<Rightarrow> m)"

text \<open>\<open>_checkAndResetTimers()\<close>: first the breath schedule, then the beat schedule.\<close>

definition checkBreathTimer :: "monitor \<Rightarrow> monitor" where
  "checkBreathTimer m =
     (if isEtco2UpdatePending m \<and> pendingEtco2Params m \<noteq> None then
        (if js_ge (Fin (respiratoryTime m)) (nextBreathTime m) then
           (case pendingEtco2Params m of
              Some pe \<Rightarrow>
                m\<lparr>currentParams := (currentParams m)\<lparr>etco2 := pe\<rparr>,
                  lastBreathTime := Fin (respiratoryTime m),
                  nextBreathTime := js_add (Fin (respiratoryTime m)) (breathInterval (rr pe)),
                  isEtco2UpdatePending := False, pendingEtco2Params := None\<rparr>
            | None \<Rightarrow> m)
         else m)
      else if js_ge (Fin (respiratoryTime m)) (nextBreathTime m) then
        (let currentRr = ensureFinite (Fin (rr (etco2 (currentParams m)))) 0;
             currentBreathInterval = breathInterval currentRr
         in if js_lt currentBreathInterval PInf
            then resetBreathTiming currentBreathInterval m else m)
      else m)"

definition checkBeatTimer :: "real \<Rightarrow> monitor \<Rightarrow> monitor" where
  "checkBeatTimer u m =
     (let currentTime = rhythmTime m
      in case params (ecg (currentParams m)) of
           None \<Rightarrow> m
         | Some ecgParams \<Rightarrow>
             if generatorType ecgParams = Some ''pqrst'' \<or>
                generatorType ecgParams = Some ''avBlock'' \<or>
                generatorType ecgParams = Some ''paced'' then
               (if js_ge (Fin currentTime) (nextBeatTime m) then
                  applyPendingAbp (applyPendingSpo2
                    (calculateNextBeatTime u (m\<lparr>lastBeatTime := nextBeatTime m\<rparr>)))
                else m)
             else if generatorType ecgParams = Some ''artifact'' \<and>
                     artifactType ecgParams = Some ''cpr'' then
               (if js_ge (Fin currentTime) (nextCompressionTime m) then
                  applyPendingAbp (applyPendingSpo2 (resetCompressionTiming m))
                else m)
             else m)"

definition checkAndResetTimers :: "real \<Rightarrow> monitor \<Rightarrow> monitor" where
  "checkAndResetTimers u m = checkBeatTimer u (checkBreathTimer m)"

text \<open>
  What \<open>_generateECGWaveformInternal\<close> and the assignment \<open>this.ecgState =
  ecgResult.state\<close> do to the state.  \<open>gen\<close> is the state transition of the generator
  that \<open>ecgGeneratorRegistry\<close> holds for \<open>avBlock\<close>.  The copy through JSON that the
  previous generator state goes through is not modelled.
\<close>

definition generateECGWaveformInternal ::
  "(real \<Rightarrow> rhythm_params \<Rightarrow> avb_state option \<Rightarrow> avb_state) \<Rightarrow> monitor \<Rightarrow> monitor" where
  "generateECGWaveformInternal gen m =
     (case params (ecg (currentParams m)) of
        None \<Rightarrow> m\<lparr>ecgState := None\<rparr>
      | Some p \<Rightarrow>
          (let g = generatorType p
           in if g = Some ''pqrst'' \<or> g = Some ''paced'' then m\<lparr>ecgState := None\<rparr>
              else if g = Some ''avBlock''
              then m\<lparr>ecgState := Some (gen (rhythmTime m) p (ecgState m))\<rparr>
              else if g = Some ''chaotic'' \<or> g = Some ''flatline''
              then m\<lparr>ecgState := None, lastBeatTime := NInf\<rparr>
              else if g = Some ''artifact'' then
                (if artifactType p = Some ''cpr'' then m\<lparr>ecgState := None\<rparr> else m)
              else m\<lparr>ecgState := None, lastBeatTime := NInf\<rparr>))"

text \<open>
  \<open>updateWaveforms(simulationStep)\<close>: one logical step of the length \<open>step\<close>.  The four samples that it
  computes and stores in the sweep buffers do not change the state modelled here.
\<close>

definition updateWaveforms ::
  "(real \<Rightarrow> rhythm_params \<Rightarrow> avb_state option \<Rightarrow> avb_state) \<Rightarrow> real \<Rightarrow> real \<Rightarrow> monitor \<Rightarrow> monitor" where
  "updateWaveforms gen u step m =
     generateECGWaveformInternal gen
       (checkAndResetTimers u
          (m\<lparr>rhythmTime := rhythmTime m + step,
             respiratoryTime := respiratoryTime m + step\<rparr>))"

section \<open>script.js: the rendering-loop callback\<close>

text \<open>
  The catch-up loop of \<open>_animationLoop\<close>:
  \<open>while (this.simulationTimeAccumulator >= simulationStep) { if (!this.animationRunning)
  break; this.updateWaveforms(simulationStep); this.simulationTimeAccumulator -=
  simulationStep; }\<close> with \<open>simulationStep = 1.0 / SAMPLE_RATE\<close>.
\<close>

lemma calculateNextBeatTime_fields [simp]:
  "simulationTimeAccumulator (calculateNextBeatTime u m) = simulationTimeAccumulator m"
  "animationRunning (calculateNextBeatTime u m) = animationRunning m"
  "rhythmTime (calculateNextBeatTime u m) = rhythmTime m"
  "respiratoryTime (calculateNextBeatTime u m) = respiratoryTime m"
  "lastBeatTime (calculateNextBeatTime u m) = lastBeatTime m"
  "currentParams (calculateNextBeatTime u m) = currentParams m"
  "targetParams (calculateNextBeatTime u m) = targetParams m"
  "interpolationTargetParams (calculateNextBeatTime u m) = interpolationTargetParams m"
  "pendingEtco2Params (calculateNextBeatTime u m) = pendingEtco2Params m"
  "isEtco2UpdatePending (calculateNextBeatTime u m) = isEtco2UpdatePending m"
  "pendingSpo2Params (calculateNextBeatTime u m) = pendingSpo2Params m"
  "isSpo2UpdatePending (calculateNextBeatTime u m) = isSpo2UpdatePending m"
  "pendingAbpParams (calculateNextBeatTime u m) = pendingAbpParams m"
  "isAbpUpdatePending (calculateNextBeatTime u m) = isAbpUpdatePending m"
  "nextBreathTime (calculateNextBeatTime u m) = nextBreathTime m"
  "lastBreathTime (calculateNextBeatTime u m) = lastBreathTime m"
  "ecgState (calculateNextBeatTime u m) = ecgState m"
  by (simp_all add: calculateNextBeatTime_def Let_def)

lemma resetCompressionTiming_fields [simp]:
  "simulationTimeAccumulator (resetCompressionTiming m) = simulationTimeAccumulator m"
  "animationRunning (resetCompressionTiming m) = animationRunning m"
  "rhythmTime (resetCompressionTiming m) = rhythmTime m"
  "respiratoryTime (resetCompressionTiming m) = respiratoryTime m"
  "nextBeatTime (resetCompressionTiming m) = nextBeatTime m"
  "currentParams (resetCompressionTiming m) = currentParams m"
  "targetParams (resetCompressionTiming m) = targetParams m"
  "interpolationTargetParams (resetCompressionTiming m) = interpolationTargetParams m"
  "pendingEtco2Params (resetCompressionTiming m) = pendingEtco2Params m"
  "isEtco2UpdatePending (resetCompressionTiming m) = isEtco2UpdatePending m"
  "pendingSpo2Params (resetCompressionTiming m) = pendingSpo2Params m"
  "isSpo2UpdatePending (resetCompressionTiming m) = isSpo2UpdatePending m"
  "pendingAbpParams (resetCompressionTiming m) = pendingAbpParams m"
  "isAbpUpdatePending (resetCompressionTiming m) = isAbpUpdatePending m"
  "nextBreathTime (resetCompressionTiming m) = nextBreathTime m"
  "lastBreathTime (resetCompressionTiming m) = lastBreathTime m"
  "ecgState (resetCompressionTiming m) = ecgState m"
  by (simp_all add: resetCompressionTiming_def Let_def)

lemma applyPendingSpo2_fields [simp]:
  "simulationTimeAccumulator (applyPendingSpo2 m) = simulationTimeAccumulator m"
  "animationRunning (applyPendingSpo2 m) = animationRunning m"
  "rhythmTime (applyPendingSpo2 m) = rhythmTime m"
  "respiratoryTime (applyPendingSpo2 m) = respiratoryTime m"
  "nextBeatTime (applyPendingSpo2 m) = nextBeatTime m"
  "lastBeatTime (applyPendingSpo2 m) = lastBeatTime m"
  "targetParams (applyPendingSpo2 m) = targetParams m"
  "interpolationTargetParams (applyPendingSpo2 m) = interpolationTargetParams m"
  "pendingEtco2Params (applyPendingSpo2 m) = pendingEtco2Params m"
  "isEtco2UpdatePending (applyPendingSpo2 m) = isEtco2UpdatePending m"
  "pendingAbpParams (applyPendingSpo2 m) = pendingAbpParams m"
  "isAbpUpdatePending (applyPendingSpo2 m) = isAbpUpdatePending m"
  "nextBreathTime (applyPendingSpo2 m) = nextBreathTime m"
  "lastBreathTime (applyPendingSpo2 m) = lastBreathTime m"
  "ecgState (applyPendingSpo2 m) = ecgState m"
  "ecg (currentParams (applyPendingSpo2 m)) = ecg (currentParams m)"
  "abp (currentParams (applyPendingSpo2 m)) = abp (currentParams m)"
  "etco2 (currentParams (applyPendingSpo2 m)) = etco2 (currentParams m)"
  "temp (currentParams (applyPendingSpo2 m)) = temp (currentParams m)"
  "spo2_value (spo2 (currentParams (applyPendingSpo2 m))) = spo2_value (spo2 (currentParams m))"
  by (simp_all add: applyPendingSpo2_def split: option.splits)

lemma applyPendingAbp_fields [simp]:
  "simulationTimeAccumulator (applyPendingAbp m) = simulationTimeAccumulator m"
  "animationRunning (applyPendingAbp m) = animationRunning m"
  "rhythmTime (applyPendingAbp m) = rhythmTime m"
  "respiratoryTime (applyPendingAbp m) = respiratoryTime m"
  "nextBeatTime (applyPendingAbp m) = nextBeatTime m"
  "lastBeatTime (applyPendingAbp m) = lastBeatTime m"
  "targetParams (applyPendingAbp m) = targetParams m"
  "interpolationTargetParams (applyPendingAbp m) = interpolationTargetParams m"
  "pendingEtco2Params (applyPendingAbp m) = pendingEtco2Params m"
  "isEtco2UpdatePending (applyPendingAbp m) = isEtco2UpdatePending m"
  "pendingSpo2Params (applyPendingAbp m) = pendingSpo2Params m"
  "isSpo2UpdatePending (applyPendingAbp m) = isSpo2UpdatePending m"
  "nextBreathTime (applyPendingAbp m) = nextBreathTime m"
  "lastBreathTime (applyPendingAbp m) = lastBreathTime m"
  "ecgState (applyPendingAbp m) = ecgState m"
  "ecg (currentParams (applyPendingAbp m)) = ecg (currentParams m)"
  "spo2 (currentParams (applyPendingAbp m)) = spo2 (currentParams m)"
  "etco2 (currentParams (applyPendingAbp m)) = etco2 (currentParams m)"
  "temp (currentParams (applyPendingAbp m)) = temp (currentParams m)"
  "abp_sys (abp (currentParams (applyPendingAbp m))) = abp_sys (abp (currentParams m))"
  "abp_dia (abp (currentParams (applyPendingAbp m))) = abp_dia (abp (currentParams m))"
  by (simp_all add: applyPendingAbp_def split: option.splits)

lemma checkBreathTimer_fields [simp]:
  "simulationTimeAccumulator (checkBreathTimer m) = simulationTimeAccumulator m"
  "animationRunning (checkBreathTimer m) = animationRunning m"
  "rhythmTime (checkBreathTimer m) = rhythmTime m"
  "respiratoryTime (checkBreathTimer m) = respiratoryTime m"
  "nextBeatTime (checkBreathTimer m) = nextBeatTime m"
  "lastBeatTime (checkBreathTimer m) = lastBeatTime m"
  "nextCompressionTime (checkBreathTimer m) = nextCompressionTime m"
  "targetParams (checkBreathTimer m) = targetParams m"
  "interpolationTargetParams (checkBreathTimer m) = interpolationTargetParams m"
  "pendingSpo2Params (checkBreathTimer m) = pendingSpo2Params m"
  "isSpo2UpdatePending (checkBreathTimer m) = isSpo2UpdatePending m"
  "pendingAbpParams (checkBreathTimer m) = pendingAbpParams m"
  "isAbpUpdatePending (checkBreathTimer m) = isAbpUpdatePending m"
  "ecgState (checkBreathTimer m) = ecgState m"
  "ecg (currentParams (checkBreathTimer m)) = ecg (currentParams m)"
  "spo2 (currentParams (checkBreathTimer m)) = spo2 (currentParams m)"
  "abp (currentParams (checkBreathTimer m)) = abp (currentParams m)"
  "temp (currentParams (checkBreathTimer m)) = temp (currentParams m)"
  by (simp_all add: checkBreathTimer_def resetBreathTiming_def Let_def split: option.splits)

lemma checkBeatTimer_fields [simp]:
  "simulationTimeAccumulator (checkBeatTimer u m) = simulationTimeAccumulator m"
  "animationRunning (checkBeatTimer u m) = animationRunning m"
  "rhythmTime (checkBeatTimer u m) = rhythmTime m"
  "respiratoryTime (checkBeatTimer u m) = respiratoryTime m"
  "targetParams (checkBeatTimer u m) = targetParams m"
  "interpolationTargetParams (checkBeatTimer u m) = interpolationTargetParams m"
  "pendingEtco2Params (checkBeatTimer u m) = pendingEtco2Params m"
  "isEtco2UpdatePending (checkBeatTimer u m) = isEtco2UpdatePending m"
  "nextBreathTime (checkBeatTimer u m) = nextBreathTime m"
  "lastBreathTime (checkBeatTimer u m) = lastBreathTime m"
  "ecgState (checkBeatTimer u m) = ecgState m"
  "ecg (currentParams (checkBeatTimer u m)) = ecg (currentParams m)"
  "etco2 (currentParams (checkBeatTimer u m)) = etco2 (currentParams m)"
  "temp (currentParams (checkBeatTimer u m)) = temp (currentParams m)"
  "spo2_value (spo2 (currentParams (checkBeatTimer u m))) = spo2_value (spo2 (currentParams m))"
  "abp_sys (abp (currentParams (checkBeatTimer u m))) = abp_sys (abp (currentParams m))"
  "abp_dia (abp (currentParams (checkBeatTimer u m))) = abp_dia (abp (currentParams m))"
  by (simp_all add: checkBeatTimer_def Let_def split: option.splits)

lemma generateECGWaveformInternal_fields [simp]:
  "simulationTimeAccumulator (generateECGWaveformInternal gen m) = simulationTimeAccumulator m"
  "animationRunning (generateECGWaveformInternal gen m) = animationRunning m"
  "rhythmTime (generateECGWaveformInternal gen m) = rhythmTime m"
  "respiratoryTime (generateECGWaveformInternal gen m) = respiratoryTime m"
  "nextBeatTime (generateECGWaveformInternal gen m) = nextBeatTime m"
  "nextBreathTime (generateECGWaveformInternal gen m) = nextBreathTime m"
  "lastBreathTime (generateECGWaveformInternal gen m) = lastBreathTime m"
  "currentParams (generateECGWaveformInternal gen m) = currentParams m"
  "targetParams (generateECGWaveformInternal gen m) = targetParams m"
  "interpolationTargetParams (generateECGWaveformInternal gen m) = interpolationTargetParams m"
  "pendingEtco2Params (generateECGWaveformInternal gen m) = pendingEtco2Params m"
  "isEtco2UpdatePending (generateECGWaveformInternal gen m) = isEtco2UpdatePending m"
  "pendingSpo2Params (generateECGWaveformInternal gen m) = pendingSpo2Params m"
  "isSpo2UpdatePending (generateECGWaveformInternal gen m) = isSpo2UpdatePending m"
  "pendingAbpParams (generateECGWaveformInternal gen m) = pendingAbpParams m"
  "isAbpUpdatePending (generateECGWaveformInternal gen m) = isAbpUpdatePending m"
  by (simp_all add: generateECGWaveformInternal_def Let_def split: option.splits)

lemma updateWaveforms_fields [simp]:
  "simulationTimeAccumulator (updateWaveforms gen u s m) = simulationTimeAccumulator m"
  "animationRunning (updateWaveforms gen u s m) = animationRunning m"
  "rhythmTime (updateWaveforms gen u s m) = rhythmTime m + s"
  "respiratoryTime (updateWaveforms gen u s m) = respiratoryTime m + s"
  "targetParams (updateWaveforms gen u s m) = targetParams m"
  "interpolationTargetParams (updateWaveforms gen u s m) = interpolationTargetParams m"
  by (simp_all add: updateWaveforms_def checkAndResetTimers_def)

lemma simulationStep_value: "simulationStep = 5764607523034235 / 2 ^ 59"
proof -
  define x :: real where "x = 1 / 100"
  have x0: "0 < x" by (simp add: x_def)
  have "(2::real) powr (- 7) \<le> x \<and> x < 2 powr (- 7 + 1)"
    by (simp add: x_def powr_minus powr_numeral)
  then have e: "\<lfloor>log 2 \<bar>x\<bar>\<rfloor> = - 7"
    using floor_log_eq_powr_iff[of x 2 "- 7"] x0 by simp
  have q: "(2::real) powr (of_int \<lfloor>log 2 \<bar>x\<bar>\<rfloor> - 52) = 1 / 2 ^ 59"
    unfolding e by (simp add: powr_minus powr_numeral)
  have h: "x / (1 / 2 ^ 59) = 5764607523034234 + 22 / 25" by (simp add: x_def)
  have f: "\<lfloor>x / (1 / 2 ^ 59)\<rfloor> = 5764607523034234" unfolding h by (simp add: floor_eq_iff)
  have r: "round_even (x / (1 / 2 ^ 59)) = 5764607523034235"
    unfolding round_even_def Let_def f unfolding h by simp
  have "js_double x = (1 / 2 ^ 59) * of_int (round_even (x / (1 / 2 ^ 59)))"
    using x0 unfolding js_double_def Let_def q by simp
  then have "js_double x = 5764607523034235 / 2 ^ 59"
    unfolding r by simp
  then show ?thesis by (simp add: simulationStep_def SAMPLE_RATE_def x_def)
qed

lemma simulationStep_bounds: "1 / 100 < simulationStep" "simulationStep < 1 / 100 + 1 / 10 ^ 18"
  by (simp_all add: simulationStep_value)


text \<open>
  \<open>this.simulationTimeAccumulator -= simulationStep\<close> in double arithmetic: the exact
  difference plus the rounding error \<open>e\<close> of this subtraction.  The model takes the error
  as given, one for each iteration, and bounds it by half a step; the rounding error of a
  double subtraction is at most half a unit in the last place of the result, which is
  less than \<open>2^-9\<close> for an accumulator below \<open>2^44\<close> seconds.
\<close>

definition roundingError :: "real \<Rightarrow> real" where
  "roundingError e = max (- (simulationStep / 2)) (min (simulationStep / 2) e)"

definition subtractStep :: "real \<Rightarrow> real \<Rightarrow> real" where
  "subtractStep e acc = acc - simulationStep + roundingError e"

lemma roundingError_bounds:
  "\<bar>roundingError e\<bar> \<le> simulationStep / 2" "\<bar>roundingError e\<bar> \<le> \<bar>e\<bar>"
  using simulationStep_bounds(1) by (auto simp add: roundingError_def max_def min_def)

lemma subtractStep_bounds:
  "acc - 3 / 2 * simulationStep \<le> subtractStep e acc"
  "subtractStep e acc \<le> acc - simulationStep / 2"
  using roundingError_bounds(1)[of e] by (auto simp add: subtractStep_def)

lemma catchUp_measure:
  "simulationStep \<le> a \<Longrightarrow> nat \<lfloor>subtractStep e a * 200\<rfloor> < nat \<lfloor>a * 200\<rfloor>"
proof -
  assume s: "simulationStep \<le> a"
  have "subtractStep e a \<le> a - simulationStep / 2" by (rule subtractStep_bounds)
  then have "subtractStep e a * 200 \<le> a * 200 - 1"
    using simulationStep_bounds(1) by simp
  then have "\<lfloor>subtractStep e a * 200\<rfloor> \<le> \<lfloor>a * 200 - 1\<rfloor>" by (rule floor_mono)
  moreover have "\<lfloor>a * 200 - 1\<rfloor> = \<lfloor>a * 200\<rfloor> - 1" by simp
  moreover have "1 \<le> a * 200" using s simulationStep_bounds(1) by simp
  then have "1 \<le> \<lfloor>a * 200\<rfloor>" by (simp add: le_floor_iff)
  ultimately show ?thesis by linarith
qed

text \<open>
  The loop, and the number of iterations it makes.  \<open>us k\<close> is the random number drawn
  in the iteration number \<open>k\<close> and \<open>rs k\<close> the rounding error of its subtraction.
\<close>

function catchUp ::
  "(real \<Rightarrow> rhythm_params \<Rightarrow> avb_state option \<Rightarrow> avb_state) \<Rightarrow> (nat \<Rightarrow> real) \<Rightarrow> (nat \<Rightarrow> real) \<Rightarrow>
   nat \<Rightarrow> monitor \<Rightarrow> monitor" where
  "catchUp gen us rs k m =
     (if simulationTimeAccumulator m \<ge> simulationStep then
        (if \<not> animationRunning m then m
         else catchUp gen us rs (Suc k)
                (let m' = updateWaveforms gen (us k) simulationStep m
                 in m'\<lparr>simulationTimeAccumulator :=
                        subtractStep (rs k) (simulationTimeAccumulator m')\<rparr>))
      else m)"
  by pat_completeness auto
termination
proof (relation "measure (\<lambda>(gen, us, rs, k, m). nat \<lfloor>simulationTimeAccumulator m * 200\<rfloor>)")
  show "wf (measure (\<lambda>(gen, us, rs, k, m). nat \<lfloor>simulationTimeAccumulator m * 200\<rfloor>))"
    by simp
next
  fix gen :: "real \<Rightarrow> rhythm_params \<Rightarrow> avb_state option \<Rightarrow> avb_state"
    and us :: "nat \<Rightarrow> real" and rs :: "nat \<Rightarrow> real" and k :: nat and m :: monitor
  assume a: "simulationStep \<le> simulationTimeAccumulator m"
  have "simulationTimeAccumulator
          (let m' = updateWaveforms gen (us k) simulationStep m
           in m'\<lparr>simulationTimeAccumulator :=
                  subtractStep (rs k) (simulationTimeAccumulator m')\<rparr>) =
        subtractStep (rs k) (simulationTimeAccumulator m)"
    by (simp add: Let_def)
  then show
    "((gen, us, rs, Suc k,
       let m' = updateWaveforms gen (us k) simulationStep m
       in m'\<lparr>simulationTimeAccumulator := subtractStep (rs k) (simulationTimeAccumulator m')\<rparr>),
      gen, us, rs, k, m)
     \<in> measure (\<lambda>(gen, us, rs, k, m). nat \<lfloor>simulationTimeAccumulator m * 200\<rfloor>)"
    using catchUp_measure[OF a] by (simp only: in_measure prod.case)
qed

declare catchUp.simps [simp del]

function catchUpCount ::
  "(real \<Rightarrow> rhythm_params \<Rightarrow> avb_state option \<Rightarrow> avb_state) \<Rightarrow> (nat \<Rightarrow> real) \<Rightarrow> (nat \<Rightarrow> real) \<Rightarrow>
   nat \<Rightarrow> monitor \<Rightarrow> nat" where
  "catchUpCount gen us rs k m =
     (if simulationTimeAccumulator m \<ge> simulationStep then
        (if \<not> animationRunning m then 0
         else Suc (catchUpCount gen us rs (Suc k)
                (let m' = updateWaveforms gen (us k) simulationStep m
                 in m'\<lparr>simulationTimeAccumulator :=
                        subtractStep (rs k) (simulationTimeAccumulator m')\<rparr>)))
      else 0)"
  by pat_completeness auto
termination
proof (relation "measure (\<lambda>(gen, us, rs, k, m). nat \<lfloor>simulationTimeAccumulator m * 200\<rfloor>)")
  show "wf (measure (\<lambda>(gen, us, rs, k, m). nat \<lfloor>simulationTimeAccumulator m * 200\<rfloor>))"
    by simp
next
  fix gen :: "real \<Rightarrow> rhythm_params \<Rightarrow> avb_state option \<Rightarrow> avb_state"
    and us :: "nat \<Rightarrow> real" and rs :: "nat \<Rightarrow> real" and k :: nat and m :: monitor
  assume a: "simulationStep \<le> simulationTimeAccumulator m"
  have "simulationTimeAccumulator
          (let m' = updateWaveforms gen (us k) simulationStep m
           in m'\<lparr>simulationTimeAccumulator :=
                  subtractStep (rs k) (simulationTimeAccumulator m')\<rparr>) =
        subtractStep (rs k) (simulationTimeAccumulator m)"
    by (simp add: Let_def)
  then show
    "((gen, us, rs, Suc k,
       let m' = updateWaveforms gen (us k) simulationStep m
       in m'\<lparr>simulationTimeAccumulator := subtractStep (rs k) (simulationTimeAccumulator m')\<rparr>),
      gen, us, rs, k, m)
     \<in> measure (\<lambda>(gen, us, rs, k, m). nat \<lfloor>simulationTimeAccumulator m * 200\<rfloor>)"
    using catchUp_measure[OF a] by (simp only: in_measure prod.case)
qed

declare catchUpCount.simps [simp del]

text \<open>
  The interpolation of one numeric field, as the loop writes it out for each of them:
  \<open>if (Math.abs(diff) > snap) current += diff * rate * interpolationDelta; else if
  (current !== target) current = target;\<close>.
\<close>

definition nudge :: "real \<Rightarrow> real \<Rightarrow> real \<Rightarrow> real \<Rightarrow> real" where
  "nudge rate interpolationDelta currentVal targetVal =
     (let diff = targetVal - currentVal
      in if \<bar>diff\<bar> > INTERPOLATION_SNAP_THRESHOLD
         then currentVal + diff * rate * interpolationDelta
         else if currentVal \<noteq> targetVal then targetVal else currentVal)"

text \<open>
  The rhythms for which the heart rate is not interpolated:
  \<open>ecgP && (ecgP.isFlat || ecgP.isChaotic || ecgP.isPEA || ecgP.isArtifact ||
  this.currentParams.ecg.rhythm === "vt_pulseless")\<close>.
\<close>

definition hrFixed :: "ecg_channel \<Rightarrow> bool" where
  "hrFixed e =
     (case params e of
        None \<Rightarrow> False
      | Some ecgP \<Rightarrow> truthy (isFlat ecgP) \<or> truthy (isChaotic ecgP) \<or> truthy (isPEA ecgP) \<or>
                    truthy (isArtifact ecgP) \<or> rhythm e = ''vt_pulseless'')"

definition interpolateHr :: "real \<Rightarrow> ecg_channel \<Rightarrow> real \<Rightarrow> real" where
  "interpolateHr interpolationDelta e targetVal =
     (let currentVal = hr e; diff = targetVal - currentVal
      in if \<bar>diff\<bar> > INTERPOLATION_SNAP_THRESHOLD then
           (if \<not> hrFixed e
            then currentVal + diff * VITAL_INTERPOLATION_RATE * interpolationDelta
            else if currentVal \<noteq> 0 then 0 else currentVal)
         else if currentVal \<noteq> targetVal then targetVal else currentVal)"

text \<open>The arterial pressure block: both values are nudged, then coerced.\<close>

definition interpolateAbp :: "real \<Rightarrow> bool \<Rightarrow> abp_channel \<Rightarrow> abp_channel \<Rightarrow> abp_channel" where
  "interpolateAbp interpolationDelta pending cur tgt =
     (let snap = INTERPOLATION_SNAP_THRESHOLD;
          targetSys = abp_sys tgt; targetDia = abp_dia tgt;
          sys1 = nudge VITAL_INTERPOLATION_RATE interpolationDelta (abp_sys cur) targetSys;
          dia1 = nudge VITAL_INTERPOLATION_RATE interpolationDelta (abp_dia cur) targetDia;
          dia2 = max 0 dia1;
          sys2 = max (dia2 + 1) sys1;
          zero = (targetSys = 0 \<and> targetDia = 0 \<and> \<bar>sys2\<bar> < snap * 2 \<and> \<bar>dia2\<bar> < snap * 2);
          sys3 = (if zero then 0 else sys2);
          dia3 = (if zero then 0 else dia2)
      in \<lparr>abp_sys = sys3, abp_dia = dia3,
          abp_shape = (if abp_shape cur \<noteq> abp_shape tgt \<and> \<not> pending
                       then abp_shape tgt else abp_shape cur)\<rparr>)"

definition interpolateSpo2 :: "real \<Rightarrow> bool \<Rightarrow> spo2_channel \<Rightarrow> spo2_channel \<Rightarrow> spo2_channel" where
  "interpolateSpo2 interpolationDelta pending cur tgt =
     \<lparr>spo2_value = nudge VITAL_INTERPOLATION_RATE interpolationDelta (spo2_value cur) (spo2_value tgt),
      spo2_shape = (if spo2_shape cur \<noteq> spo2_shape tgt \<and> \<not> pending
                    then spo2_shape tgt else spo2_shape cur)\<rparr>"

text \<open>
  The parameter reconciliation of \<open>_animationLoop\<close>:
  \<open>if (this.interpolationTargetParams && interpolationDelta > 0) { ... }\<close>.
\<close>

definition interpolateParams :: "real \<Rightarrow> monitor \<Rightarrow> monitor" where
  "interpolateParams interpolationDelta m =
     (case interpolationTargetParams m of
        None \<Rightarrow> m
      | Some ip \<Rightarrow>
          if interpolationDelta > 0 then
            (let cp = currentParams m
             in m\<lparr>currentParams :=
                  \<lparr>ecg = (ecg cp)\<lparr>hr := interpolateHr interpolationDelta (ecg cp) (hr (ecg ip))\<rparr>,
                   spo2 = interpolateSpo2 interpolationDelta (isSpo2UpdatePending m) (spo2 cp) (spo2 ip),
                   abp = interpolateAbp interpolationDelta (isAbpUpdatePending m) (abp cp) (abp ip),
                   etco2 = (etco2 cp)\<lparr>unitPref := unitPref (etco2 ip)\<rparr>,
                   temp = \<lparr>valueC = nudge (VITAL_INTERPOLATION_RATE / 2) interpolationDelta
                                      (valueC (temp cp)) (valueC (temp ip)),
                           temp_unitPref = temp_unitPref (temp ip)\<rparr>\<rparr>\<rparr>)
          else m)"

text \<open>\<open>stopAnimation()\<close>.\<close>

definition stopAnimation :: "monitor \<Rightarrow> monitor" where
  "stopAnimation m =
     (if \<not> animationRunning m then m
      else m\<lparr>animationRunning := False, shockRequested := False, ecgState := None,
             rhythmTime := 0, respiratoryTime := 0, simulationTimeAccumulator := 0,
             lastBeatTime := NInf, nextBeatTime := Fin 0,
             lastBreathTime := NInf, nextBreathTime := Fin 0,
             lastCompressionTime := NInf, nextCompressionTime := Fin 0,
             pendingEtco2Params := None, isEtco2UpdatePending := False,
             pendingSpo2Params := None, isSpo2UpdatePending := False,
             pendingAbpParams := None, isAbpUpdatePending := False\<rparr>)"

section \<open>script.js: the parameter change controller\<close>

text \<open>
  The test that recurs for a rhythm that produces no pulse or is the compression
  artefact: \<open>p.isPEA || p.isChaotic || p.isFlat || key === "vt_pulseless" || (p.isArtifact
  && p.artifactType === 'cpr')\<close>.
\<close>

definition pulselessOrCpr :: "rhythm_params \<Rightarrow> string \<Rightarrow> bool" where
  "pulselessOrCpr p key =
     (truthy (isPEA p) \<or> truthy (isChaotic p) \<or> truthy (isFlat p) \<or> key = ''vt_pulseless'' \<or>
      (truthy (isArtifact p) \<and> artifactType p = Some ''cpr''))"

text \<open>
  \<open>initiateParameterChange()\<close>, block by block.  The first statement has already
  copied the requested parameters into \<open>interpolationTargetParams\<close> when the blocks
  below run.  The capnography block:
\<close>

definition ipc_etco2 :: "monitor \<Rightarrow> monitor" where
  "ipc_etco2 m =
     (let tp = targetParams m; cp = currentParams m;
          oldCurrentEtco2RR = rr (etco2 cp);
          m1 =
            (if (valueKpa (etco2 tp), rr (etco2 tp), etco2Shape (etco2 tp)) \<noteq>
                  (valueKpa (etco2 cp), rr (etco2 cp), etco2Shape (etco2 cp)) \<or>
                (isEtco2UpdatePending m \<and> pendingEtco2Params m \<noteq> Some (etco2 tp))
             then
               (let m' = m\<lparr>pendingEtco2Params := Some (etco2 tp),
                            isEtco2UpdatePending := True,
                            interpolationTargetParams :=
                              map_option (\<lambda>ip. ip\<lparr>etco2 := etco2 tp\<rparr>)
                                (interpolationTargetParams m)\<rparr>
                in if rr (etco2 tp) > 0 \<and> oldCurrentEtco2RR = 0
                   then m'\<lparr>nextBreathTime := Fin (respiratoryTime m)\<rparr> else m')
             else m)
      in if unitPref (etco2 (currentParams m1)) \<noteq> unitPref (etco2 tp) then
           m1\<lparr>currentParams :=
                (currentParams m1)\<lparr>etco2 :=
                   (etco2 (currentParams m1))\<lparr>unitPref := unitPref (etco2 tp)\<rparr>\<rparr>,
              interpolationTargetParams :=
                map_option (\<lambda>ip. ip\<lparr>etco2 := (etco2 ip)\<lparr>unitPref := unitPref (etco2 tp)\<rparr>\<rparr>)
                  (interpolationTargetParams m1)\<rparr>
         else m1)"

text \<open>
  The saturation block compares the request with \<open>interpolationTargetParams\<close>, which
  at this point is the copy of the request made by the first statement.
\<close>

definition ipc_spo2 :: "string \<Rightarrow> monitor \<Rightarrow> monitor" where
  "ipc_spo2 oldSpo2Shape m =
     (let tp = targetParams m;
          differs =
            (case interpolationTargetParams m of
               Some ip \<Rightarrow> (spo2_value (spo2 tp), spo2_shape (spo2 tp)) \<noteq>
                          (spo2_value (spo2 ip), spo2_shape (spo2 ip))
             | None \<Rightarrow> True)
      in if differs then
           (let m1 = m\<lparr>pendingSpo2Params := Some (spo2 tp), isSpo2UpdatePending := True,
                        interpolationTargetParams :=
                          map_option (\<lambda>ip. ip\<lparr>spo2 := spo2 tp\<rparr>) (interpolationTargetParams m)\<rparr>;
                wasSpo2NoSignal = (oldSpo2Shape = ''no_signal'');
                isNowSpo2Signal = (spo2_shape (spo2 tp) \<noteq> ''no_signal'' \<and> spo2_value (spo2 tp) > 0)
            in if wasSpo2NoSignal \<and> isNowSpo2Signal then
                 m1\<lparr>currentParams :=
                      (currentParams m1)\<lparr>spo2 :=
                         (spo2 (currentParams m1))\<lparr>spo2_shape := spo2_shape (spo2 tp)\<rparr>\<rparr>,
                    isSpo2UpdatePending := False\<rparr>
               else m1)
         else m)"

definition ipc_abp :: "string \<Rightarrow> monitor \<Rightarrow> monitor" where
  "ipc_abp oldAbpShape m =
     (let tp = targetParams m;
          differs =
            (case interpolationTargetParams m of
               Some ip \<Rightarrow> (abp_sys (abp tp), abp_dia (abp tp), abp_shape (abp tp)) \<noteq>
                          (abp_sys (abp ip), abp_dia (abp ip), abp_shape (abp ip))
             | None \<Rightarrow> True)
      in if differs then
           (let m1 = m\<lparr>pendingAbpParams := Some (abp tp), isAbpUpdatePending := True,
                        interpolationTargetParams :=
                          map_option (\<lambda>ip. ip\<lparr>abp := abp tp\<rparr>) (interpolationTargetParams m)\<rparr>;
                wasAbpNoPressure =
                  (oldAbpShape = ''damped'' \<and>
                   (abp_sys (abp (currentParams m1)) = 0 \<or> abp_dia (abp (currentParams m1)) = 0));
                isNowAbpPressure = (abp_sys (abp tp) > 0 \<or> abp_dia (abp tp) > 0)
            in if wasAbpNoPressure \<and> isNowAbpPressure then
                 m1\<lparr>currentParams :=
                      (currentParams m1)\<lparr>abp :=
                         (abp (currentParams m1))\<lparr>abp_shape := abp_shape (abp tp)\<rparr>\<rparr>,
                    isAbpUpdatePending := False\<rparr>
               else m1)
         else m)"

text \<open>
  The rhythm block: the branch for a changed rhythm key.  \<open>catalog\<close> is
  \<open>RHYTHM_PARAMS\<close>; a key without entry gets the empty parameter object.
\<close>

definition ipc_rhythm_changed ::
  "(string \<Rightarrow> rhythm_params option) \<Rightarrow> string \<Rightarrow> monitor \<Rightarrow> monitor" where
  "ipc_rhythm_changed catalog oldRhythmKey m =
     (let tp = targetParams m;
          targetRhythmKey = rhythm (ecg tp);
          newEcgRuntimeParams =
            (case catalog targetRhythmKey of Some d \<Rightarrow> d | None \<Rightarrow> empty_params);
          cp1 = (currentParams m)\<lparr>ecg :=
                  (ecg (currentParams m))\<lparr>rhythm := targetRhythmKey,
                                           params := Some newEcgRuntimeParams\<rparr>\<rparr>;
          m1 = m\<lparr>currentParams := cp1, ecgState := None\<rparr>;
          cpr = (targetRhythmKey = ''cpr_artifact'')
      in if pulselessOrCpr newEcgRuntimeParams targetRhythmKey then
           (let cp2 = cp1\<lparr>ecg := (ecg cp1)\<lparr>hr := 0\<rparr>\<rparr>;
                m2 =
                  (case catalog targetRhythmKey of
                     None \<Rightarrow> m1\<lparr>currentParams := cp2\<rparr>
                   | Some rd \<Rightarrow>
                       (let cp3 = cp2\<lparr>
                              spo2 := \<lparr>spo2_value = (if cpr then nullish (spo2Value rd) 0 else 0),
                                       spo2_shape = (if cpr then str_or (spo2Shape rd) ''no_signal''
                                                     else ''no_signal'')\<rparr>,
                              abp := \<lparr>abp_sys = (if cpr then nullish (cpr_abp_sys rd) 0 else 0),
                                      abp_dia = (if cpr then nullish (cpr_abp_dia rd) 0 else 0),
                                      abp_shape = (if cpr then str_or (cpr_abp_shape rd) ''damped''
                                                   else ''damped'')\<rparr>,
                              etco2 := (etco2 cp2)\<lparr>
                                  valueKpa := (if cpr then nullish (etco2ValueKpa rd) 0 else 0),
                                  rr := (if cpr then nullish (respiratoryRate rd) 0 else 0),
                                  etco2Shape := (if cpr then str_or (rp_etco2Shape rd) ''disconnect''
                                                 else ''disconnect'')\<rparr>\<rparr>
                        in resetBreathTiming
                             (if rr (etco2 cp3) > 0 then Fin (60 / rr (etco2 cp3)) else PInf)
                             (m1\<lparr>currentParams := cp3,
                                 interpolationTargetParams :=
                                   map_option (\<lambda>ip. ip\<lparr>etco2 := etco2 cp3\<rparr>)
                                     (interpolationTargetParams m1),
                                 isEtco2UpdatePending := False, pendingEtco2Params := None,
                                 lastBreathTime := NInf,
                                 nextBreathTime := Fin (respiratoryTime m1)\<rparr>)))
            in m2\<lparr>interpolationTargetParams :=
                    map_option
                      (\<lambda>ip. ip\<lparr>ecg := (ecg ip)\<lparr>hr := hr (ecg (currentParams m2))\<rparr>,
                                spo2 := spo2 (currentParams m2),
                                abp := abp (currentParams m2)\<rparr>)
                      (interpolationTargetParams m2),
                  isSpo2UpdatePending := False, pendingSpo2Params := None,
                  isAbpUpdatePending := False, pendingAbpParams := None\<rparr>)
         else
           (let wasPulselessOrCpr =
                  (oldRhythmKey \<noteq> [] \<and>
                   (case catalog oldRhythmKey of
                      Some od \<Rightarrow> pulselessOrCpr od oldRhythmKey | None \<Rightarrow> False))
            in if wasPulselessOrCpr then
                 m1\<lparr>currentParams :=
                      cp1\<lparr>spo2 := (spo2 cp1)\<lparr>spo2_shape :=
                                      str_or (Some (spo2_shape (spo2 tp))) DEFAULT_SPO2_SHAPE\<rparr>,
                          abp := (abp cp1)\<lparr>abp_shape :=
                                    str_or (Some (abp_shape (abp tp))) DEFAULT_ABP_SHAPE\<rparr>\<rparr>\<rparr>
               else m1))"

text \<open>
  The branch for an unchanged rhythm whose requested heart rate differs from the
  rendered one; the result says whether the beat schedule must be reset.
\<close>

definition ipc_hr_changed :: "monitor \<Rightarrow> monitor \<times> bool" where
  "ipc_hr_changed m =
     (let ce = ecg (currentParams m);
          isCurrentRhythmPulselessOrCpr =
            (case params ce of Some p \<Rightarrow> pulselessOrCpr p (rhythm ce) | None \<Rightarrow> False)
      in if isCurrentRhythmPulselessOrCpr then
           (m\<lparr>currentParams := (currentParams m)\<lparr>ecg := ce\<lparr>hr := 0\<rparr>\<rparr>,
              interpolationTargetParams :=
                map_option (\<lambda>ip. ip\<lparr>ecg := (ecg ip)\<lparr>hr := 0\<rparr>\<rparr>) (interpolationTargetParams m),
              targetParams := (targetParams m)\<lparr>ecg := (ecg (targetParams m))\<lparr>hr := 0\<rparr>\<rparr>\<rparr>,
            False)
         else (m, True))"

text \<open>The reset of the beat and compression schedules (\<open>if (ecgTimingResetNeeded)\<close>).\<close>

definition ipc_timing_reset :: "real \<Rightarrow> monitor \<Rightarrow> monitor" where
  "ipc_timing_reset u m =
     (let m1 = calculateNextBeatTime u
                 (m\<lparr>lastBeatTime := NInf, nextBeatTime := Fin (rhythmTime m)\<rparr>);
          m2 = m1\<lparr>lastCompressionTime := NInf, nextCompressionTime := Fin (rhythmTime m1)\<rparr>
      in if (case params (ecg (currentParams m2)) of
               Some p \<Rightarrow> artifactType p = Some ''cpr'' | None \<Rightarrow> False)
         then resetCompressionTiming m2 else m2)"

definition initiateParameterChange ::
  "(string \<Rightarrow> rhythm_params option) \<Rightarrow> real \<Rightarrow> monitor \<Rightarrow> monitor" where
  "initiateParameterChange catalog u m =
     (let oldRhythmKey = rhythm (ecg (currentParams m));
          oldCurrentHR = hr (ecg (currentParams m));
          oldSpo2Shape = spo2_shape (spo2 (currentParams m));
          oldAbpShape = abp_shape (abp (currentParams m));
          m0 = m\<lparr>interpolationTargetParams := Some (targetParams m)\<rparr>;
          m3 = ipc_abp oldAbpShape (ipc_spo2 oldSpo2Shape (ipc_etco2 m0));
          targetRhythmKey = rhythm (ecg (targetParams m3));
          (m4, ecgTimingResetNeeded) =
            (if targetRhythmKey \<noteq> [] \<and> targetRhythmKey \<noteq> oldRhythmKey
             then (ipc_rhythm_changed catalog oldRhythmKey m3, True)
             else if hr (ecg (targetParams m3)) \<noteq> oldCurrentHR then ipc_hr_changed m3
             else (m3, False))
      in if ecgTimingResetNeeded then ipc_timing_reset u m4 else m4)"

text \<open>
  \<open>handleRemoteParamUpdate(receivedParams)\<close>.  Each channel that the message holds
  replaces the requested one; then the ECG parameters are taken from the catalog.
\<close>

record remote_params =
  rx_ecg :: "ecg_channel option"
  rx_spo2 :: "spo2_channel option"
  rx_abp :: "abp_channel option"
  rx_etco2 :: "etco2_channel option"
  rx_temp :: "temp_channel option"

definition handleRemoteParamUpdate ::
  "(string \<Rightarrow> rhythm_params option) \<Rightarrow> real \<Rightarrow> remote_params \<Rightarrow> monitor \<Rightarrow> monitor" where
  "handleRemoteParamUpdate catalog u receivedParams m =
     (let tp = targetParams m;
          tp1 = \<lparr>ecg = nullish (rx_ecg receivedParams) (ecg tp),
                 spo2 = nullish (rx_spo2 receivedParams) (spo2 tp),
                 abp = nullish (rx_abp receivedParams) (abp tp),
                 etco2 = nullish (rx_etco2 receivedParams) (etco2 tp),
                 temp = nullish (rx_temp receivedParams) (temp tp)\<rparr>;
          tp2 = tp1\<lparr>ecg := (ecg tp1)\<lparr>params :=
                    (if rhythm (ecg tp1) \<noteq> [] \<and> catalog (rhythm (ecg tp1)) \<noteq> None
                     then catalog (rhythm (ecg tp1))
                     else Some empty_params)\<rparr>\<rparr>;
          m1 = m\<lparr>targetParams := tp2\<rparr>
      in if \<not> animationRunning m1
         then m1\<lparr>currentParams := tp2, interpolationTargetParams := Some tp2\<rparr>
         else initiateParameterChange catalog u m1)"

section \<open>script.js: the shock\<close>

text \<open>
  \<open>_calculateInitialHR(ecgParams, sliderValue).initialHR\<close> for a slider value that is a
  number or \<open>undefined\<close>, as the shock passes the base rate of the catalog entry.
  \<open>parseInt\<close> of a number in positional notation truncates it, and \<open>Math.round\<close>
  rounds half up.
\<close>

definition calculateInitialHR :: "rhythm_params \<Rightarrow> real option \<Rightarrow> real" where
  "calculateInitialHR ecgParams sliderValue =
     (let isPEAv = nullish (isPEA ecgParams) False;
          isChaoticv = nullish (isChaotic ecgParams) False;
          isFlatv = nullish (isFlat ecgParams) False;
          isArtifactv = nullish (isArtifact ecgParams) False;
          isCprArtifact = (isArtifactv \<and> artifactType ecgParams = Some ''cpr'');
          isPulselessOrCPR = (isPEAv \<or> isChaoticv \<or> isFlatv \<or> isCprArtifact);
          fromSlider = (\<lambda>d. case sliderValue of
                               Some v \<Rightarrow> real_of_int (js_trunc v)
                             | None \<Rightarrow> nullish (baseHR ecgParams) d);
          initialHR =
            (if isPulselessOrCPR then 0
             else if generatorType ecgParams = Some ''avBlock'' then nullish (baseHR ecgParams) 0
             else if generatorType ecgParams = Some ''paced'' then fromSlider 70
             else if generatorType ecgParams = Some ''pqrst'' then fromSlider 75
             else fromSlider 50)
      in real_of_int \<lfloor>ensureFinite (Fin initialHR) 0 + 1 / 2\<rfloor>)"

text \<open>
  \<open>_executeShock(remoteRhythmKey)\<close>.  \<open>role\<close> is what \<open>getCurrentRole()\<close> returns and
  \<open>selected\<close> the value of the rhythm selector of the page (\<open>None\<close> when the element is
  missing).  The artefact samples written into the ECG buffer are not modelled.  The
  result is \<open>Inr\<close> of the new state when the function returns, and \<open>Inl\<close> of the state
  reached when it throws: the assignment to \<open>this.interpolationTargetParams.ecg\<close> raises
  a TypeError when \<open>interpolationTargetParams\<close> is \<open>null\<close>.
\<close>

definition shockRhythmKey :: "string \<Rightarrow> string option \<Rightarrow> string option \<Rightarrow> string" where
  "shockRhythmKey role selected remoteRhythmKey =
     (case remoteRhythmKey of
        Some k \<Rightarrow> if role = ''monitor'' \<and> k \<noteq> [] then k
                  else (case selected of Some v \<Rightarrow> v | None \<Rightarrow> ''normal'')
      | None \<Rightarrow> (case selected of Some v \<Rightarrow> v | None \<Rightarrow> ''normal''))"

definition shockBeatReset :: "real \<Rightarrow> real \<Rightarrow> monitor \<Rightarrow> monitor" where
  "shockBeatReset u shockStartTime m =
     calculateNextBeatTime u
       (m\<lparr>ecgState := None, lastBeatTime := NInf,
          nextBeatTime := Fin (shockStartTime + SHOCK_ARTIFACT_SAMPLES / SAMPLE_RATE + 5 / 100)\<rparr>)"

definition executeShock ::
  "(string \<Rightarrow> rhythm_params option) \<Rightarrow> string \<Rightarrow> string option \<Rightarrow> real \<Rightarrow> string option \<Rightarrow>
   monitor \<Rightarrow> monitor + monitor" where
  "executeShock catalog role selected u remoteRhythmKey m =
     (let shockStartTime = rhythmTime m;
          newRhythmKey = shockRhythmKey role selected remoteRhythmKey
      in case catalog newRhythmKey of
           None \<Rightarrow> Inr (shockBeatReset u shockStartTime m)
         | Some d \<Rightarrow>
             (let isNewRhythmPulseless =
                    (truthy (isPEA d) \<or> truthy (isChaotic d) \<or> truthy (isFlat d) \<or>
                     newRhythmKey = ''vt_pulseless'');
                  isNewRhythmCpr = (newRhythmKey = ''cpr_artifact'');
                  nonPerfusing = (isNewRhythmPulseless \<or> isNewRhythmCpr);
                  newHr = (if nonPerfusing then 0 else calculateInitialHR d (baseHR d));
                  newEcg = (ecg (currentParams m))\<lparr>rhythm := newRhythmKey, params := Some d,
                                                     hr := newHr\<rparr>;
                  m1 = m\<lparr>currentParams := (currentParams m)\<lparr>ecg := newEcg\<rparr>,
                         targetParams := (targetParams m)\<lparr>ecg := newEcg\<rparr>\<rparr>
              in case interpolationTargetParams m1 of
                   None \<Rightarrow> Inl m1
                 | Some ip \<Rightarrow>
                     (let newTargetSpo2 =
                            (if nonPerfusing then
                               \<lparr>spo2_value = (if isNewRhythmCpr then nullish (spo2Value d) 0 else 0),
                                spo2_shape = (if isNewRhythmCpr
                                              then nullish (spo2Shape d) ''no_signal''
                                              else ''no_signal'')\<rparr>
                             else
                               \<lparr>spo2_value = nullish (spo2Value d) 98,
                                spo2_shape = str_or (spo2Shape d) DEFAULT_SPO2_SHAPE\<rparr>);
                          sys0 = nullish (abpSys d) 120;
                          dia0 = nullish (abpDia d) 80;
                          dia1 = max 0 (min dia0 (sys0 - 1));
                          sys1 = max (dia1 + 1) sys0;
                          newTargetAbp =
                            (if nonPerfusing then
                               \<lparr>abp_sys = (if isNewRhythmCpr then nullish (cpr_abp_sys d) 0 else 0),
                                abp_dia = (if isNewRhythmCpr then nullish (cpr_abp_dia d) 0 else 0),
                                abp_shape = (if isNewRhythmCpr
                                             then nullish (cpr_abp_shape d) ''damped''
                                             else ''damped'')\<rparr>
                             else
                               \<lparr>abp_sys = sys1, abp_dia = dia1,
                                abp_shape = str_or (abpShape d) DEFAULT_ABP_SHAPE\<rparr>);
                          unit = str_or (Some (unitPref (etco2 (targetParams m1)))) ''kPa'';
                          newTargetEtco2 =
                            (if nonPerfusing then
                               \<lparr>valueKpa = (if isNewRhythmCpr then nullish (etco2ValueKpa d) 0 else 0),
                                rr = (if isNewRhythmCpr then nullish (respiratoryRate d) 0 else 0),
                                etco2Shape = (if isNewRhythmCpr
                                              then str_or (rp_etco2Shape d) ''cpr_low_flow''
                                              else ''disconnect''),
                                unitPref = unit\<rparr>
                             else
                               \<lparr>valueKpa = nullish (etco2ValueKpa d) DEFAULT_ETCO2_KPA,
                                rr = nullish (respiratoryRate d) DEFAULT_RESP_RATE,
                                etco2Shape = str_or (rp_etco2Shape d) DEFAULT_ETCO2_SHAPE,
                                unitPref = unit\<rparr>);
                          cp1 = currentParams m1;
                          m2 = m1\<lparr>
                            targetParams := (targetParams m1)\<lparr>spo2 := newTargetSpo2,
                               abp := newTargetAbp, etco2 := newTargetEtco2\<rparr>,
                            interpolationTargetParams := Some (ip\<lparr>ecg := newEcg,
                               spo2 := newTargetSpo2, abp := newTargetAbp,
                               etco2 := newTargetEtco2\<rparr>),
                            currentParams := cp1\<lparr>
                               spo2 := (if nonPerfusing then newTargetSpo2 else spo2 cp1),
                               abp := (if nonPerfusing then newTargetAbp else abp cp1),
                               etco2 := newTargetEtco2\<rparr>,
                            isEtco2UpdatePending := False, pendingEtco2Params := None,
                            lastBreathTime := NInf,
                            nextBreathTime := Fin (respiratoryTime m1)\<rparr>;
                          m3 = resetBreathTiming
                                 (if rr newTargetEtco2 > 0 then Fin (60 / rr newTargetEtco2)
                                  else PInf) m2;
                          m4 = shockBeatReset u shockStartTime m3
                      in Inr (m4\<lparr>isSpo2UpdatePending := False, pendingSpo2Params := None,
                                 isAbpUpdatePending := False, pendingAbpParams := None\<rparr>))))"

section \<open>script.js: the rendering-loop callback as a whole\<close>

text \<open>
  \<open>_animationLoop(timestamp)\<close>, up to the end of the parameter reconciliation; the
  drawing and the alarms that follow do not change the state modelled here.  \<open>u0\<close> is
  the random number that a shock draws, \<open>us\<close> those of the catch-up steps and \<open>rs\<close> the
  rounding errors of the catch-up loop.
\<close>

definition animationLoop ::
  "(string \<Rightarrow> rhythm_params option) \<Rightarrow>
   (real \<Rightarrow> rhythm_params \<Rightarrow> avb_state option \<Rightarrow> avb_state) \<Rightarrow>
   string \<Rightarrow> string option \<Rightarrow> real \<Rightarrow> (nat \<Rightarrow> real) \<Rightarrow> (nat \<Rightarrow> real) \<Rightarrow> real \<Rightarrow> monitor \<Rightarrow>
   monitor" where
  "animationLoop catalog gen role selected u0 us rs timestamp m =
     (if \<not> animationRunning m then m
      else
        (case (if shockRequested m
               then executeShock catalog role selected u0 None (m\<lparr>shockRequested := False\<rparr>)
               else Inr m) of
           Inl thrown \<Rightarrow> stopAnimation thrown
         | Inr m1 \<Rightarrow>
             if lastTimestamp m1 = 0 then m1\<lparr>lastTimestamp := timestamp\<rparr>
             else
               (let deltaTimeSeconds = (timestamp - lastTimestamp m1) / 1000;
                    m2 = m1\<lparr>lastTimestamp := timestamp,
                           simulationTimeAccumulator :=
                             simulationTimeAccumulator m1 + deltaTimeSeconds\<rparr>;
                    m3 = catchUp gen us rs 0 m2
                in interpolateParams deltaTimeSeconds m3)))"


text \<open>
  The callbacks that follow one another: while \<open>animationRunning\<close> holds,
  \<open>_animationLoop\<close> ends with \<open>requestAnimationFrame(this._animationLoop.bind(this))\<close>,
  so the host calls it again with a later timestamp.  Each element of the list is the
  timestamp of one callback with the random numbers drawn during it and the rounding
  errors of its catch-up loop.
\<close>

fun callbacks ::
  "(string \<Rightarrow> rhythm_params option) \<Rightarrow>
   (real \<Rightarrow> rhythm_params \<Rightarrow> avb_state option \<Rightarrow> avb_state) \<Rightarrow>
   string \<Rightarrow> string option \<Rightarrow> (real \<times> real \<times> (nat \<Rightarrow> real) \<times> (nat \<Rightarrow> real)) list \<Rightarrow>
   monitor \<Rightarrow> monitor" where
  "callbacks catalog gen role selected [] m = m"
| "callbacks catalog gen role selected ((timestamp, u0, us, rs) # rest) m =
     callbacks catalog gen role selected rest
       (animationLoop catalog gen role selected u0 us rs timestamp m)"
section \<open>A catalog and a state for the worked examples\<close>

text \<open>
  Two catalog entries in the form the code expects (a sinus rhythm and asystole), and a
  monitor that has been rendering the sinus rhythm at 75 beats per minute for one second:
  the inputs at which the examples below evaluate the model.
\<close>

definition example_sinus :: rhythm_params where
  "example_sinus = empty_params\<lparr>generatorType := Some ''pqrst'', baseHR := Some 75\<rparr>"

definition example_asystole :: rhythm_params where
  "example_asystole = empty_params\<lparr>generatorType := Some ''flatline'', isFlat := Some True\<rparr>"

definition example_catalog :: "string \<Rightarrow> rhythm_params option" where
  "example_catalog key =
     (if key = ''normal'' then Some example_sinus
      else if key = ''asystole'' then Some example_asystole
      else None)"

definition example_params :: param_set where
  "example_params =
     \<lparr>ecg = \<lparr>rhythm = ''normal'', hr = 75, params = Some example_sinus\<rparr>,
      spo2 = \<lparr>spo2_value = 98, spo2_shape = ''normal''\<rparr>,
      abp = \<lparr>abp_sys = 120, abp_dia = 80, abp_shape = ''normal''\<rparr>,
      etco2 = \<lparr>valueKpa = 53 / 10, rr = 15, etco2Shape = ''normal'', unitPref = ''kPa''\<rparr>,
      temp = \<lparr>valueC = 37, temp_unitPref = ''C''\<rparr>\<rparr>"

definition example_monitor :: monitor where
  "example_monitor =
     \<lparr>rhythmTime = 1, respiratoryTime = 1, lastTimestamp = 1000,
      simulationTimeAccumulator = 0,
      nextBeatTime = Fin (16 / 10), lastBeatTime = Fin (8 / 10),
      nextBreathTime = Fin 4, lastBreathTime = Fin 0,
      nextCompressionTime = Fin 0, lastCompressionTime = NInf,
      ecgState = None,
      currentParams = example_params, targetParams = example_params,
      interpolationTargetParams = Some example_params,
      animationRunning = True, shockRequested = False,
      pendingEtco2Params = None, isEtco2UpdatePending = False,
      pendingSpo2Params = None, isSpo2UpdatePending = False,
      pendingAbpParams = None, isAbpUpdatePending = False\<rparr>"

text \<open>
  Requested values that differ from the example state in the heart rate, the SpO2 value
  and the pressures; a parameter set with other pressures; the parameter set of a PEA
  rhythm; and the example monitor with given current and target parameters.
\<close>

definition example_target :: param_set where
  "example_target =
     example_params\<lparr>ecg := (ecg example_params)\<lparr>hr := 120\<rparr>,
                    spo2 := (spo2 example_params)\<lparr>spo2_value := 9805 / 100\<rparr>,
                    abp := (abp example_params)\<lparr>abp_sys := 130, abp_dia := 85\<rparr>\<rparr>"

definition with_pressure :: "real \<Rightarrow> real \<Rightarrow> param_set \<Rightarrow> param_set" where
  "with_pressure s d p = p\<lparr>abp := (abp p)\<lparr>abp_sys := s, abp_dia := d\<rparr>\<rparr>"

definition example_pea :: "real \<Rightarrow> param_set" where
  "example_pea h =
     example_params\<lparr>ecg := \<lparr>rhythm = ''pea'', hr = h,
                             params = Some (example_sinus\<lparr>isPEA := Some True\<rparr>)\<rparr>\<rparr>"

definition example_between :: "param_set \<Rightarrow> param_set \<Rightarrow> monitor" where
  "example_between cur tgt =
     example_monitor\<lparr>currentParams := cur, interpolationTargetParams := Some tgt\<rparr>"

text \<open>A generator state transition to stand for the registry entry in the examples.\<close>

definition example_gen :: "real \<Rightarrow> rhythm_params \<Rightarrow> avb_state option \<Rightarrow> avb_state" where
  "example_gen t p st =
     fst (generateAVBlock t p
            \<lparr>drawInitial = 1 / 2, drawConduction = 1 / 2, drawEscapeReset = 1 / 2,
             drawIrregular = 1 / 2\<rparr> st)"

text \<open>
  \<open>n\<close> logical steps in a row, each \<open>updateWaveforms(simulationStep)\<close>; \<open>us k\<close>
  is the random number of step \<open>k\<close>.
\<close>

fun steps ::
  "(real \<Rightarrow> rhythm_params \<Rightarrow> avb_state option \<Rightarrow> avb_state) \<Rightarrow> (nat \<Rightarrow> real) \<Rightarrow> nat \<Rightarrow>
   monitor \<Rightarrow> monitor" where
  "steps gen us 0 m = m"
| "steps gen us (Suc n) m = updateWaveforms gen (us n) simulationStep (steps gen us n m)"

section \<open>Predicates used in the statements\<close>

text \<open>
  The requested ECG channel \<open>e\<close> is a beat-based rhythm that is not pulseless, has no
  irregularity configured, and has the heart rate \<open>r\<close>, with \<open>0 < r \<le> 600\<close>.
\<close>

definition regular_target :: "real \<Rightarrow> ecg_channel \<Rightarrow> bool" where
  "regular_target r e =
     (case params e of
        None \<Rightarrow> False
      | Some p \<Rightarrow>
          (generatorType p = Some ''pqrst'' \<or> generatorType p = Some ''avBlock'' \<or>
           generatorType p = Some ''paced'') \<and>
          \<not> truthy (isPEA p) \<and> rhythm e \<noteq> ''vt_pulseless'' \<and>
          nullish (irregular p) 0 = 0 \<and> hr e = r \<and> 0 < r \<and> r \<le> 600)"

text \<open>\<open>x\<close> lies between \<open>c\<close> and \<open>t\<close>: a move from \<open>c\<close> to \<open>x\<close> goes towards \<open>t\<close>
  and does not pass it.\<close>

definition toward :: "real \<Rightarrow> real \<Rightarrow> real \<Rightarrow> bool" where
  "toward c x t = ((c \<le> x \<and> x \<le> t) \<or> (t \<le> x \<and> x \<le> c))"


text \<open>A pressure pair as the coercion of the callback leaves it: the diastolic value is
  not negative and the systolic value is at least one above it.\<close>

definition abp_ordered :: "abp_channel \<Rightarrow> bool" where
  "abp_ordered a = (0 \<le> abp_dia a \<and> abp_dia a + 1 \<le> abp_sys a)"

text \<open>
  The pressures \<open>cur\<close> from which the interpolation can approach the target \<open>tgt\<close> without
  the coercion \<open>sys = max(dia + 1, sys)\<close> acting against it: either they are ordered, or both
  are at or below their targets (this includes the pressures 0/0).
\<close>

definition abp_approachable :: "abp_channel \<Rightarrow> abp_channel \<Rightarrow> bool" where
  "abp_approachable cur tgt =
     (abp_ordered cur \<or>
      (0 \<le> abp_dia cur \<and> abp_dia cur \<le> abp_dia tgt \<and> abp_sys cur \<le> abp_sys tgt))"

text \<open>Timestamps (in milliseconds) that increase, each at most 10/3 seconds after the
  one before; \<open>l\<close> is the timestamp of the last callback that has run.\<close>

fun paced :: "real \<Rightarrow> real list \<Rightarrow> bool" where
  "paced l [] = True"
| "paced l (t # ts) = (l < t \<and> t - l \<le> 10000 / 3 \<and> paced t ts)"

text \<open>The loop is running, no shock is requested, a callback has already run, and the
  interpolation target is \<open>ip\<close>.\<close>

definition ready :: "param_set \<Rightarrow> monitor \<Rightarrow> bool" where
  "ready ip m = (animationRunning m \<and> \<not> shockRequested m \<and> 0 < lastTimestamp m \<and>
                 interpolationTargetParams m = Some ip)"







definition example_unknown_update :: remote_params where
  "example_unknown_update =
     \<lparr>rx_ecg = Some \<lparr>rhythm = ''bogus'', hr = 80, params = None\<rparr>,
      rx_spo2 = None, rx_abp = None, rx_etco2 = None, rx_temp = None\<rparr>"

section \<open>Properties of the shape library\<close>

subsection \<open>The remainder operator\<close>

lemma js_mod_nonneg_range:
  assumes "0 \<le> a" "0 < b"
  shows "0 \<le> js_mod a b \<and> js_mod a b < b"
proof -
  have q: "0 \<le> a / b" using assms by simp
  have f1: "of_int \<lfloor>a / b\<rfloor> \<le> a / b" by simp
  have f2: "a / b < of_int \<lfloor>a / b\<rfloor> + 1" by linarith
  have "of_int \<lfloor>a / b\<rfloor> * b \<le> a"
    using f1 pos_le_divide_eq[OF assms(2)] by blast
  moreover have "a < (of_int \<lfloor>a / b\<rfloor> + 1) * b"
    using f2 pos_divide_less_eq[OF assms(2)] by blast
  ultimately show ?thesis using q by (simp add: js_mod_def js_trunc_def algebra_simps)
qed

lemma js_mod_neg_range:
  assumes "a < 0" "0 < b"
  shows "- b < js_mod a b \<and> js_mod a b \<le> 0"
proof -
  have q: "\<not> 0 \<le> a / b" using assms by (simp add: zero_le_divide_iff)
  have f1: "a / b \<le> of_int \<lceil>a / b\<rceil>" by simp
  have f2: "of_int \<lceil>a / b\<rceil> - 1 < a / b" by linarith
  have "a \<le> of_int \<lceil>a / b\<rceil> * b"
    using f1 pos_divide_le_eq[OF assms(2)] by blast
  moreover have "(of_int \<lceil>a / b\<rceil> - 1) * b < a"
    using f2 pos_less_divide_eq[OF assms(2)] by blast
  ultimately show ?thesis using q by (simp add: js_mod_def js_trunc_def algebra_simps)
qed

lemma js_mod_small: "0 \<le> a \<Longrightarrow> a < b \<Longrightarrow> js_mod a b = a"
proof -
  assume a: "0 \<le> a" "a < b"
  then have "\<lfloor>a / b\<rfloor> = 0" by (simp add: floor_eq_iff)
  then show ?thesis using a by (simp add: js_mod_def js_trunc_def)
qed

lemma js_mod_shift: "0 \<le> a \<Longrightarrow> a < b \<Longrightarrow> js_mod (a + b) b = a"
proof -
  assume a: "0 \<le> a" "a < b"
  then have "(a + b) / b = a / b + 1" by (simp add: add_divide_distrib)
  moreover have "\<lfloor>a / b\<rfloor> = 0" using a by (simp add: floor_eq_iff)
  ultimately have "\<lfloor>(a + b) / b\<rfloor> = 1" by simp
  then show ?thesis using a by (simp add: js_mod_def js_trunc_def)
qed

subsection \<open>Capnogram: the active part of the breath is capped\<close>

lemma etco2_t_rel_range:
  assumes "0 < bd"
  shows "0 \<le> etco2_t_rel now t bd \<and> etco2_t_rel now t bd < bd"
proof (cases "0 \<le> effectiveTime now t")
  case True
  then have r: "0 \<le> js_mod (effectiveTime now t) bd \<and> js_mod (effectiveTime now t) bd < bd"
    using js_mod_nonneg_range assms by blast
  then show ?thesis using js_mod_shift[of "js_mod (effectiveTime now t) bd" bd]
    by (simp add: etco2_t_rel_def)
next
  case False
  then have r: "- bd < js_mod (effectiveTime now t) bd \<and> js_mod (effectiveTime now t) bd \<le> 0"
    using js_mod_neg_range assms by simp
  then have "0 \<le> js_mod (effectiveTime now t) bd + bd" by simp
  then show ?thesis using js_mod_nonneg_range[of "js_mod (effectiveTime now t) bd + bd" bd] assms
    by (simp add: etco2_t_rel_def)
qed

lemma etco2_t_rel_id: "0 \<le> t \<Longrightarrow> t < bd \<Longrightarrow> etco2_t_rel now (Fin t) bd = t"
  by (simp add: etco2_t_rel_def effectiveTime_def js_mod_small js_mod_shift)

lemma etco2_value_beyond_cap:
  "ETCO2_MAX_ACTIVE_SHAPE_DURATION \<le> t_rel \<Longrightarrow> etco2_value t_rel bd v shape = 0"
  by (simp add: etco2_value_def Let_def)

text \<open>
  C9.  The constant \<open>ETCO2_MAX_ACTIVE_SHAPE_DURATION\<close> is \<open>60 / 20 = 3\<close> seconds.
  Whatever the breath duration, the value and the shape: when the relative time in the
  breath that \<open>generateEtco2WaveformShape\<close> computes has reached that cap, the output is
  0; the relative time always lies in the breath, \<open>0 \<le> t_rel < breathDuration\<close>.  In
  terms of the argument: for an elapsed time \<open>x\<close> with \<open>3 \<le> x < breathDuration\<close> (for
  example anywhere in the last seven seconds of a ten-second breath, respiratory rate 6
  per minute) the output is 0, and a non-zero output implies \<open>t_rel < 3\<close>.
\<close>

theorem etco2_active_portion_capped:
  "ETCO2_MAX_ACTIVE_SHAPE_DURATION = 3 \<and>
   (ETCO2_MAX_ACTIVE_SHAPE_DURATION \<le> etco2_t_rel now t bd \<longrightarrow>
      generateEtco2WaveformShape now t (Fin bd) v shape = 0) \<and>
   (0 < bd \<longrightarrow> 0 \<le> etco2_t_rel now t bd \<and> etco2_t_rel now t bd < bd) \<and>
   (3 \<le> x \<and> x < bd \<longrightarrow> generateEtco2WaveformShape now (Fin x) (Fin bd) v shape = 0) \<and>
   (generateEtco2WaveformShape now t (Fin bd) v shape \<noteq> 0 \<longrightarrow> etco2_t_rel now t bd < 3)"
proof -
  have c: "ETCO2_MAX_ACTIVE_SHAPE_DURATION = 3"
    by (simp add: ETCO2_MAX_ACTIVE_SHAPE_DURATION_def ETCO2_MAX_SHAPE_REFERENCE_RR_def)
  have a: "ETCO2_MAX_ACTIVE_SHAPE_DURATION \<le> etco2_t_rel now u bd \<Longrightarrow>
      generateEtco2WaveformShape now u (Fin bd) v shape = 0" for u
    by (simp add: generateEtco2WaveformShape_def etco2_value_beyond_cap)
  have b: "generateEtco2WaveformShape now (Fin x) (Fin bd) v shape = 0" if "3 \<le> x" "x < bd"
    using that a[of "Fin x"] c etco2_t_rel_id[of x bd now] by simp
  have d: "etco2_t_rel now t bd < 3"
    if "generateEtco2WaveformShape now t (Fin bd) v shape \<noteq> 0"
    using that a[of t] c by force
  show ?thesis using a[of t] b c d etco2_t_rel_range[of bd now t] by blast
qed

theorem etco2_active_portion_capped_witness:
  "(3::real) \<le> 5 \<and> (5::real) < 10 \<and> etco2_t_rel 0 (Fin 5) 10 = 5 \<and>
   generateEtco2WaveformShape 0 (Fin 5) (Fin 10) (Fin (53 / 10)) ''normal'' = 0"
proof -
  have h: "(3::real) \<le> 5 \<and> (5::real) < 10" by simp
  have "generateEtco2WaveformShape 0 (Fin 5) (Fin 10) (Fin (53 / 10)) ''normal'' = 0"
    using etco2_active_portion_capped[of 0 "Fin 5" 10 "Fin (53 / 10)" "''normal''" 5] h
    by blast
  then show ?thesis using h by (simp add: etco2_t_rel_id)
qed

subsection \<open>Arterial pressure: coerced pressures and the range of the output\<close>

lemma gaussian_neg_amplitude:
  assumes "A \<le> 0"
  shows "A \<le> gaussian t m s A \<and> gaussian t m s A \<le> 0"
proof -
  define e where "e = - ((t - m) ^ 2) / (2 * max \<bar>s\<bar> (1 / 10 ^ 9) * max \<bar>s\<bar> (1 / 10 ^ 9))"
  have "0 < max \<bar>s\<bar> (1 / 10 ^ 9)" by simp
  then have "0 < 2 * max \<bar>s\<bar> (1 / 10 ^ 9) * max \<bar>s\<bar> (1 / 10 ^ 9)" by simp
  then have "e \<le> 0" unfolding e_def by (simp add: divide_nonpos_pos)
  then have ex: "0 < exp e \<and> exp e \<le> 1" by simp
  have "A * 1 \<le> A * exp e" using assms ex by (intro mult_left_mono_neg) auto
  then have "A \<le> A * exp e" by simp
  moreover have "A * exp e \<le> 0" using assms ex by (simp add: mult_nonpos_nonneg)
  ultimately show ?thesis using assms
    unfolding gaussian_def Let_def e_def[symmetric] by (simp del: power_numeral)
qed

lemma abp_safeDia_nonneg: "0 \<le> abp_safeDia dia"
  by (simp add: abp_safeDia_def)

lemma abp_safeSys_pos: "0 < abp_safeSys sys dia"
proof -
  have "0 < abp_safeDia dia + 1" using abp_safeDia_nonneg[of dia] by simp
  then have "0 < js_double (abp_safeDia dia + 1)" by (rule js_double_pos)
  then show ?thesis by (simp add: abp_safeSys_def)
qed

lemma abp_pulsePressure_pos:
  assumes "dia < 2 ^ 53"
  shows "0 < abp_pulsePressure sys dia"
proof -
  have "abp_safeDia dia < 2 ^ 53" using assms by (simp add: abp_safeDia_def)
  then have "abp_safeDia dia < js_double (abp_safeDia dia + 1)"
    using js_double_succ[OF abp_safeDia_nonneg] by simp
  then have "0 < abp_safeSys sys dia - abp_safeDia dia" by (simp add: abp_safeSys_def)
  then show ?thesis unfolding abp_pulsePressure_def by (rule js_double_pos)
qed

lemma abp_value_range:
  "0 \<le> abp_value t_rel ed sys dia shape \<and>
   abp_value t_rel ed sys dia shape \<le> abp_safeSys sys dia + 15"
proof -
  have "0 \<le> abp_safeSys sys dia + 15" using abp_safeSys_pos[of sys dia] by simp
  then show ?thesis by (simp add: abp_value_def Let_def)
qed

lemma abp_factor_bounds:
  "0 < upstrokeEndTimeFactor (abp_shape_factors shape) \<and>
   upstrokeEndTimeFactor (abp_shape_factors shape) < 1 \<and>
   0 \<le> abpNotchDepthFactor (abp_shape_factors shape) \<and>
   abpNotchDepthFactor (abp_shape_factors shape) \<le> 1 / 10"
  by (simp add: abp_shape_factors_def)

lemma effectiveDuration_pos: "0 < effectiveDuration bd"
  by (simp add: effectiveDuration_def split: jsnum.splits)

lemma abp_value_at_upstroke_end:
  assumes "0 < ed" and pp0: "0 < abp_pulsePressure sys dia"
  shows "0 < abp_value (ed * upstrokeEndTimeFactor (abp_shape_factors shape)) ed sys dia shape"
proof -
  define f where "f = abp_shape_factors shape"
  define pp where "pp = abp_pulsePressure sys dia"
  define x where "x = ed * upstrokeEndTimeFactor f"
  define n where "n = gaussian x (ed * abpNotchTimeFactor f)
      (max (ed * abpNotchWidthFactor f) (1 / 10 ^ 4)) (- (pp * abpNotchDepthFactor f))"
  have pp1: "0 < pp" unfolding pp_def by (rule pp0)
  have fb: "0 \<le> abpNotchDepthFactor f \<and> abpNotchDepthFactor f \<le> 1 / 10"
    unfolding f_def using abp_factor_bounds by blast
  have d0: "0 \<le> pp * abpNotchDepthFactor f" using pp1 fb by simp
  have "pp * abpNotchDepthFactor f \<le> pp * (1 / 10)"
    using pp1 fb by (intro mult_left_mono) auto
  moreover have "- (pp * abpNotchDepthFactor f) \<le> n"
    unfolding n_def using gaussian_neg_amplitude[of "- (pp * abpNotchDepthFactor f)"] d0 by simp
  ultimately have nb: "- (pp / 10) \<le> n" by simp
  have sd: "0 \<le> abp_safeDia dia" by (rule abp_safeDia_nonneg)
  have v: "abp_value x ed sys dia shape =
      max 0 (min (abp_safeSys sys dia + 15) (abp_safeDia dia + pp + n))"
    using assms(1)
    by (simp add: abp_value_def Let_def x_def f_def[symmetric] pp_def[symmetric] n_def)
  have "0 < abp_safeDia dia + pp + n" using nb pp1 sd by simp
  moreover have "0 < abp_safeSys sys dia + 15" using abp_safeSys_pos[of sys dia] by simp
  ultimately show ?thesis using v by (simp add: x_def f_def)
qed

text \<open>
  C10 (as amended).  With \<open>sys\<close> and \<open>dia\<close> the values that \<open>ensureFinite\<close> returns for
  the two pressure arguments: the function works with \<open>safeDia = max(0, dia)\<close>,
  \<open>safeSys = max(safeDia + 1, sys)\<close> and \<open>pulsePressure = safeSys - safeDia\<close>, computed
  in double arithmetic.  For a diastolic value below \<open>2^53\<close> the pulse pressure is
  positive.  Whenever it is positive and \<open>sys \<ge> 1\<close> or \<open>dia \<ge> 1\<close>, the early return of
  the bare diastolic value is not taken: the result is the waveform value, it lies in
  \<open>[0, safeSys + 15]\<close>, and it is positive at some time, so the output is not flat zero.
  The early return (\<open>pulsePressure <= 0\<close>) can be taken only for a diastolic value of at
  least \<open>2^53\<close>, and then returns the positive value \<open>safeDia\<close>.  When \<open>sys < 1\<close> and
  \<open>dia < 1\<close> the output is 0 at every time.
\<close>

theorem abp_coercion_and_range:
  "let sys = ensureFinite s 0; dia = ensureFinite d 0
   in abp_safeDia dia = max 0 dia \<and>
      abp_safeSys sys dia = max (js_double (max 0 dia + 1)) sys \<and>
      abp_pulsePressure sys dia = js_double (abp_safeSys sys dia - abp_safeDia dia) \<and>
      (dia < 2 ^ 53 \<longrightarrow> 0 < abp_pulsePressure sys dia) \<and>
      ((1 \<le> sys \<or> 1 \<le> dia) \<and> 0 < abp_pulsePressure sys dia \<longrightarrow>
         generateAbpWaveformShape now t bd s d shape =
           abp_value (js_mod (effectiveTime now t) (effectiveDuration bd)) (effectiveDuration bd)
             sys dia shape \<and>
         0 \<le> generateAbpWaveformShape now t bd s d shape \<and>
         generateAbpWaveformShape now t bd s d shape \<le> abp_safeSys sys dia + 15 \<and>
         (\<exists>x. 0 < generateAbpWaveformShape now (Fin x) bd s d shape)) \<and>
      ((1 \<le> sys \<or> 1 \<le> dia) \<and> abp_pulsePressure sys dia \<le> 0 \<longrightarrow>
         2 ^ 53 \<le> dia \<and>
         generateAbpWaveformShape now t bd s d shape = abp_safeDia dia \<and>
         0 < generateAbpWaveformShape now t bd s d shape) \<and>
      (sys < 1 \<and> dia < 1 \<longrightarrow> generateAbpWaveformShape now t bd s d shape = 0)"
proof -
  define sys where "sys = ensureFinite s 0"
  define dia where "dia = ensureFinite d 0"
  have pp: "0 < abp_pulsePressure sys dia" if "dia < 2 ^ 53"
    using that by (rule abp_pulsePressure_pos)
  have flat: "generateAbpWaveformShape now t bd s d shape = 0"
    if "sys < 1 \<and> dia < 1"
    using that by (simp add: generateAbpWaveformShape_def sys_def dia_def)
  have body: "generateAbpWaveformShape now u bd s d shape =
        abp_value (js_mod (effectiveTime now u) (effectiveDuration bd)) (effectiveDuration bd)
          sys dia shape"
    if "(1 \<le> sys \<or> 1 \<le> dia) \<and> 0 < abp_pulsePressure sys dia" for u
    using that by (auto simp add: generateAbpWaveformShape_def Let_def sys_def dia_def)
  have pos: "\<exists>x. 0 < generateAbpWaveformShape now (Fin x) bd s d shape"
    if h: "(1 \<le> sys \<or> 1 \<le> dia) \<and> 0 < abp_pulsePressure sys dia"
  proof -
    define ed where "ed = effectiveDuration bd"
    define x where "x = ed * upstrokeEndTimeFactor (abp_shape_factors shape)"
    have edp: "0 < ed" unfolding ed_def by (rule effectiveDuration_pos)
    have fb: "0 < upstrokeEndTimeFactor (abp_shape_factors shape) \<and>
              upstrokeEndTimeFactor (abp_shape_factors shape) < 1"
      using abp_factor_bounds by blast
    have x0: "0 \<le> x" unfolding x_def using edp fb by simp
    have "ed * upstrokeEndTimeFactor (abp_shape_factors shape) < ed * 1"
      using edp fb by (intro mult_strict_left_mono) auto
    then have x1: "x < ed" by (simp add: x_def)
    have "js_mod (effectiveTime now (Fin x)) ed = x"
      using x0 x1 by (simp add: effectiveTime_def js_mod_small)
    then have "generateAbpWaveformShape now (Fin x) bd s d shape =
        abp_value x ed sys dia shape"
      using body[OF h, of "Fin x"] by (simp add: ed_def)
    moreover have "0 < abp_value x ed sys dia shape"
      unfolding x_def using abp_value_at_upstroke_end[OF edp] h by simp
    ultimately have "0 < generateAbpWaveformShape now (Fin x) bd s d shape"
      by simp
    then show ?thesis by blast
  qed
  have rng: "0 \<le> generateAbpWaveformShape now t bd s d shape \<and>
      generateAbpWaveformShape now t bd s d shape \<le> abp_safeSys sys dia + 15"
    if h: "(1 \<le> sys \<or> 1 \<le> dia) \<and> 0 < abp_pulsePressure sys dia"
    using body[OF h, of t] abp_value_range by simp
  have early: "2 ^ 53 \<le> dia \<and>
         generateAbpWaveformShape now t bd s d shape = abp_safeDia dia \<and>
         0 < generateAbpWaveformShape now t bd s d shape"
    if h: "(1 \<le> sys \<or> 1 \<le> dia) \<and> abp_pulsePressure sys dia \<le> 0"
  proof -
    have big: "2 ^ 53 \<le> dia" using pp h by fastforce
    then have "1 \<le> dia" by (rule order_trans[rotated]) simp
    then have "generateAbpWaveformShape now t bd s d shape = abp_safeDia dia"
      using h by (simp add: generateAbpWaveformShape_def Let_def sys_def dia_def)
    moreover have "0 < abp_safeDia dia" using big by (simp add: abp_safeDia_def max_def)
    ultimately show ?thesis using big by simp
  qed
  have "abp_safeDia dia = max 0 dia \<and>
      abp_safeSys sys dia = max (js_double (max 0 dia + 1)) sys \<and>
      abp_pulsePressure sys dia = js_double (abp_safeSys sys dia - abp_safeDia dia)"
    by (simp add: abp_safeDia_def abp_safeSys_def abp_pulsePressure_def)
  then show ?thesis
    unfolding Let_def sys_def[symmetric] dia_def[symmetric]
    using pp flat body[of t] pos rng early by blast
qed

lemma js_double_81: "js_double 81 \<le> 120"
proof -
  have "\<bar>js_double 81 - 81\<bar> \<le> 2 powr (of_int \<lfloor>log 2 \<bar>81\<bar>\<rfloor> - 52) / 2"
    by (rule js_double_near) simp
  moreover have "(2::real) powr 6 \<le> 81 \<and> (81::real) < 2 powr (6 + 1)" by (simp add: powr_numeral)
  then have "\<lfloor>log 2 \<bar>81::real\<bar>\<rfloor> = 6" using floor_log_eq_powr_iff[of 81 2 6] by simp
  then have "(2::real) powr (of_int \<lfloor>log 2 \<bar>81\<bar>\<rfloor> - 52) \<le> 1"
    by (simp add: powr_minus powr_numeral)
  ultimately show ?thesis by linarith
qed

theorem abp_coercion_and_range_witness:
  "abp_safeDia 80 = 80 \<and> abp_safeSys 120 80 = 120 \<and> 0 < abp_pulsePressure 120 80 \<and>
   0 \<le> generateAbpWaveformShape 0 (Fin (1 / 10)) (Fin (8 / 10)) (Fin 120) (Fin 80) ''normal'' \<and>
   generateAbpWaveformShape 0 (Fin (1 / 10)) (Fin (8 / 10)) (Fin 120) (Fin 80) ''normal'' \<le> 135 \<and>
   generateAbpWaveformShape 0 (Fin (1 / 10)) (Fin (8 / 10)) (Fin 1) (Fin 0) ''normal'' =
     abp_value (1 / 10) (8 / 10) 1 0 ''normal'' \<and>
   generateAbpWaveformShape 0 (Fin (1 / 10)) (Fin (8 / 10)) (Fin (1 / 2)) NaN ''normal'' = 0"
proof -
  have ss: "abp_safeSys 120 80 = 120"
    using js_double_81 by (simp add: abp_safeSys_def abp_safeDia_def)
  have lt: "(80::real) < 2 ^ 53" "(0::real) < 2 ^ 53" "(1::real) \<le> 120 \<or> (1::real) \<le> 80"
    "(1::real) \<le> 1 \<or> (1::real) \<le> 0" "(1 / 2::real) < 1 \<and> (0::real) < 1"
    by simp_all
  note a = abp_coercion_and_range[of "Fin 120" "Fin 80" 0 "Fin (1 / 10)" "Fin (8 / 10)"
      "''normal''", unfolded Let_def ensureFinite.simps]
  note b = abp_coercion_and_range[of "Fin 1" "Fin 0" 0 "Fin (1 / 10)" "Fin (8 / 10)"
      "''normal''", unfolded Let_def ensureFinite.simps]
  note c = abp_coercion_and_range[of "Fin (1 / 2)" NaN 0 "Fin (1 / 10)" "Fin (8 / 10)"
      "''normal''", unfolded Let_def ensureFinite.simps]
  have pa: "0 < abp_pulsePressure 120 80" using a lt(1) by blast
  have ra: "0 \<le> generateAbpWaveformShape 0 (Fin (1 / 10)) (Fin (8 / 10)) (Fin 120) (Fin 80) ''normal'' \<and>
    generateAbpWaveformShape 0 (Fin (1 / 10)) (Fin (8 / 10)) (Fin 120) (Fin 80) ''normal''
      \<le> abp_safeSys 120 80 + 15"
    using a pa lt(3) by blast
  have pb: "0 < abp_pulsePressure 1 0" using b lt(2) by blast
  have "generateAbpWaveformShape 0 (Fin (1 / 10)) (Fin (8 / 10)) (Fin 1) (Fin 0) ''normal'' =
     abp_value (js_mod (effectiveTime 0 (Fin (1 / 10))) (effectiveDuration (Fin (8 / 10))))
       (effectiveDuration (Fin (8 / 10))) 1 0 ''normal''"
    using b pb lt(4) by blast
  then have rb: "generateAbpWaveformShape 0 (Fin (1 / 10)) (Fin (8 / 10)) (Fin 1) (Fin 0) ''normal'' =
     abp_value (1 / 10) (8 / 10) 1 0 ''normal''"
    by (simp add: effectiveTime_def effectiveDuration_def js_mod_small)
  have rc: "generateAbpWaveformShape 0 (Fin (1 / 10)) (Fin (8 / 10)) (Fin (1 / 2)) NaN ''normal'' = 0"
    using c lt(5) by blast
  have sd: "abp_safeDia 80 = 80" by (simp add: abp_safeDia_def)
  show ?thesis using ss pa ra rb rc sd by simp
qed

text \<open>
  The claim as stated fails: from \<open>2^53\<close> on, the double \<open>safeDia + 1\<close> is \<open>safeDia\<close>
  again, so for a diastolic and a systolic pressure of \<open>2^53\<close> the pulse pressure is 0 and
  the early return of the bare diastolic value is taken.
\<close>

theorem abp_early_return_counterexample:
  "1 \<le> ensureFinite (Fin (2 ^ 53)) 0 \<and>
   abp_safeSys (2 ^ 53) (2 ^ 53) = 2 ^ 53 \<and>
   abp_pulsePressure (2 ^ 53) (2 ^ 53) = 0 \<and>
   generateAbpWaveformShape 0 (Fin (1 / 10)) (Fin (8 / 10)) (Fin (2 ^ 53)) (Fin (2 ^ 53))
     ''normal'' = 2 ^ 53"
proof -
  have ss: "abp_safeSys (2 ^ 53) (2 ^ 53) = 2 ^ 53"
    using js_double_2_53 by (simp add: abp_safeSys_def abp_safeDia_def)
  have pp: "abp_pulsePressure (2 ^ 53) (2 ^ 53) = 0"
    unfolding abp_pulsePressure_def ss by (simp add: abp_safeDia_def)
  have "generateAbpWaveformShape 0 (Fin (1 / 10)) (Fin (8 / 10)) (Fin (2 ^ 53)) (Fin (2 ^ 53))
     ''normal'' = abp_safeDia (2 ^ 53)"
    using pp by (simp add: generateAbpWaveformShape_def Let_def)
  then show ?thesis using ss pp by (simp add: abp_safeDia_def)
qed

subsection \<open>The shape functions and the clock\<close>

text \<open>
  C7 (as amended).  \<open>generatePlethPulseShape\<close>, \<open>generateAbpWaveformShape\<close> and
  \<open>generateEtco2WaveformShape\<close> are functions of their arguments alone when the
  elapsed-time argument is a finite number that is not negative: the reading of the clock
  has no influence on the result.  (They keep no state between calls; the cardiac-complex
  function \<open>generatePQRST\<close> reads nothing but its arguments at all.)
\<close>

theorem shape_functions_clock_independent:
  "0 \<le> x \<longrightarrow>
     generatePlethPulseShape now1 (Fin x) bd v s = generatePlethPulseShape now2 (Fin x) bd v s \<and>
     generateAbpWaveformShape now1 (Fin x) bd sy di s = generateAbpWaveformShape now2 (Fin x) bd sy di s \<and>
     generateEtco2WaveformShape now1 (Fin x) bd v s = generateEtco2WaveformShape now2 (Fin x) bd v s"
proof
  assume x: "0 \<le> x"
  then have e: "effectiveTime now1 (Fin x) = effectiveTime now2 (Fin x)"
    by (simp add: effectiveTime_def)
  show "generatePlethPulseShape now1 (Fin x) bd v s = generatePlethPulseShape now2 (Fin x) bd v s \<and>
     generateAbpWaveformShape now1 (Fin x) bd sy di s = generateAbpWaveformShape now2 (Fin x) bd sy di s \<and>
     generateEtco2WaveformShape now1 (Fin x) bd v s = generateEtco2WaveformShape now2 (Fin x) bd v s"
    unfolding generatePlethPulseShape_def generateAbpWaveformShape_def
      generateEtco2WaveformShape_def etco2_t_rel_def e by simp
qed

theorem shape_functions_clock_independent_witness:
  "(0::real) \<le> 1 / 2 \<and>
   generateEtco2WaveformShape 0 (Fin (1 / 2)) (Fin 10) (Fin 5) ''normal'' =
   generateEtco2WaveformShape 2000 (Fin (1 / 2)) (Fin 10) (Fin 5) ''normal''"
proof -
  have h: "(0::real) \<le> 1 / 2" by simp
  show ?thesis
    using shape_functions_clock_independent[of "1 / 2" 0 "Fin 10" "Fin 5" "''normal''" 2000] h
    by blast
qed

text \<open>
  The claim as stated fails on the full domain of the elapsed-time argument: for a time
  that is \<open>null\<close>, not finite or negative the functions substitute
  \<open>performance.now() / 1000\<close>, and two calls with the same arguments at different
  moments return different samples.
\<close>

theorem shape_functions_clock_counterexample:
  "generateEtco2WaveformShape 0 NaN (Fin 10) (Fin 5) ''normal'' = 0 \<and>
   generateEtco2WaveformShape 2000 NaN (Fin 10) (Fin 5) ''normal'' = 245 / 48 \<and>
   generateEtco2WaveformShape 0 (Fin (- 1)) (Fin 10) (Fin 5) ''normal'' \<noteq>
   generateEtco2WaveformShape 2000 (Fin (- 1)) (Fin 10) (Fin 5) ''normal''"
  by (simp add: generateEtco2WaveformShape_def etco2_value_def etco2_t_rel_def effectiveTime_def
      js_mod_def js_trunc_def ETCO2_MAX_ACTIVE_SHAPE_DURATION_def ETCO2_MAX_SHAPE_REFERENCE_RR_def
      etco2_shape_factors_def Let_def)

section \<open>Properties of the beat scheduler\<close>

lemma beatRate_nonneg: "0 \<le> beatRate m"
  by (simp add: beatRate_def Let_def split: option.splits)

lemma beatRate_target_hr:
  assumes "interpolationTargetParams m = Some ip" "params (ecg ip) = Some p"
    and "generatorType p = Some ''pqrst'' \<or> generatorType p = Some ''avBlock'' \<or>
         generatorType p = Some ''paced''"
    and "\<not> (generatorType p = Some ''pqrst'' \<and>
            (nullish (isPEA p) False \<or> rhythm (ecg ip) = ''vt_pulseless''))"
  shows "beatRate m = max (hr (ecg ip)) 0"
  using assms by (auto simp add: beatRate_def ecgSourceForRate_def Let_def)

lemma beatInterval_regular:
  assumes "0 < beatRate m"
    and "nullish (case params (ecgSourceForRate m) of None \<Rightarrow> None | Some p \<Rightarrow> irregular p) 0 = 0"
  shows "beatInterval u m = Fin (max (1 / 10) (60 / beatRate m))"
  using assms by (simp add: beatInterval_def Let_def)

lemma beatInterval_zero: "beatRate m = 0 \<Longrightarrow> beatInterval u m = PInf"
  by (simp add: beatInterval_def Let_def)

lemma max_floor: "0 < r \<Longrightarrow> r \<le> 600 \<Longrightarrow> max (1 / 10) (60 / r) = 60 / (r::real)"
proof -
  assume a: "0 < r" "r \<le> 600"
  then have "1 / 10 \<le> 60 / r" by (simp add: pos_le_divide_eq)
  then show ?thesis by simp
qed

lemma updateWaveforms_nextBeat_inf:
  "nextBeatTime m = PInf \<Longrightarrow> nextBeatTime (updateWaveforms gen u s m) = PInf"
  by (simp add: updateWaveforms_def checkAndResetTimers_def checkBeatTimer_def js_ge_def Let_def
      split: option.splits)

lemma steps_nextBeat_inf:
  "nextBeatTime m = PInf \<Longrightarrow> nextBeatTime (steps gen us n m) = PInf"
  by (induction n) (simp_all add: updateWaveforms_nextBeat_inf)

lemma truthy_nullish: "nullish b False = truthy b"
  by (cases b) (auto simp: nullish_def truthy_def)

lemma regular_target_interval:
  assumes "interpolationTargetParams m = Some ip" "regular_target r (ecg ip)"
  shows "beatRate m = r" "beatInterval u m = Fin (60 / r)"
proof -
  obtain p where p: "params (ecg ip) = Some p" using assms(2)
    by (auto simp: regular_target_def split: option.splits)
  have g: "generatorType p = Some ''pqrst'' \<or> generatorType p = Some ''avBlock'' \<or>
           generatorType p = Some ''paced''"
    and n: "\<not> truthy (isPEA p)" "rhythm (ecg ip) \<noteq> ''vt_pulseless''"
    and i: "nullish (irregular p) 0 = 0" and h: "hr (ecg ip) = r" "0 < r" "r \<le> 600"
    using assms(2) p by (auto simp: regular_target_def)
  show r: "beatRate m = r"
    using assms(1) p g n h
    by (auto simp add: beatRate_def ecgSourceForRate_def Let_def truthy_nullish)
  show "beatInterval u m = Fin (60 / r)"
    using r assms(1) p i h max_floor[of r]
    by (simp add: beatInterval_def ecgSourceForRate_def Let_def)
qed

lemma beatRate_cur_hr:
  assumes "interpolationTargetParams m = Some ip"
  shows "beatRate (m\<lparr>currentParams := (currentParams m)\<lparr>ecg := (ecg (currentParams m))\<lparr>hr := h\<rparr>\<rparr>\<rparr>)
         = beatRate m"
  using assms by (simp add: beatRate_def ecgSourceForRate_def)

lemma beatInterval_cur_hr:
  assumes "interpolationTargetParams m = Some ip"
  shows "beatInterval u (m\<lparr>currentParams := (currentParams m)\<lparr>ecg := (ecg (currentParams m))\<lparr>hr := h\<rparr>\<rparr>\<rparr>)
         = beatInterval u m"
  using assms beatRate_cur_hr[OF assms, of h]
  by (simp add: beatInterval_def ecgSourceForRate_def Let_def)

lemma nextBeat_cur_hr:
  assumes "interpolationTargetParams m = Some ip"
  shows "nextBeatTime (calculateNextBeatTime u
           (m\<lparr>currentParams := (currentParams m)\<lparr>ecg := (ecg (currentParams m))\<lparr>hr := h\<rparr>\<rparr>\<rparr>))
         = nextBeatTime (calculateNextBeatTime u m)"
  using beatInterval_cur_hr[OF assms, of u h]
  by (simp add: calculateNextBeatTime_def Let_def)

lemma boundary_next_beat:
  assumes ip: "interpolationTargetParams m = Some ip" and reg: "regular_target r (ecg ip)"
    and cp: "params (ecg (currentParams m)) = Some pc"
    and g: "generatorType pc = Some ''pqrst'' \<or> generatorType pc = Some ''avBlock'' \<or>
            generatorType pc = Some ''paced''"
    and nb: "nextBeatTime m = Fin b" and cross: "b \<le> rhythmTime m"
    and ahead: "rhythmTime m < b + 60 / r"
  shows "lastBeatTime (checkBeatTimer u m) = Fin b \<and>
         nextBeatTime (checkBeatTimer u m) = Fin (b + 60 / r)"
proof -
  define m1 where "m1 = m\<lparr>lastBeatTime := nextBeatTime m\<rparr>"
  have ip1: "interpolationTargetParams m1 = Some ip" by (simp add: m1_def ip)
  have bi: "beatInterval u m1 = Fin (60 / r)" using regular_target_interval(2)[OF ip1 reg] .
  have c: "calculateNextBeatTime u m1 = m1\<lparr>nextBeatTime := Fin (b + 60 / r)\<rparr>"
    using bi nb ahead by (simp add: calculateNextBeatTime_def Let_def m1_def)
  have "checkBeatTimer u m = applyPendingAbp (applyPendingSpo2 (calculateNextBeatTime u m1))"
    using cp g nb cross by (auto simp add: checkBeatTimer_def Let_def js_ge_def m1_def)
  then show ?thesis using c nb by (simp add: m1_def)
qed

lemma beatInterval_split:
  "0 < beatRate m \<Longrightarrow>
   beatInterval u m = Fin (max (1 / 10) (60 / beatRate m * irregularityMultiplier u m))"
  by (cases "params (ecg (currentParams m))")
     (simp_all add: beatInterval_def irregularityMultiplier_def Let_def)

lemma beatRate_rule:
  assumes "params (ecgSourceForRate m) = Some p"
    and "generatorType p = Some ''pqrst'' \<or> generatorType p = Some ''avBlock'' \<or>
         generatorType p = Some ''paced''"
  shows "beatRate m =
     (if generatorType p = Some ''pqrst'' \<and>
         (nullish (isPEA p) False \<or> rhythm (ecgSourceForRate m) = ''vt_pulseless'')
      then max (ensureFinite (opt_num (baseHR p)) 0) 0
      else max (hr (ecgSourceForRate m)) 0)"
  using assms by (auto simp add: beatRate_def Let_def)

section \<open>Properties of the catch-up loop\<close>

lemma catchUp_invariant:
  assumes acc: "\<And>m a. Q m \<Longrightarrow> Q (m\<lparr>simulationTimeAccumulator := a\<rparr>)"
  shows "(\<And>u m. Q m \<Longrightarrow> Q (updateWaveforms gen u simulationStep m)) \<Longrightarrow> Q m \<Longrightarrow>
         Q (catchUp gen us rs k m)"
proof (induction gen us rs k m rule: catchUp.induct)
  case (1 gen us rs k m)
  show ?case
  proof (cases "simulationTimeAccumulator m \<ge> simulationStep \<and> animationRunning m")
    case True
    have "Q (let m' = updateWaveforms gen (us k) simulationStep m
             in m'\<lparr>simulationTimeAccumulator :=
                    subtractStep (rs k) (simulationTimeAccumulator m')\<rparr>)"
      using "1.prems"(1)[OF "1.prems"(2)] acc by (simp add: Let_def)
    from "1.IH"[OF _ _ "1.prems"(1) this] True show ?thesis
      by (subst catchUp.simps) simp
  next
    case False
    then show ?thesis using "1.prems"(2) by (subst catchUp.simps) auto
  qed
qed

lemma catchUp_exit:
  "animationRunning m \<Longrightarrow>
   simulationTimeAccumulator (catchUp gen us rs k m) < simulationStep \<and>
   animationRunning (catchUp gen us rs k m)"
proof (induction gen us rs k m rule: catchUp.induct)
  case (1 gen us rs k m)
  show ?case
  proof (cases "simulationTimeAccumulator m \<ge> simulationStep")
    case True
    define m2 where "m2 = (let m' = updateWaveforms gen (us k) simulationStep m
             in m'\<lparr>simulationTimeAccumulator :=
                    subtractStep (rs k) (simulationTimeAccumulator m')\<rparr>)"
    have r2: "animationRunning m2" using "1.prems" by (simp add: m2_def Let_def)
    have ih: "simulationTimeAccumulator (catchUp gen us rs (Suc k) m2) < simulationStep \<and>
        animationRunning (catchUp gen us rs (Suc k) m2)"
      using "1.IH"[OF _ _ r2[unfolded m2_def]] True "1.prems" unfolding m2_def by simp
    have c: "catchUp gen us rs k m = catchUp gen us rs (Suc k) m2"
      using True "1.prems" by (subst catchUp.simps) (simp add: m2_def)
    show ?thesis unfolding c using ih .
  next
    case False
    have "catchUp gen us rs k m = m" using False by (subst catchUp.simps) simp
    then show ?thesis using False "1.prems" by simp
  qed
qed

lemma catchUp_counted:
  "\<forall>k. \<bar>roundingError (rs k)\<bar> \<le> \<delta> \<Longrightarrow> animationRunning m \<Longrightarrow>
   rhythmTime (catchUp gen us rs k m) =
     rhythmTime m + real (catchUpCount gen us rs k m) * simulationStep \<and>
   simulationTimeAccumulator m - real (catchUpCount gen us rs k m) * (simulationStep + \<delta>)
     \<le> simulationTimeAccumulator (catchUp gen us rs k m) \<and>
   simulationTimeAccumulator (catchUp gen us rs k m)
     \<le> simulationTimeAccumulator m - real (catchUpCount gen us rs k m) * (simulationStep - \<delta>) \<and>
   real (catchUpCount gen us rs k m) * (simulationStep - \<delta>) \<le> max (simulationTimeAccumulator m) 0"
proof (induction gen us rs k m rule: catchUp.induct)
  case (1 gen us rs k m)
  define a where "a = simulationTimeAccumulator m"
  note d = "1.prems"(1)
  note run = "1.prems"(2)
  have d0: "0 \<le> \<delta>" using d[rule_format, of 0] by linarith
  show ?case
  proof (cases "a \<ge> simulationStep")
    case True
    define m2 where "m2 = (let m' = updateWaveforms gen (us k) simulationStep m
             in m'\<lparr>simulationTimeAccumulator :=
                    subtractStep (rs k) (simulationTimeAccumulator m')\<rparr>)"
    define e where "e = roundingError (rs k)"
    define n2 where "n2 = catchUpCount gen us rs (Suc k) m2"
    define a2 where "a2 = simulationTimeAccumulator (catchUp gen us rs (Suc k) m2)"
    have "\<bar>e\<bar> \<le> \<delta>" using d by (simp add: e_def)
    then have eb: "- \<delta> \<le> e \<and> e \<le> \<delta>" by linarith
    have r2: "animationRunning m2" "rhythmTime m2 = rhythmTime m + simulationStep"
      "simulationTimeAccumulator m2 = a - simulationStep + e"
      using run by (simp_all add: m2_def Let_def a_def e_def subtractStep_def)
    have ih: "rhythmTime (catchUp gen us rs (Suc k) m2) = rhythmTime m2 + real n2 * simulationStep \<and>
      simulationTimeAccumulator m2 - real n2 * (simulationStep + \<delta>) \<le> a2 \<and>
      a2 \<le> simulationTimeAccumulator m2 - real n2 * (simulationStep - \<delta>) \<and>
      real n2 * (simulationStep - \<delta>) \<le> max (simulationTimeAccumulator m2) 0"
      using "1.IH"[OF _ _ d r2(1)[unfolded m2_def]] True run
      unfolding m2_def a_def n2_def a2_def by simp
    have c: "catchUp gen us rs k m = catchUp gen us rs (Suc k) m2"
      using True run by (subst catchUp.simps) (simp add: m2_def a_def)
    have cc: "catchUpCount gen us rs k m = Suc n2"
      using True run by (subst catchUpCount.simps) (simp add: m2_def a_def n2_def)
    have t1: "rhythmTime (catchUp gen us rs (Suc k) m2) =
        rhythmTime m + real (Suc n2) * simulationStep"
      using ih r2(2) by (simp add: algebra_simps)
    have t2: "a - real (Suc n2) * (simulationStep + \<delta>) \<le> a2"
      using ih r2(3) eb by (simp add: algebra_simps)
    have t3: "a2 \<le> a - real (Suc n2) * (simulationStep - \<delta>)"
      using ih r2(3) eb by (simp add: algebra_simps)
    have t4: "real (Suc n2) * (simulationStep - \<delta>) \<le> max a 0"
    proof (cases "0 \<le> a - simulationStep + e")
      case True
      then have "real n2 * (simulationStep - \<delta>) \<le> a - simulationStep + e"
        using ih r2(3) by simp
      then have "real (Suc n2) * (simulationStep - \<delta>) \<le> a" using eb by (simp add: algebra_simps)
      then show ?thesis by simp
    next
      case False
      then have n0: "real n2 * (simulationStep - \<delta>) \<le> 0" using ih r2(3) by simp
      have "simulationStep - \<delta> \<le> a" using \<open>a \<ge> simulationStep\<close> d0 by simp
      then have "real (Suc n2) * (simulationStep - \<delta>) \<le> a" using n0 by (simp add: algebra_simps)
      then show ?thesis by simp
    qed
    show ?thesis unfolding c cc a_def[symmetric] a2_def[symmetric] using t1 t2 t3 t4 by simp
  next
    case False
    have c: "catchUp gen us rs k m = m" using False by (subst catchUp.simps) (simp add: a_def)
    have cc: "catchUpCount gen us rs k m = 0"
      using False by (subst catchUpCount.simps) (simp add: a_def)
    show ?thesis unfolding c cc by simp
  qed
qed

lemma interpolateParams_fields [simp]:
  "rhythmTime (interpolateParams dt m) = rhythmTime m"
  "respiratoryTime (interpolateParams dt m) = respiratoryTime m"
  "simulationTimeAccumulator (interpolateParams dt m) = simulationTimeAccumulator m"
  "nextBeatTime (interpolateParams dt m) = nextBeatTime m"
  "lastBeatTime (interpolateParams dt m) = lastBeatTime m"
  "nextBreathTime (interpolateParams dt m) = nextBreathTime m"
  "targetParams (interpolateParams dt m) = targetParams m"
  "interpolationTargetParams (interpolateParams dt m) = interpolationTargetParams m"
  "animationRunning (interpolateParams dt m) = animationRunning m"
  "pendingEtco2Params (interpolateParams dt m) = pendingEtco2Params m"
  "isEtco2UpdatePending (interpolateParams dt m) = isEtco2UpdatePending m"
  "pendingSpo2Params (interpolateParams dt m) = pendingSpo2Params m"
  "isSpo2UpdatePending (interpolateParams dt m) = isSpo2UpdatePending m"
  "pendingAbpParams (interpolateParams dt m) = pendingAbpParams m"
  "isAbpUpdatePending (interpolateParams dt m) = isAbpUpdatePending m"
  by (simp_all add: interpolateParams_def Let_def split: option.splits)

lemma animationLoop_plain:
  assumes "animationRunning m" "\<not> shockRequested m" "lastTimestamp m \<noteq> 0"
  shows "animationLoop catalog gen role selected u0 us rs ts m =
     interpolateParams ((ts - lastTimestamp m) / 1000)
       (catchUp gen us rs 0
          (m\<lparr>lastTimestamp := ts,
             simulationTimeAccumulator :=
               simulationTimeAccumulator m + (ts - lastTimestamp m) / 1000\<rparr>))"
  using assms by (simp add: animationLoop_def Let_def)

lemma steps_count:
  assumes "real n * s \<le> a" "a < (real n + 1) * s" "0 < s"
  shows "n = nat \<lfloor>a / s\<rfloor>"
proof -
  have "real n \<le> a / s" using assms by (simp add: pos_le_divide_eq)
  moreover have "a / s < real n + 1" using assms by (simp add: pos_divide_less_eq)
  ultimately have "\<lfloor>a / s\<rfloor> = int n" by (simp add: floor_eq_iff)
  then show ?thesis by simp
qed

text \<open>
  C6 (as amended).  In a callback of the running loop (no shock requested, not the first
  callback) the catch-up loop ends with less than one step in the accumulator.  Let \<open>a\<close>
  be the accumulator plus the elapsed time, \<open>n\<close> the number of iterations, and let every
  subtraction round by at most \<open>\<delta>\<close> (at most half a step).  Each iteration advances
  \<open>rhythmTime\<close> by one step, so \<open>n\<close> logical steps are executed; the accumulator that is
  left lies between \<open>a - n * (step + \<delta>)\<close> and \<open>a - n * (step - \<delta>)\<close>; hence
  \<open>n * (step - \<delta>) \<le> a < (n + 1) * (step + \<delta>)\<close> for \<open>a \<ge> 0\<close>: the number of steps is the
  number of whole steps in \<open>a\<close>, up to the rounding, and exactly \<open>floor(a / step)\<close> when the
  subtractions are exact.  Nothing clamps it.
\<close>

theorem catch_up_steps:
  "animationRunning m \<and> \<not> shockRequested m \<and> lastTimestamp m \<noteq> 0 \<and>
   \<delta> \<le> simulationStep / 2 \<and> (\<forall>k. \<bar>rs k\<bar> \<le> \<delta>) \<longrightarrow>
   (let a = simulationTimeAccumulator m + (ts - lastTimestamp m) / 1000;
        n = catchUpCount gen us rs 0 (m\<lparr>lastTimestamp := ts, simulationTimeAccumulator := a\<rparr>);
        m' = animationLoop catalog gen role selected u0 us rs ts m
    in rhythmTime m' = rhythmTime m + real n * simulationStep \<and>
       simulationTimeAccumulator m' < simulationStep \<and>
       a - real n * (simulationStep + \<delta>) \<le> simulationTimeAccumulator m' \<and>
       simulationTimeAccumulator m' \<le> a - real n * (simulationStep - \<delta>) \<and>
       real n * (simulationStep - \<delta>) \<le> max a 0 \<and>
       a < (real n + 1) * (simulationStep + \<delta>) \<and>
       (\<delta> = 0 \<and> 0 \<le> a \<longrightarrow> n = nat \<lfloor>a / simulationStep\<rfloor>))"
proof
  assume h: "animationRunning m \<and> \<not> shockRequested m \<and> lastTimestamp m \<noteq> 0 \<and>
   \<delta> \<le> simulationStep / 2 \<and> (\<forall>k. \<bar>rs k\<bar> \<le> \<delta>)"
  define a where "a = simulationTimeAccumulator m + (ts - lastTimestamp m) / 1000"
  define m2 where "m2 = m\<lparr>lastTimestamp := ts, simulationTimeAccumulator := a\<rparr>"
  define n where "n = catchUpCount gen us rs 0 m2"
  define a' where "a' = simulationTimeAccumulator (catchUp gen us rs 0 m2)"
  have s0: "0 < simulationStep" using simulationStep_bounds(1) by simp
  have d0: "0 \<le> \<delta>" using h abs_ge_zero[of "rs 0"] by (meson order_trans)
  have re: "\<forall>k. \<bar>roundingError (rs k)\<bar> \<le> \<delta>"
    using h roundingError_bounds(2) by (meson order_trans)
  have r2: "animationRunning m2" using h by (simp add: m2_def)
  have pl: "animationLoop catalog gen role selected u0 us rs ts m =
      interpolateParams ((ts - lastTimestamp m) / 1000) (catchUp gen us rs 0 m2)"
    using animationLoop_plain[of m catalog gen role selected u0 us rs ts] h
    by (simp add: m2_def a_def)
  have cu: "rhythmTime (catchUp gen us rs 0 m2) = rhythmTime m + real n * simulationStep"
    "a - real n * (simulationStep + \<delta>) \<le> a'"
    "a' \<le> a - real n * (simulationStep - \<delta>)"
    "real n * (simulationStep - \<delta>) \<le> max a 0"
    using catchUp_counted[OF re r2, of gen us 0]
    by (simp_all add: n_def a'_def m2_def)
  have ex: "a' < simulationStep" using catchUp_exit[OF r2, of gen us rs 0] by (simp add: a'_def)
  have "a - real n * (simulationStep + \<delta>) < simulationStep + \<delta>" using cu(2) ex d0 by linarith
  then have up: "a < (real n + 1) * (simulationStep + \<delta>)" by (simp add: algebra_simps)
  have fl: "n = nat \<lfloor>a / simulationStep\<rfloor>" if "\<delta> = 0 \<and> 0 \<le> a"
    using steps_count[of n simulationStep a] cu(4) up that s0 by simp
  show "let a = simulationTimeAccumulator m + (ts - lastTimestamp m) / 1000;
        n = catchUpCount gen us rs 0 (m\<lparr>lastTimestamp := ts, simulationTimeAccumulator := a\<rparr>);
        m' = animationLoop catalog gen role selected u0 us rs ts m
    in rhythmTime m' = rhythmTime m + real n * simulationStep \<and>
       simulationTimeAccumulator m' < simulationStep \<and>
       a - real n * (simulationStep + \<delta>) \<le> simulationTimeAccumulator m' \<and>
       simulationTimeAccumulator m' \<le> a - real n * (simulationStep - \<delta>) \<and>
       real n * (simulationStep - \<delta>) \<le> max a 0 \<and>
       a < (real n + 1) * (simulationStep + \<delta>) \<and>
       (\<delta> = 0 \<and> 0 \<le> a \<longrightarrow> n = nat \<lfloor>a / simulationStep\<rfloor>)"
    unfolding Let_def a_def[symmetric] m2_def[symmetric] n_def[symmetric] pl
    using cu ex up fl by (simp add: a'_def)
qed

lemma floor_55: "nat \<lfloor>(55 / 1000) / simulationStep\<rfloor> = 5"
proof -
  have "\<lfloor>(55 / 1000) / simulationStep\<rfloor> = 5"
    unfolding simulationStep_value by (simp add: floor_eq_iff)
  then show ?thesis by simp
qed

theorem catch_up_steps_witness:
  "catchUpCount example_gen (\<lambda>k. 0) (\<lambda>k. 0) 0
     (example_monitor\<lparr>lastTimestamp := 1055, simulationTimeAccumulator := 55 / 1000\<rparr>) = 5 \<and>
   rhythmTime (animationLoop example_catalog example_gen ''monitor'' None 0 (\<lambda>k. 0) (\<lambda>k. 0) 1055
      example_monitor) = 1 + 5 * simulationStep \<and>
   simulationTimeAccumulator (animationLoop example_catalog example_gen ''monitor'' None 0
      (\<lambda>k. 0) (\<lambda>k. 0) 1055 example_monitor) = 55 / 1000 - 5 * simulationStep"
proof -
  define n where "n = catchUpCount example_gen (\<lambda>k. 0) (\<lambda>k. 0) 0
     (example_monitor\<lparr>lastTimestamp := 1055, simulationTimeAccumulator := 55 / 1000\<rparr>)"
  define m' where "m' = animationLoop example_catalog example_gen ''monitor'' None 0
      (\<lambda>k. 0) (\<lambda>k. 0) 1055 example_monitor"
  have a: "simulationTimeAccumulator example_monitor + (1055 - lastTimestamp example_monitor) / 1000
      = 55 / 1000"
    by (simp add: example_monitor_def)
  have h: "animationRunning example_monitor \<and> \<not> shockRequested example_monitor \<and>
   lastTimestamp example_monitor \<noteq> 0 \<and> (0::real) \<le> simulationStep / 2 \<and>
   (\<forall>k. \<bar>(\<lambda>k. 0::real) k\<bar> \<le> 0)"
    using simulationStep_bounds(1) by (simp add: example_monitor_def)
  note t = catch_up_steps[of example_monitor 0 "\<lambda>k. 0" 1055 example_gen "\<lambda>k. 0"
      example_catalog "''monitor''" None 0, unfolded Let_def a, folded n_def m'_def,
      rule_format, OF h]
  have n5: "n = 5" using t floor_55 by simp
  have "rhythmTime m' = rhythmTime example_monitor + real n * simulationStep" using t by blast
  then have r: "rhythmTime m' = 1 + 5 * simulationStep"
    unfolding n5 by (simp add: example_monitor_def)
  have "55 / 1000 - real n * (simulationStep + 0) \<le> simulationTimeAccumulator m' \<and>
        simulationTimeAccumulator m' \<le> 55 / 1000 - real n * (simulationStep - 0)"
    using t by blast
  then have s: "simulationTimeAccumulator m' = 55 / 1000 - 5 * simulationStep"
    unfolding n5 by simp
  show ?thesis unfolding n_def[symmetric] m'_def[symmetric] using n5 r s by simp
qed

lemma example_callback:
  "rhythmTime example_monitor + (T / (3 / 2 * simulationStep) - 1) * simulationStep
     < rhythmTime (animationLoop example_catalog example_gen ''monitor'' None 0 (\<lambda>k. 0) rs
         (1000 + 1000 * T) example_monitor)"
proof -
  have a: "animationRunning example_monitor" "\<not> shockRequested example_monitor"
    "lastTimestamp example_monitor \<noteq> 0"
    by (simp_all add: example_monitor_def)
  define m2 where "m2 = example_monitor\<lparr>lastTimestamp := 1000 + 1000 * T,
      simulationTimeAccumulator := T\<rparr>"
  define n where "n = catchUpCount example_gen (\<lambda>k. 0) rs 0 m2"
  have s0: "0 < simulationStep" using simulationStep_bounds(1) by simp
  have pl: "animationLoop example_catalog example_gen ''monitor'' None 0 (\<lambda>k. 0) rs
         (1000 + 1000 * T) example_monitor =
      interpolateParams T (catchUp example_gen (\<lambda>k. 0) rs 0 m2)"
    unfolding animationLoop_plain[OF a] by (simp add: m2_def example_monitor_def)
  have r2: "animationRunning m2" by (simp add: m2_def example_monitor_def)
  have re: "\<forall>k. \<bar>roundingError (rs k)\<bar> \<le> simulationStep / 2"
    using roundingError_bounds(1) by blast
  have cu: "rhythmTime (catchUp example_gen (\<lambda>k. 0) rs 0 m2) =
      rhythmTime example_monitor + real n * simulationStep"
    "T - real n * (simulationStep + simulationStep / 2)
       \<le> simulationTimeAccumulator (catchUp example_gen (\<lambda>k. 0) rs 0 m2)"
    using catchUp_counted[OF re r2, of example_gen "\<lambda>k. 0" 0]
    by (simp_all add: n_def m2_def)
  have "simulationTimeAccumulator (catchUp example_gen (\<lambda>k. 0) rs 0 m2) < simulationStep"
    using catchUp_exit[OF r2] by blast
  then have "T - real n * (3 / 2 * simulationStep) < 3 / 2 * simulationStep"
    using cu(2) s0 by (simp add: algebra_simps)
  then have "T < (real n + 1) * (3 / 2 * simulationStep)" by (simp add: algebra_simps)
  then have "T / (3 / 2 * simulationStep) < real n + 1"
    using s0 by (simp add: pos_divide_less_eq)
  then have "(T / (3 / 2 * simulationStep) - 1) * simulationStep < real n * simulationStep"
    using s0 by simp
  then show ?thesis unfolding pl using cu(1) by simp
qed

text \<open>
  The claim as stated fails: a callback that arrives one hour after the previous one runs
  more than 239000 steps whatever the rounding, and no bound holds for all callbacks.
\<close>

theorem catch_up_unbounded:
  "(\<forall>rs. rhythmTime example_monitor + 239000 * simulationStep <
      rhythmTime (animationLoop example_catalog example_gen ''monitor'' None 0 (\<lambda>k. 0) rs
        3601000 example_monitor)) \<and>
   \<not> (\<exists>B. \<forall>ts. rhythmTime (animationLoop example_catalog example_gen ''monitor'' None 0
      (\<lambda>k. 0) (\<lambda>k. 0) ts example_monitor) \<le> rhythmTime example_monitor + B * simulationStep)"
proof -
  have s0: "0 < simulationStep" using simulationStep_bounds(1) by simp
  have one: "rhythmTime example_monitor + 239000 * simulationStep <
      rhythmTime (animationLoop example_catalog example_gen ''monitor'' None 0 (\<lambda>k. 0) rs
        3601000 example_monitor)" for rs
  proof -
    have "(239000::real) \<le> 3600 / (3 / 2 * simulationStep) - 1"
      unfolding simulationStep_value by simp
    then have "239000 * simulationStep \<le> (3600 / (3 / 2 * simulationStep) - 1) * simulationStep"
      using s0 by simp
    then show ?thesis using example_callback[of 3600 rs] by simp
  qed
  have two: "\<not> (\<exists>B. \<forall>ts. rhythmTime (animationLoop example_catalog example_gen ''monitor'' None 0
      (\<lambda>k. 0) (\<lambda>k. 0) ts example_monitor) \<le> rhythmTime example_monitor + B * simulationStep)"
  proof
    assume "\<exists>B. \<forall>ts. rhythmTime (animationLoop example_catalog example_gen ''monitor'' None 0
      (\<lambda>k. 0) (\<lambda>k. 0) ts example_monitor) \<le> rhythmTime example_monitor + B * simulationStep"
    then obtain B where b: "\<And>ts. rhythmTime (animationLoop example_catalog example_gen ''monitor''
      None 0 (\<lambda>k. 0) (\<lambda>k. 0) ts example_monitor) \<le> rhythmTime example_monitor + B * simulationStep"
      by blast
    define T where "T = (\<bar>B\<bar> + 1) * (3 / 2 * simulationStep)"
    have "(T / (3 / 2 * simulationStep) - 1) * simulationStep < B * simulationStep"
      using b[of "1000 + 1000 * T"] example_callback[of T "\<lambda>k. 0"] by linarith
    moreover have "T / (3 / 2 * simulationStep) = \<bar>B\<bar> + 1" using s0 by (simp add: T_def)
    ultimately have "\<bar>B\<bar> * simulationStep < B * simulationStep" by simp
    then have "\<bar>B\<bar> < B" using s0 by simp
    then show False by simp
  qed
  show ?thesis using one two by blast
qed
section \<open>Properties of the interpolation\<close>

lemma lin_between:
  assumes "0 \<le> k" "k \<le> 1"
  shows "toward c (c + (t - c) * k) (t::real)"
proof (cases "c \<le> t")
  case True
  then have "0 \<le> (t - c) * k" using assms by simp
  moreover have "(t - c) * k \<le> (t - c) * 1" using True assms by (intro mult_left_mono) auto
  ultimately show ?thesis by (simp add: toward_def)
next
  case False
  then have "(t - c) * k \<le> 0" using assms by (simp add: mult_nonpos_nonneg)
  moreover have "(t - c) * 1 \<le> (t - c) * k" using False assms by (intro mult_left_mono_neg) auto
  ultimately show ?thesis by (simp add: toward_def)
qed

lemma nudge_toward:
  assumes "0 \<le> rate * dt" "rate * dt \<le> 1"
  shows "toward c (nudge rate dt c t) t"
proof -
  have "c + (t - c) * rate * dt = c + (t - c) * (rate * dt)" by simp
  then show ?thesis using lin_between[OF assms, of c t]
    by (auto simp add: nudge_def Let_def toward_def)
qed

lemma nudge_snap:
  "\<bar>t - c\<bar> \<le> INTERPOLATION_SNAP_THRESHOLD \<Longrightarrow> nudge rate dt c t = t"
  by (simp add: nudge_def Let_def)

lemma nudge_far:
  "INTERPOLATION_SNAP_THRESHOLD < \<bar>t - c\<bar> \<Longrightarrow> nudge rate dt c t = c + (t - c) * (rate * dt)"
  by (simp add: nudge_def Let_def)

lemma interpolateHr_free:
  "\<not> hrFixed e \<Longrightarrow> interpolateHr dt e t = nudge VITAL_INTERPOLATION_RATE dt (hr e) t"
  by (simp add: interpolateHr_def nudge_def Let_def)

lemma interpolateHr_fixed:
  "hrFixed e \<Longrightarrow> interpolateHr dt e t =
     (if INTERPOLATION_SNAP_THRESHOLD < \<bar>t - hr e\<bar> then 0 else t)"
  by (auto simp add: interpolateHr_def Let_def)

lemma rate_dt:
  assumes "0 < dt" "dt \<le> 10 / 3"
  shows "0 \<le> VITAL_INTERPOLATION_RATE * dt" "VITAL_INTERPOLATION_RATE * dt \<le> 1"
    "0 \<le> VITAL_INTERPOLATION_RATE / 2 * dt" "VITAL_INTERPOLATION_RATE / 2 * dt \<le> 1"
  using assms by (simp_all add: VITAL_INTERPOLATION_RATE_def)

lemma interpolateAbp_toward:
  assumes dt: "0 < dt" "dt \<le> 10 / 3"
    and c: "0 \<le> abp_dia cur" "abp_dia cur + 1 \<le> abp_sys cur"
    and t: "0 \<le> abp_dia tgt" "abp_dia tgt + 1 \<le> abp_sys tgt"
  shows "toward (abp_sys cur) (abp_sys (interpolateAbp dt pend cur tgt)) (abp_sys tgt) \<and>
         toward (abp_dia cur) (abp_dia (interpolateAbp dt pend cur tgt)) (abp_dia tgt) \<and>
         0 \<le> abp_dia (interpolateAbp dt pend cur tgt) \<and>
         abp_dia (interpolateAbp dt pend cur tgt) + 1 \<le> abp_sys (interpolateAbp dt pend cur tgt)"
proof -
  define s1 where "s1 = nudge VITAL_INTERPOLATION_RATE dt (abp_sys cur) (abp_sys tgt)"
  define d1 where "d1 = nudge VITAL_INTERPOLATION_RATE dt (abp_dia cur) (abp_dia tgt)"
  have ts: "toward (abp_sys cur) s1 (abp_sys tgt)"
    unfolding s1_def using nudge_toward rate_dt(1,2)[OF dt] by blast
  have td: "toward (abp_dia cur) d1 (abp_dia tgt)"
    unfolding d1_def using nudge_toward rate_dt(1,2)[OF dt] by blast
  have nz: "\<not> (abp_sys tgt = 0 \<and> abp_dia tgt = 0)" using t by auto
  have sys: "abp_sys (interpolateAbp dt pend cur tgt) = max (max 0 d1 + 1) s1"
    and dia: "abp_dia (interpolateAbp dt pend cur tgt) = max 0 d1"
    using nz by (auto simp add: interpolateAbp_def Let_def s1_def d1_def)
  have d0: "0 \<le> d1" using td c t by (auto simp: toward_def)
  show ?thesis unfolding sys dia using ts td c t d0
    by (auto simp add: toward_def max_def)
qed


lemma updateWaveforms_numeric [simp]:
  "ecg (currentParams (updateWaveforms gen u s m)) = ecg (currentParams m)"
  "temp (currentParams (updateWaveforms gen u s m)) = temp (currentParams m)"
  "spo2_value (spo2 (currentParams (updateWaveforms gen u s m))) = spo2_value (spo2 (currentParams m))"
  "abp_sys (abp (currentParams (updateWaveforms gen u s m))) = abp_sys (abp (currentParams m))"
  "abp_dia (abp (currentParams (updateWaveforms gen u s m))) = abp_dia (abp (currentParams m))"
  by (simp_all add: updateWaveforms_def checkAndResetTimers_def)

lemma catchUp_keeps:
  "ecg (currentParams (catchUp gen us rs k m)) = ecg (currentParams m) \<and>
   temp (currentParams (catchUp gen us rs k m)) = temp (currentParams m) \<and>
   spo2_value (spo2 (currentParams (catchUp gen us rs k m))) = spo2_value (spo2 (currentParams m)) \<and>
   abp_sys (abp (currentParams (catchUp gen us rs k m))) = abp_sys (abp (currentParams m)) \<and>
   abp_dia (abp (currentParams (catchUp gen us rs k m))) = abp_dia (abp (currentParams m)) \<and>
   interpolationTargetParams (catchUp gen us rs k m) = interpolationTargetParams m \<and>
   targetParams (catchUp gen us rs k m) = targetParams m \<and>
   animationRunning (catchUp gen us rs k m) = animationRunning m"
  by (rule catchUp_invariant[where Q = "\<lambda>x.
      ecg (currentParams x) = ecg (currentParams m) \<and>
      temp (currentParams x) = temp (currentParams m) \<and>
      spo2_value (spo2 (currentParams x)) = spo2_value (spo2 (currentParams m)) \<and>
      abp_sys (abp (currentParams x)) = abp_sys (abp (currentParams m)) \<and>
      abp_dia (abp (currentParams x)) = abp_dia (abp (currentParams m)) \<and>
      interpolationTargetParams x = interpolationTargetParams m \<and>
      targetParams x = targetParams m \<and>
      animationRunning x = animationRunning m"]) simp_all

lemma interpolateAbp_values:
  "abp_sys c = abp_sys c' \<Longrightarrow> abp_dia c = abp_dia c' \<Longrightarrow>
   abp_sys (interpolateAbp dt p c t) = abp_sys (interpolateAbp dt p' c' t) \<and>
   abp_dia (interpolateAbp dt p c t) = abp_dia (interpolateAbp dt p' c' t)"
  by (simp add: interpolateAbp_def Let_def)

lemma interpolateHr_cong:
  "e = e' \<Longrightarrow> interpolateHr dt e t = interpolateHr dt e' t"
  by simp

lemma callback_numeric:
  assumes run: "animationRunning m" "\<not> shockRequested m" "lastTimestamp m \<noteq> 0"
    and ip: "interpolationTargetParams m = Some ip"
    and dt: "0 < (ts - lastTimestamp m) / 1000"
  shows "let dt = (ts - lastTimestamp m) / 1000;
             m' = animationLoop catalog gen role selected u0 us rs ts m
         in interpolationTargetParams m' = Some ip \<and>
            animationRunning m' \<and>
            rhythm (ecg (currentParams m')) = rhythm (ecg (currentParams m)) \<and>
            params (ecg (currentParams m')) = params (ecg (currentParams m)) \<and>
            hr (ecg (currentParams m')) = interpolateHr dt (ecg (currentParams m)) (hr (ecg ip)) \<and>
            spo2_value (spo2 (currentParams m')) =
              nudge VITAL_INTERPOLATION_RATE dt (spo2_value (spo2 (currentParams m)))
                (spo2_value (spo2 ip)) \<and>
            abp_sys (abp (currentParams m')) =
              abp_sys (interpolateAbp dt False (abp (currentParams m)) (abp ip)) \<and>
            abp_dia (abp (currentParams m')) =
              abp_dia (interpolateAbp dt False (abp (currentParams m)) (abp ip)) \<and>
            valueC (temp (currentParams m')) =
              nudge (VITAL_INTERPOLATION_RATE / 2) dt (valueC (temp (currentParams m)))
                (valueC (temp ip))"
proof -
  define d where "d = (ts - lastTimestamp m) / 1000"
  define m2 where "m2 = m\<lparr>lastTimestamp := ts,
             simulationTimeAccumulator := simulationTimeAccumulator m + d\<rparr>"
  define m3 where "m3 = catchUp gen us rs 0 m2"
  have pl: "animationLoop catalog gen role selected u0 us rs ts m = interpolateParams d m3"
    using animationLoop_plain[OF run] by (simp add: m3_def m2_def d_def)
  have k: "ecg (currentParams m3) = ecg (currentParams m)"
    "temp (currentParams m3) = temp (currentParams m)"
    "spo2_value (spo2 (currentParams m3)) = spo2_value (spo2 (currentParams m))"
    "abp_sys (abp (currentParams m3)) = abp_sys (abp (currentParams m))"
    "abp_dia (abp (currentParams m3)) = abp_dia (abp (currentParams m))"
    "interpolationTargetParams m3 = Some ip"
    "animationRunning m3"
    using catchUp_keeps[of gen us rs 0 m2] ip run(1) by (simp_all add: m3_def m2_def)
  have d0: "0 < d" using dt by (simp add: d_def)
  have cp: "currentParams (interpolateParams d m3) =
      \<lparr>ecg = (ecg (currentParams m3))\<lparr>hr := interpolateHr d (ecg (currentParams m3)) (hr (ecg ip))\<rparr>,
       spo2 = interpolateSpo2 d (isSpo2UpdatePending m3) (spo2 (currentParams m3)) (spo2 ip),
       abp = interpolateAbp d (isAbpUpdatePending m3) (abp (currentParams m3)) (abp ip),
       etco2 = (etco2 (currentParams m3))\<lparr>unitPref := unitPref (etco2 ip)\<rparr>,
       temp = \<lparr>valueC = nudge (VITAL_INTERPOLATION_RATE / 2) d
                          (valueC (temp (currentParams m3))) (valueC (temp ip)),
               temp_unitPref = temp_unitPref (temp ip)\<rparr>\<rparr>"
    using k(6) d0 by (simp add: interpolateParams_def Let_def)
  have ab: "abp_sys (interpolateAbp d (isAbpUpdatePending m3) (abp (currentParams m3)) (abp ip)) =
            abp_sys (interpolateAbp d False (abp (currentParams m)) (abp ip)) \<and>
            abp_dia (interpolateAbp d (isAbpUpdatePending m3) (abp (currentParams m3)) (abp ip)) =
            abp_dia (interpolateAbp d False (abp (currentParams m)) (abp ip))"
    using interpolateAbp_values[OF k(4) k(5)] by blast
  show ?thesis
    unfolding Let_def d_def[symmetric] pl
    using k ab by (simp add: cp interpolateSpo2_def)
qed

section \<open>Properties of the parameter change controller\<close>

lemma ipc_etco2_fields [simp]:
  "targetParams (ipc_etco2 m) = targetParams m"
  "rhythmTime (ipc_etco2 m) = rhythmTime m"
  "respiratoryTime (ipc_etco2 m) = respiratoryTime m"
  "nextBeatTime (ipc_etco2 m) = nextBeatTime m"
  "lastBeatTime (ipc_etco2 m) = lastBeatTime m"
  "ecgState (ipc_etco2 m) = ecgState m"
  "animationRunning (ipc_etco2 m) = animationRunning m"
  "pendingSpo2Params (ipc_etco2 m) = pendingSpo2Params m"
  "isSpo2UpdatePending (ipc_etco2 m) = isSpo2UpdatePending m"
  "pendingAbpParams (ipc_etco2 m) = pendingAbpParams m"
  "isAbpUpdatePending (ipc_etco2 m) = isAbpUpdatePending m"
  "ecg (currentParams (ipc_etco2 m)) = ecg (currentParams m)"
  "spo2 (currentParams (ipc_etco2 m)) = spo2 (currentParams m)"
  "abp (currentParams (ipc_etco2 m)) = abp (currentParams m)"
  "temp (currentParams (ipc_etco2 m)) = temp (currentParams m)"
  "valueKpa (etco2 (currentParams (ipc_etco2 m))) = valueKpa (etco2 (currentParams m))"
  "rr (etco2 (currentParams (ipc_etco2 m))) = rr (etco2 (currentParams m))"
  "etco2Shape (etco2 (currentParams (ipc_etco2 m))) = etco2Shape (etco2 (currentParams m))"
  by (simp_all add: ipc_etco2_def Let_def)

lemma ipc_etco2_ip:
  "interpolationTargetParams m = Some (targetParams m) \<Longrightarrow>
   interpolationTargetParams (ipc_etco2 m) = Some (targetParams m)"
  by (simp add: ipc_etco2_def Let_def)

lemma ipc_spo2_same:
  "interpolationTargetParams m = Some (targetParams m) \<Longrightarrow> ipc_spo2 s m = m"
  by (simp add: ipc_spo2_def Let_def)

lemma ipc_abp_same:
  "interpolationTargetParams m = Some (targetParams m) \<Longrightarrow> ipc_abp s m = m"
  by (simp add: ipc_abp_def Let_def)

lemma ipc_front:
  "ipc_abp s2 (ipc_spo2 s1 (ipc_etco2 (m\<lparr>interpolationTargetParams := Some (targetParams m)\<rparr>))) =
   ipc_etco2 (m\<lparr>interpolationTargetParams := Some (targetParams m)\<rparr>)"
proof -
  define m0 where "m0 = m\<lparr>interpolationTargetParams := Some (targetParams m)\<rparr>"
  have "interpolationTargetParams m0 = Some (targetParams m0)" by (simp add: m0_def)
  from ipc_etco2_ip[OF this]
  have "interpolationTargetParams (ipc_etco2 m0) = Some (targetParams (ipc_etco2 m0))" by simp
  then show ?thesis unfolding m0_def[symmetric] by (simp add: ipc_spo2_same ipc_abp_same)
qed

lemma ipc_timing_reset_fields [simp]:
  "currentParams (ipc_timing_reset u m) = currentParams m"
  "targetParams (ipc_timing_reset u m) = targetParams m"
  "interpolationTargetParams (ipc_timing_reset u m) = interpolationTargetParams m"
  "animationRunning (ipc_timing_reset u m) = animationRunning m"
  "shockRequested (ipc_timing_reset u m) = shockRequested m"
  "lastTimestamp (ipc_timing_reset u m) = lastTimestamp m"
  "simulationTimeAccumulator (ipc_timing_reset u m) = simulationTimeAccumulator m"
  "rhythmTime (ipc_timing_reset u m) = rhythmTime m"
  "respiratoryTime (ipc_timing_reset u m) = respiratoryTime m"
  "pendingEtco2Params (ipc_timing_reset u m) = pendingEtco2Params m"
  "isEtco2UpdatePending (ipc_timing_reset u m) = isEtco2UpdatePending m"
  "pendingSpo2Params (ipc_timing_reset u m) = pendingSpo2Params m"
  "isSpo2UpdatePending (ipc_timing_reset u m) = isSpo2UpdatePending m"
  "pendingAbpParams (ipc_timing_reset u m) = pendingAbpParams m"
  "isAbpUpdatePending (ipc_timing_reset u m) = isAbpUpdatePending m"
  by (simp_all add: ipc_timing_reset_def calculateNextBeatTime_def resetCompressionTiming_def
      Let_def split: option.splits)

lemma ipc_etco2_more [simp]:
  "shockRequested (ipc_etco2 m) = shockRequested m"
  "lastTimestamp (ipc_etco2 m) = lastTimestamp m"
  "simulationTimeAccumulator (ipc_etco2 m) = simulationTimeAccumulator m"
  by (simp_all add: ipc_etco2_def Let_def)

lemma ipc_hr_only_eq:
  assumes same: "rhythm (ecg (targetParams m)) = rhythm (ecg (currentParams m))"
    and diff: "hr (ecg (targetParams m)) \<noteq> hr (ecg (currentParams m))"
    and cp: "params (ecg (currentParams m)) = Some pc"
    and np: "\<not> pulselessOrCpr pc (rhythm (ecg (currentParams m)))"
  shows "initiateParameterChange catalog u m =
         ipc_timing_reset u (ipc_etco2 (m\<lparr>interpolationTargetParams := Some (targetParams m)\<rparr>))"
proof -
  define m0 where "m0 = m\<lparr>interpolationTargetParams := Some (targetParams m)\<rparr>"
  define m3 where "m3 = ipc_etco2 m0"
  have t3: "targetParams m3 = targetParams m" by (simp add: m3_def m0_def)
  have e3: "ecg (currentParams m3) = ecg (currentParams m)" by (simp add: m3_def m0_def)
  have hc: "ipc_hr_changed m3 = (m3, True)"
    using cp np e3 by (simp add: ipc_hr_changed_def Let_def)
  have front: "ipc_abp s2 (ipc_spo2 s1 m3) = m3" for s1 s2
    unfolding m3_def m0_def by (rule ipc_front)
  have "initiateParameterChange catalog u m =
      (let m3' = ipc_abp (abp_shape (abp (currentParams m)))
                   (ipc_spo2 (spo2_shape (spo2 (currentParams m))) m3);
           targetRhythmKey = rhythm (ecg (targetParams m3'));
           (m4, ecgTimingResetNeeded) =
             (if targetRhythmKey \<noteq> [] \<and> targetRhythmKey \<noteq> rhythm (ecg (currentParams m))
              then (ipc_rhythm_changed catalog (rhythm (ecg (currentParams m))) m3', True)
              else if hr (ecg (targetParams m3')) \<noteq> hr (ecg (currentParams m))
              then ipc_hr_changed m3'
              else (m3', False))
       in if ecgTimingResetNeeded then ipc_timing_reset u m4 else m4)"
    unfolding initiateParameterChange_def m3_def m0_def Let_def ..
  then have "initiateParameterChange catalog u m = ipc_timing_reset u m3"
    unfolding front using same diff hc t3 by (simp add: Let_def)
  then show ?thesis by (simp add: m3_def m0_def)
qed

lemma ipc_hr_only:
  assumes same: "rhythm (ecg (targetParams m)) = rhythm (ecg (currentParams m))"
    and diff: "hr (ecg (targetParams m)) \<noteq> hr (ecg (currentParams m))"
    and reg: "regular_target r (ecg (targetParams m))"
    and cp: "params (ecg (currentParams m)) = Some pc"
    and np: "\<not> pulselessOrCpr pc (rhythm (ecg (currentParams m)))"
  shows "nextBeatTime (initiateParameterChange catalog u m) = Fin (rhythmTime m + 60 / r) \<and>
         ecg (currentParams (initiateParameterChange catalog u m)) = ecg (currentParams m) \<and>
         interpolationTargetParams (initiateParameterChange catalog u m) = Some (targetParams m) \<and>
         animationRunning (initiateParameterChange catalog u m) = animationRunning m \<and>
         shockRequested (initiateParameterChange catalog u m) = shockRequested m \<and>
         lastTimestamp (initiateParameterChange catalog u m) = lastTimestamp m"
proof -
  define m0 where "m0 = m\<lparr>interpolationTargetParams := Some (targetParams m)\<rparr>"
  define m3 where "m3 = ipc_etco2 m0"
  have ipc: "initiateParameterChange catalog u m = ipc_timing_reset u m3"
    unfolding m3_def m0_def by (rule ipc_hr_only_eq[OF same diff cp np])
  have ip3: "interpolationTargetParams m3 = Some (targetParams m)"
    unfolding m3_def using ipc_etco2_ip[of m0] by (simp add: m0_def)
  have e3: "ecg (currentParams m3) = ecg (currentParams m)" by (simp add: m3_def m0_def)
  define m4 where "m4 = m3\<lparr>lastBeatTime := NInf, nextBeatTime := Fin (rhythmTime m3)\<rparr>"
  have ip4: "interpolationTargetParams m4 = Some (targetParams m)" by (simp add: m4_def ip3)
  have r0: "0 < r" using reg by (auto simp: regular_target_def split: option.splits)
  have bi: "beatInterval u m4 = Fin (60 / r)" using regular_target_interval(2)[OF ip4 reg] .
  have rt: "rhythmTime m3 = rhythmTime m" by (simp add: m3_def m0_def)
  have c: "calculateNextBeatTime u m4 = m4\<lparr>nextBeatTime := Fin (rhythmTime m + 60 / r)\<rparr>"
    using bi r0 rt by (simp add: calculateNextBeatTime_def Let_def m4_def)
  have tr: "nextBeatTime (ipc_timing_reset u m3) = Fin (rhythmTime m + 60 / r)"
    unfolding ipc_timing_reset_def Let_def m4_def[symmetric] c
    by (simp add: m4_def)
  have misc: "animationRunning m3 = animationRunning m" "shockRequested m3 = shockRequested m"
    "lastTimestamp m3 = lastTimestamp m"
    by (simp_all add: m3_def m0_def)
  show ?thesis unfolding ipc using tr e3 ip3 misc by simp
qed
section \<open>Beat scheduling during a change of the heart rate\<close>

lemma tick_next_beat:
  assumes ip: "interpolationTargetParams m = Some ip" and reg: "regular_target r (ecg ip)"
    and cp: "params (ecg (currentParams m)) = Some pc"
    and g: "generatorType pc = Some ''pqrst'' \<or> generatorType pc = Some ''avBlock'' \<or>
            generatorType pc = Some ''paced''"
    and nb: "nextBeatTime m = Fin b" and cross: "b \<le> rhythmTime m + s"
    and ahead: "rhythmTime m + s < b + 60 / r"
  shows "nextBeatTime (updateWaveforms gen u s m) = Fin (b + 60 / r)"
proof -
  define m1 where "m1 = checkBreathTimer (m\<lparr>rhythmTime := rhythmTime m + s,
             respiratoryTime := respiratoryTime m + s\<rparr>)"
  have a: "interpolationTargetParams m1 = Some ip" "params (ecg (currentParams m1)) = Some pc"
    "nextBeatTime m1 = Fin b" "b \<le> rhythmTime m1" "rhythmTime m1 < b + 60 / r"
    using ip cp nb cross ahead by (simp_all add: m1_def)
  have "nextBeatTime (checkBeatTimer u m1) = Fin (b + 60 / r)"
    using boundary_next_beat[OF a(1) reg a(2) g a(3) a(4) a(5)] by simp
  then show ?thesis by (simp add: updateWaveforms_def checkAndResetTimers_def m1_def)
qed

lemma lin_strict:
  assumes "0 < k" "k < 1" "t \<noteq> c"
  shows "c + (t - c) * k \<noteq> c \<and> c + (t - c) * k \<noteq> (t::real)"
proof -
  have a: "(t - c) * k \<noteq> 0" using assms by simp
  have b: "c + (t - c) * k \<noteq> t"
  proof
    assume "c + (t - c) * k = t"
    then have "(t - c) * (1 - k) = 0" by (simp add: algebra_simps)
    then show False using assms by simp
  qed
  show ?thesis using a b by simp
qed

lemma hr_gradual:
  assumes run: "animationRunning m" "\<not> shockRequested m" "lastTimestamp m \<noteq> 0"
    and ip: "interpolationTargetParams m = Some ip"
    and nf: "\<not> hrFixed (ecg (currentParams m))"
    and dt: "0 < (ts - lastTimestamp m) / 1000" "(ts - lastTimestamp m) / 1000 < 10 / 3"
    and far: "INTERPOLATION_SNAP_THRESHOLD < \<bar>hr (ecg ip) - hr (ecg (currentParams m))\<bar>"
  shows "toward (hr (ecg (currentParams m)))
           (hr (ecg (currentParams (animationLoop catalog gen role selected u0 us rs ts m))))
           (hr (ecg ip)) \<and>
         hr (ecg (currentParams (animationLoop catalog gen role selected u0 us rs ts m))) \<noteq> hr (ecg ip) \<and>
         hr (ecg (currentParams (animationLoop catalog gen role selected u0 us rs ts m))) \<noteq>
           hr (ecg (currentParams m))"
proof -
  define d where "d = (ts - lastTimestamp m) / 1000"
  define c where "c = hr (ecg (currentParams m))"
  define t where "t = hr (ecg ip)"
  have "hr (ecg (currentParams (animationLoop catalog gen role selected u0 us rs ts m))) =
        interpolateHr d (ecg (currentParams m)) t"
    using callback_numeric[OF run ip dt(1), of catalog gen role selected u0 us rs]
    unfolding Let_def d_def t_def by blast
  also have "\<dots> = nudge VITAL_INTERPOLATION_RATE d c t"
    using interpolateHr_free[OF nf] by (simp add: c_def)
  also have "\<dots> = c + (t - c) * (VITAL_INTERPOLATION_RATE * d)"
    using nudge_far far by (simp add: c_def t_def)
  finally have e: "hr (ecg (currentParams (animationLoop catalog gen role selected u0 us rs ts m))) =
      c + (t - c) * (VITAL_INTERPOLATION_RATE * d)" .
  have k: "0 < VITAL_INTERPOLATION_RATE * d" "VITAL_INTERPOLATION_RATE * d < 1"
    using dt by (simp_all add: d_def VITAL_INTERPOLATION_RATE_def)
  have ne: "t \<noteq> c" using far by (auto simp add: c_def t_def INTERPOLATION_SNAP_THRESHOLD_def)
  have tw: "toward c (c + (t - c) * (VITAL_INTERPOLATION_RATE * d)) t"
    by (rule lin_between[OF less_imp_le[OF k(1)] less_imp_le[OF k(2)]])
  have n: "c + (t - c) * (VITAL_INTERPOLATION_RATE * d) \<noteq> c \<and>
           c + (t - c) * (VITAL_INTERPOLATION_RATE * d) \<noteq> t"
    by (rule lin_strict[OF k ne])
  show ?thesis unfolding e c_def[symmetric] t_def[symmetric] using tw n by simp
qed

text \<open>
  Claim C2.  The next beat is scheduled from the heart rate of the interpolation-target
  snapshot and not from the heart rate that is being interpolated.  (1) With a snapshot in
  place, the beat time that \<open>_calculateNextBeatTime\<close> computes is the same whatever the
  value of \<open>currentParams.ecg.hr\<close>.  (2) At a logical step that crosses the beat boundary
  \<open>b\<close> while the snapshot holds a regular rhythm at \<open>r\<close> beats per minute, the next beat
  is scheduled at \<open>b + 60 / r\<close>.  (3) When a change of the heart rate alone to \<open>r\<close> is
  applied by \<open>initiateParameterChange\<close>, the next beat is at once scheduled \<open>60 / r\<close>
  seconds ahead while the displayed heart rate is unchanged; after the following callback
  of the rendering loop (less than 10/3 seconds later) the displayed heart rate lies
  between the old value and \<open>r\<close>, and is equal to neither.
\<close>

theorem next_beat_from_target_rate:
  "(interpolationTargetParams m = Some ip \<longrightarrow>
      nextBeatTime (calculateNextBeatTime u
        (m\<lparr>currentParams := (currentParams m)\<lparr>ecg := (ecg (currentParams m))\<lparr>hr := h\<rparr>\<rparr>\<rparr>))
      = nextBeatTime (calculateNextBeatTime u m)) \<and>
   (interpolationTargetParams m = Some ip \<and> regular_target r (ecg ip) \<and>
    params (ecg (currentParams m)) = Some pc \<and>
    (generatorType pc = Some ''pqrst'' \<or> generatorType pc = Some ''avBlock'' \<or>
     generatorType pc = Some ''paced'') \<and>
    nextBeatTime m = Fin b \<and> b \<le> rhythmTime m + s \<and> rhythmTime m + s < b + 60 / r \<longrightarrow>
      nextBeatTime (updateWaveforms gen u s m) = Fin (b + 60 / r)) \<and>
   (rhythm (ecg (targetParams m)) = rhythm (ecg (currentParams m)) \<and>
    regular_target r (ecg (targetParams m)) \<and>
    params (ecg (currentParams m)) = Some pc \<and>
    \<not> pulselessOrCpr pc (rhythm (ecg (currentParams m))) \<and>
    \<not> hrFixed (ecg (currentParams m)) \<and>
    INTERPOLATION_SNAP_THRESHOLD < \<bar>r - hr (ecg (currentParams m))\<bar> \<and>
    animationRunning m \<and> \<not> shockRequested m \<and> lastTimestamp m \<noteq> 0 \<and>
    0 < (ts - lastTimestamp m) / 1000 \<and> (ts - lastTimestamp m) / 1000 < 10 / 3 \<longrightarrow>
      (let m1 = initiateParameterChange catalog u m;
           m2 = animationLoop catalog gen role selected u0 us rs ts m1
       in nextBeatTime m1 = Fin (rhythmTime m + 60 / r) \<and>
          hr (ecg (currentParams m1)) = hr (ecg (currentParams m)) \<and>
          toward (hr (ecg (currentParams m))) (hr (ecg (currentParams m2))) r \<and>
          hr (ecg (currentParams m2)) \<noteq> r \<and>
          hr (ecg (currentParams m2)) \<noteq> hr (ecg (currentParams m))))"
proof (intro conjI impI)
  assume "interpolationTargetParams m = Some ip"
  then show "nextBeatTime (calculateNextBeatTime u
        (m\<lparr>currentParams := (currentParams m)\<lparr>ecg := (ecg (currentParams m))\<lparr>hr := h\<rparr>\<rparr>\<rparr>))
      = nextBeatTime (calculateNextBeatTime u m)"
    by (rule nextBeat_cur_hr)
next
  assume h: "interpolationTargetParams m = Some ip \<and> regular_target r (ecg ip) \<and>
    params (ecg (currentParams m)) = Some pc \<and>
    (generatorType pc = Some ''pqrst'' \<or> generatorType pc = Some ''avBlock'' \<or>
     generatorType pc = Some ''paced'') \<and>
    nextBeatTime m = Fin b \<and> b \<le> rhythmTime m + s \<and> rhythmTime m + s < b + 60 / r"
  show "nextBeatTime (updateWaveforms gen u s m) = Fin (b + 60 / r)"
    using tick_next_beat[of m ip r pc b s gen u] h by blast
next
  assume h: "rhythm (ecg (targetParams m)) = rhythm (ecg (currentParams m)) \<and>
    regular_target r (ecg (targetParams m)) \<and>
    params (ecg (currentParams m)) = Some pc \<and>
    \<not> pulselessOrCpr pc (rhythm (ecg (currentParams m))) \<and>
    \<not> hrFixed (ecg (currentParams m)) \<and>
    INTERPOLATION_SNAP_THRESHOLD < \<bar>r - hr (ecg (currentParams m))\<bar> \<and>
    animationRunning m \<and> \<not> shockRequested m \<and> lastTimestamp m \<noteq> 0 \<and>
    0 < (ts - lastTimestamp m) / 1000 \<and> (ts - lastTimestamp m) / 1000 < 10 / 3"
  define m1 where "m1 = initiateParameterChange catalog u m"
  have tr: "hr (ecg (targetParams m)) = r"
    using h by (auto simp add: regular_target_def split: option.splits)
  have diff: "hr (ecg (targetParams m)) \<noteq> hr (ecg (currentParams m))"
    using h tr by (auto simp add: INTERPOLATION_SNAP_THRESHOLD_def)
  have i: "nextBeatTime m1 = Fin (rhythmTime m + 60 / r)"
    "ecg (currentParams m1) = ecg (currentParams m)"
    "interpolationTargetParams m1 = Some (targetParams m)"
    "animationRunning m1" "\<not> shockRequested m1" "lastTimestamp m1 = lastTimestamp m"
    using ipc_hr_only[of m r pc catalog u] h diff unfolding m1_def by simp_all
  have g: "toward (hr (ecg (currentParams m1)))
           (hr (ecg (currentParams (animationLoop catalog gen role selected u0 us rs ts m1))))
           (hr (ecg (targetParams m))) \<and>
         hr (ecg (currentParams (animationLoop catalog gen role selected u0 us rs ts m1))) \<noteq>
           hr (ecg (targetParams m)) \<and>
         hr (ecg (currentParams (animationLoop catalog gen role selected u0 us rs ts m1))) \<noteq>
           hr (ecg (currentParams m1))"
    using hr_gradual[of m1 "targetParams m" ts catalog gen role selected u0 us] i h tr
    by simp
  show "let m1 = initiateParameterChange catalog u m;
           m2 = animationLoop catalog gen role selected u0 us rs ts m1
       in nextBeatTime m1 = Fin (rhythmTime m + 60 / r) \<and>
          hr (ecg (currentParams m1)) = hr (ecg (currentParams m)) \<and>
          toward (hr (ecg (currentParams m))) (hr (ecg (currentParams m2))) r \<and>
          hr (ecg (currentParams m2)) \<noteq> r \<and>
          hr (ecg (currentParams m2)) \<noteq> hr (ecg (currentParams m))"
    unfolding Let_def m1_def[symmetric] using i g tr by simp
qed


lemma example_regular_target: "regular_target 75 (ecg example_params)"
  by (simp add: regular_target_def example_params_def example_sinus_def empty_params_def
      truthy_def nullish_def)

lemma example_change_regular_target:
  "regular_target 120 (ecg (example_params\<lparr>ecg := (ecg example_params)\<lparr>hr := 120\<rparr>\<rparr>))"
  by (simp add: regular_target_def example_params_def example_sinus_def empty_params_def
      truthy_def nullish_def)

lemma example_not_fixed:
  "\<not> pulselessOrCpr example_sinus ''normal'' \<and> \<not> hrFixed (ecg example_params)"
  by (simp add: pulselessOrCpr_def hrFixed_def example_params_def example_sinus_def
      empty_params_def truthy_def)

theorem next_beat_from_target_rate_witness:
  "nextBeatTime (calculateNextBeatTime (1 / 2)
     (example_monitor\<lparr>currentParams := (currentParams example_monitor)
        \<lparr>ecg := (ecg (currentParams example_monitor))\<lparr>hr := 100\<rparr>\<rparr>\<rparr>))
     = nextBeatTime (calculateNextBeatTime (1 / 2) example_monitor) \<and>
   nextBeatTime (updateWaveforms example_gen (1 / 2) (1 / 100)
     (example_monitor\<lparr>rhythmTime := 159 / 100\<rparr>)) = Fin (12 / 5) \<and>
   nextBeatTime (initiateParameterChange example_catalog (1 / 2)
     (example_monitor\<lparr>targetParams :=
        example_params\<lparr>ecg := (ecg example_params)\<lparr>hr := 120\<rparr>\<rparr>\<rparr>)) = Fin (3 / 2) \<and>
   hr (ecg (currentParams (initiateParameterChange example_catalog (1 / 2)
     (example_monitor\<lparr>targetParams :=
        example_params\<lparr>ecg := (ecg example_params)\<lparr>hr := 120\<rparr>\<rparr>\<rparr>)))) = 75 \<and>
   hr (ecg (currentParams (animationLoop example_catalog example_gen ''monitor'' None 0 (\<lambda>k. 0) (\<lambda>k. 0) 1100
     (initiateParameterChange example_catalog (1 / 2)
       (example_monitor\<lparr>targetParams :=
          example_params\<lparr>ecg := (ecg example_params)\<lparr>hr := 120\<rparr>\<rparr>\<rparr>))))) \<noteq> 120"
proof -
  define mc where "mc = example_monitor\<lparr>targetParams :=
        example_params\<lparr>ecg := (ecg example_params)\<lparr>hr := 120\<rparr>\<rparr>\<rparr>"
  define mb where "mb = example_monitor\<lparr>rhythmTime := 159 / 100\<rparr>"
  have a: "nextBeatTime (calculateNextBeatTime (1 / 2)
     (example_monitor\<lparr>currentParams := (currentParams example_monitor)
        \<lparr>ecg := (ecg (currentParams example_monitor))\<lparr>hr := 100\<rparr>\<rparr>\<rparr>))
     = nextBeatTime (calculateNextBeatTime (1 / 2) example_monitor)"
    using next_beat_from_target_rate[of example_monitor example_params "1 / 2" 100]
    by (simp add: example_monitor_def)
  have hb: "interpolationTargetParams mb = Some example_params \<and>
    regular_target 75 (ecg example_params) \<and>
    params (ecg (currentParams mb)) = Some example_sinus \<and>
    (generatorType example_sinus = Some ''pqrst'' \<or> generatorType example_sinus = Some ''avBlock'' \<or>
     generatorType example_sinus = Some ''paced'') \<and>
    nextBeatTime mb = Fin (16 / 10) \<and> 16 / 10 \<le> rhythmTime mb + 1 / 100 \<and>
    rhythmTime mb + 1 / 100 < 16 / 10 + 60 / 75"
    using example_regular_target
    by (simp add: mb_def example_monitor_def example_params_def example_sinus_def)
  have b: "nextBeatTime (updateWaveforms example_gen (1 / 2) (1 / 100) mb) = Fin (16 / 10 + 60 / 75)"
    using next_beat_from_target_rate[of mb example_params "1 / 2" 0 75 example_sinus "16 / 10"
        "1 / 100" example_gen] hb
    by blast
  have hc: "rhythm (ecg (targetParams mc)) = rhythm (ecg (currentParams mc)) \<and>
    regular_target 120 (ecg (targetParams mc)) \<and>
    params (ecg (currentParams mc)) = Some example_sinus \<and>
    \<not> pulselessOrCpr example_sinus (rhythm (ecg (currentParams mc))) \<and>
    \<not> hrFixed (ecg (currentParams mc)) \<and>
    INTERPOLATION_SNAP_THRESHOLD < \<bar>120 - hr (ecg (currentParams mc))\<bar> \<and>
    animationRunning mc \<and> \<not> shockRequested mc \<and> lastTimestamp mc \<noteq> 0 \<and>
    0 < (1100 - lastTimestamp mc) / 1000 \<and> (1100 - lastTimestamp mc) / 1000 < 10 / 3"
    using example_change_regular_target example_not_fixed
    by (simp add: mc_def example_monitor_def INTERPOLATION_SNAP_THRESHOLD_def)
       (simp add: example_params_def)
  have c: "let m1 = initiateParameterChange example_catalog (1 / 2) mc;
           m2 = animationLoop example_catalog example_gen ''monitor'' None 0 (\<lambda>k. 0) (\<lambda>k. 0) 1100 m1
       in nextBeatTime m1 = Fin (rhythmTime mc + 60 / 120) \<and>
          hr (ecg (currentParams m1)) = hr (ecg (currentParams mc)) \<and>
          toward (hr (ecg (currentParams mc))) (hr (ecg (currentParams m2))) 120 \<and>
          hr (ecg (currentParams m2)) \<noteq> 120 \<and>
          hr (ecg (currentParams m2)) \<noteq> hr (ecg (currentParams mc))"
    using next_beat_from_target_rate[of mc example_params "1 / 2" 0 120 example_sinus 0 0
        example_gen 1100 example_catalog "''monitor''" None 0 "\<lambda>k. 0" "\<lambda>k. 0"] hc
    by blast
  have v: "rhythmTime mc = 1" "hr (ecg (currentParams mc)) = 75"
    by (simp_all add: mc_def example_monitor_def example_params_def)
  show ?thesis
    unfolding mc_def[symmetric] mb_def[symmetric]
    using a b c v unfolding Let_def by simp
qed

section \<open>The beat interval\<close>

lemma example_rate: "beatRate example_monitor = 75"
  by (simp add: beatRate_def ecgSourceForRate_def example_monitor_def example_params_def
      example_sinus_def empty_params_def nullish_def opt_num_def Let_def)

lemma example_regular:
  "nullish (case params (ecgSourceForRate example_monitor) of
              None \<Rightarrow> None | Some q \<Rightarrow> irregular q) 0 = 0"
  by (simp add: ecgSourceForRate_def example_monitor_def example_params_def
      example_sinus_def empty_params_def nullish_def)

lemma example_zero_rate:
  "beatRate (example_monitor\<lparr>interpolationTargetParams :=
      Some (example_params\<lparr>ecg := (ecg example_params)\<lparr>hr := 0\<rparr>\<rparr>)\<rparr>) = 0"
  by (simp add: beatRate_def ecgSourceForRate_def example_monitor_def example_params_def
      example_sinus_def empty_params_def nullish_def opt_num_def Let_def)

text \<open>
  Claim C1.  The rate that \<open>_calculateNextBeatTime\<close> computes is never negative; for a
  beat-based rhythm (\<open>pqrst\<close>, \<open>avBlock\<close>, \<open>paced\<close>) it is the heart rate of the
  interpolation target (of the current parameters when there is none) floored at 0, and
  the base rate of the catalog floored at 0 for a \<open>pqrst\<close> rhythm that is PEA or pulseless
  VT.  For a rate \<open>r > 0\<close> the interval before the irregularity multiplier is \<open>60 / r\<close>;
  the interval that is scheduled is that value times the multiplier, floored at 0.1 s,
  which is \<open>60 / r\<close> again when the multiplier is 1 and \<open>r \<le> 600\<close>.  For the rate 0 the
  interval is infinite, \<open>nextBeatTime\<close> is set to \<open>Infinity\<close> and stays so through any
  number of simulation steps; nothing divides by zero.  When a change of the heart rate
  to a regular rate \<open>r > 0\<close> is applied, the rate is \<open>r\<close> and the next beat is scheduled
  \<open>60 / r\<close> seconds ahead again.
\<close>

theorem beat_interval_rule:
  "0 \<le> beatRate m \<and>
   (interpolationTargetParams m = Some ip \<longrightarrow> ecgSourceForRate m = ecg ip) \<and>
   (params (ecgSourceForRate m) = Some p \<and>
    (generatorType p = Some ''pqrst'' \<or> generatorType p = Some ''avBlock'' \<or>
     generatorType p = Some ''paced'')
    \<longrightarrow> beatRate m =
         (if generatorType p = Some ''pqrst'' \<and>
             (nullish (isPEA p) False \<or> rhythm (ecgSourceForRate m) = ''vt_pulseless'')
          then max (ensureFinite (opt_num (baseHR p)) 0) 0
          else max (hr (ecgSourceForRate m)) 0)) \<and>
   (0 < beatRate m
    \<longrightarrow> intervalBeforeIrregularity m = Fin (60 / beatRate m) \<and>
        beatInterval u m = Fin (max (1 / 10) (60 / beatRate m * irregularityMultiplier u m)) \<and>
        (irregularityMultiplier u m = 1 \<and> beatRate m \<le> 600
           \<longrightarrow> beatInterval u m = Fin (60 / beatRate m))) \<and>
   (nullish (case params (ecgSourceForRate m) of None \<Rightarrow> None | Some q \<Rightarrow> irregular q) 0 = 0
    \<longrightarrow> irregularityMultiplier u m = 1) \<and>
   (beatRate m = 0
    \<longrightarrow> intervalBeforeIrregularity m = PInf \<and> beatInterval u m = PInf \<and>
        nextBeatTime (calculateNextBeatTime u m) = PInf \<and>
        nextBeatTime (steps gen us n (calculateNextBeatTime u m)) = PInf) \<and>
   (rhythm (ecg (targetParams m)) = rhythm (ecg (currentParams m)) \<and>
    hr (ecg (targetParams m)) \<noteq> hr (ecg (currentParams m)) \<and>
    regular_target r (ecg (targetParams m)) \<and>
    params (ecg (currentParams m)) = Some pc \<and>
    \<not> pulselessOrCpr pc (rhythm (ecg (currentParams m)))
    \<longrightarrow> beatRate (initiateParameterChange catalog u m) = r \<and>
        nextBeatTime (initiateParameterChange catalog u m) = Fin (rhythmTime m + 60 / r))"
proof -
  have a0: "ecgSourceForRate m = ecg ip" if "interpolationTargetParams m = Some ip"
    using that by (simp add: ecgSourceForRate_def)
  have a: "beatRate m =
         (if generatorType p = Some ''pqrst'' \<and>
             (nullish (isPEA p) False \<or> rhythm (ecgSourceForRate m) = ''vt_pulseless'')
          then max (ensureFinite (opt_num (baseHR p)) 0) 0
          else max (hr (ecgSourceForRate m)) 0)"
    if "params (ecgSourceForRate m) = Some p \<and>
    (generatorType p = Some ''pqrst'' \<or> generatorType p = Some ''avBlock'' \<or>
     generatorType p = Some ''paced'')"
    using that beatRate_rule[of m p] by blast
  have b: "intervalBeforeIrregularity m = Fin (60 / beatRate m) \<and>
        beatInterval u m = Fin (max (1 / 10) (60 / beatRate m * irregularityMultiplier u m)) \<and>
        (irregularityMultiplier u m = 1 \<and> beatRate m \<le> 600
           \<longrightarrow> beatInterval u m = Fin (60 / beatRate m))"
    if h: "0 < beatRate m"
  proof -
    have i: "intervalBeforeIrregularity m = Fin (60 / beatRate m)"
      using h by (simp add: intervalBeforeIrregularity_def Let_def)
    have s: "beatInterval u m = Fin (max (1 / 10) (60 / beatRate m * irregularityMultiplier u m))"
      using beatInterval_split[OF h] .
    have "beatInterval u m = Fin (60 / beatRate m)"
      if "irregularityMultiplier u m = 1 \<and> beatRate m \<le> 600"
      using s that max_floor[of "beatRate m"] h by simp
    then show ?thesis using i s by blast
  qed
  have b1: "irregularityMultiplier u m = 1"
    if "nullish (case params (ecgSourceForRate m) of None \<Rightarrow> None | Some q \<Rightarrow> irregular q) 0 = 0"
    using that by (simp add: irregularityMultiplier_def Let_def)
  have c: "intervalBeforeIrregularity m = PInf \<and> beatInterval u m = PInf \<and>
        nextBeatTime (calculateNextBeatTime u m) = PInf \<and>
        nextBeatTime (steps gen us n (calculateNextBeatTime u m)) = PInf"
    if z: "beatRate m = 0"
  proof -
    have i: "beatInterval u m = PInf" using beatInterval_zero[OF z] .
    have j: "intervalBeforeIrregularity m = PInf"
      using z by (simp add: intervalBeforeIrregularity_def Let_def)
    have n: "nextBeatTime (calculateNextBeatTime u m) = PInf"
      using i by (simp add: calculateNextBeatTime_def)
    show ?thesis using i j n steps_nextBeat_inf[OF n] by simp
  qed
  have d: "beatRate (initiateParameterChange catalog u m) = r \<and>
        nextBeatTime (initiateParameterChange catalog u m) = Fin (rhythmTime m + 60 / r)"
    if h: "rhythm (ecg (targetParams m)) = rhythm (ecg (currentParams m)) \<and>
    hr (ecg (targetParams m)) \<noteq> hr (ecg (currentParams m)) \<and>
    regular_target r (ecg (targetParams m)) \<and>
    params (ecg (currentParams m)) = Some pc \<and>
    \<not> pulselessOrCpr pc (rhythm (ecg (currentParams m)))"
  proof -
    have i: "nextBeatTime (initiateParameterChange catalog u m) = Fin (rhythmTime m + 60 / r)"
      "interpolationTargetParams (initiateParameterChange catalog u m) = Some (targetParams m)"
      using ipc_hr_only[of m r pc catalog u] h by simp_all
    have "beatRate (initiateParameterChange catalog u m) = r"
      using regular_target_interval(1)[OF i(2)] h by blast
    then show ?thesis using i(1) by simp
  qed
  show ?thesis using beatRate_nonneg[of m] a0 a b b1 c d by blast
qed

theorem beat_interval_rule_witness:
  "beatRate example_monitor = 75 \<and>
   intervalBeforeIrregularity example_monitor = Fin (4 / 5) \<and>
   beatInterval (1 / 2) example_monitor = Fin (4 / 5) \<and>
   nextBeatTime (steps example_gen (\<lambda>k. 1 / 2) 3 (calculateNextBeatTime (1 / 2)
     (example_monitor\<lparr>interpolationTargetParams :=
        Some (example_params\<lparr>ecg := (ecg example_params)\<lparr>hr := 0\<rparr>\<rparr>)\<rparr>))) = PInf \<and>
   nextBeatTime (initiateParameterChange example_catalog (1 / 2)
     (example_monitor\<lparr>nextBeatTime := PInf, targetParams :=
        example_params\<lparr>ecg := (ecg example_params)\<lparr>hr := 120\<rparr>\<rparr>\<rparr>)) = Fin (3 / 2)"
proof -
  define mz where "mz = example_monitor\<lparr>interpolationTargetParams :=
        Some (example_params\<lparr>ecg := (ecg example_params)\<lparr>hr := 0\<rparr>\<rparr>)\<rparr>"
  define mr where "mr = example_monitor\<lparr>nextBeatTime := PInf, targetParams :=
        example_params\<lparr>ecg := (ecg example_params)\<lparr>hr := 120\<rparr>\<rparr>\<rparr>"
  have h: "0 < beatRate example_monitor" using example_rate by simp
  have g: "nullish (case params (ecgSourceForRate example_monitor) of
               None \<Rightarrow> None | Some q \<Rightarrow> irregular q) 0 = 0"
    using example_regular .
  note t = beat_interval_rule[of example_monitor example_params example_sinus "1 / 2"
        example_gen "\<lambda>k. 0" 0 0 example_sinus example_catalog]
  have t1: "intervalBeforeIrregularity example_monitor = Fin (60 / beatRate example_monitor)"
    using t h by blast
  have t2: "irregularityMultiplier (1 / 2) example_monitor = 1" using t g by blast
  have t3: "beatInterval (1 / 2) example_monitor = Fin (60 / beatRate example_monitor)"
    using t h t2 example_rate by simp
  have z: "beatRate mz = 0" unfolding mz_def by (rule example_zero_rate)
  have t4: "nextBeatTime (steps example_gen (\<lambda>k. 1 / 2) 3 (calculateNextBeatTime (1 / 2) mz)) = PInf"
    using beat_interval_rule[of mz example_params example_sinus "1 / 2"
        example_gen "\<lambda>k. 1 / 2" 3 0 example_sinus example_catalog] z
    by blast
  have hr: "rhythm (ecg (targetParams mr)) = rhythm (ecg (currentParams mr)) \<and>
    hr (ecg (targetParams mr)) \<noteq> hr (ecg (currentParams mr)) \<and>
    regular_target 120 (ecg (targetParams mr)) \<and>
    params (ecg (currentParams mr)) = Some example_sinus \<and>
    \<not> pulselessOrCpr example_sinus (rhythm (ecg (currentParams mr)))"
    using example_change_regular_target example_not_fixed
    by (simp add: mr_def example_monitor_def) (simp add: example_params_def)
  have t5: "nextBeatTime (initiateParameterChange example_catalog (1 / 2) mr) =
      Fin (rhythmTime mr + 60 / 120)"
    using beat_interval_rule[of mr example_params example_sinus "1 / 2"
        example_gen "\<lambda>k. 0" 0 120 example_sinus example_catalog] hr
    by blast
  have v: "rhythmTime mr = 1" by (simp add: mr_def example_monitor_def)
  show ?thesis unfolding mz_def[symmetric] mr_def[symmetric]
    using example_rate t1 t3 t4 t5 v by simp
qed
section \<open>Callbacks that follow one another\<close>

lemma tick_misc_fields [simp]:
  "shockRequested (calculateNextBeatTime u m) = shockRequested m"
  "lastTimestamp (calculateNextBeatTime u m) = lastTimestamp m"
  "shockRequested (resetCompressionTiming m) = shockRequested m"
  "lastTimestamp (resetCompressionTiming m) = lastTimestamp m"
  "shockRequested (applyPendingSpo2 m) = shockRequested m"
  "lastTimestamp (applyPendingSpo2 m) = lastTimestamp m"
  "shockRequested (applyPendingAbp m) = shockRequested m"
  "lastTimestamp (applyPendingAbp m) = lastTimestamp m"
  "shockRequested (checkBreathTimer m) = shockRequested m"
  "lastTimestamp (checkBreathTimer m) = lastTimestamp m"
  "shockRequested (generateECGWaveformInternal gen m) = shockRequested m"
  "lastTimestamp (generateECGWaveformInternal gen m) = lastTimestamp m"
  by (simp_all add: calculateNextBeatTime_def resetCompressionTiming_def applyPendingSpo2_def
      applyPendingAbp_def checkBreathTimer_def resetBreathTiming_def
      generateECGWaveformInternal_def Let_def split: option.splits)

lemma checkBeatTimer_misc [simp]:
  "shockRequested (checkBeatTimer u m) = shockRequested m"
  "lastTimestamp (checkBeatTimer u m) = lastTimestamp m"
  by (simp_all add: checkBeatTimer_def Let_def split: option.splits)

lemma updateWaveforms_misc [simp]:
  "shockRequested (updateWaveforms gen u s m) = shockRequested m"
  "lastTimestamp (updateWaveforms gen u s m) = lastTimestamp m"
  by (simp_all add: updateWaveforms_def checkAndResetTimers_def)

lemma catchUp_misc:
  "shockRequested (catchUp gen us rs k m) = shockRequested m \<and>
   lastTimestamp (catchUp gen us rs k m) = lastTimestamp m"
  by (rule catchUp_invariant[where Q = "\<lambda>x.
      shockRequested x = shockRequested m \<and> lastTimestamp x = lastTimestamp m"]) simp_all

lemma interpolateParams_misc [simp]:
  "shockRequested (interpolateParams dt m) = shockRequested m"
  "lastTimestamp (interpolateParams dt m) = lastTimestamp m"
  by (simp_all add: interpolateParams_def Let_def split: option.splits)

lemma callback_misc:
  assumes run: "animationRunning m" "\<not> shockRequested m" "lastTimestamp m \<noteq> 0"
  shows "\<not> shockRequested (animationLoop catalog gen role selected u0 us rs ts m) \<and>
         lastTimestamp (animationLoop catalog gen role selected u0 us rs ts m) = ts"
  unfolding animationLoop_plain[OF run]
  using catchUp_misc[of gen us rs 0 "m\<lparr>lastTimestamp := ts,
             simulationTimeAccumulator :=
               simulationTimeAccumulator m + (ts - lastTimestamp m) / 1000\<rparr>"] run
  by simp

lemma callback_ready:
  assumes r: "ready ip m" and ts: "lastTimestamp m < ts"
  shows "ready ip (animationLoop catalog gen role selected u0 us rs ts m) \<and>
         lastTimestamp (animationLoop catalog gen role selected u0 us rs ts m) = ts \<and>
         hrFixed (ecg (currentParams (animationLoop catalog gen role selected u0 us rs ts m))) =
           hrFixed (ecg (currentParams m))"
proof -
  have run: "animationRunning m" "\<not> shockRequested m" "lastTimestamp m \<noteq> 0"
    and ip: "interpolationTargetParams m = Some ip"
    using r by (auto simp add: ready_def)
  have dt: "0 < (ts - lastTimestamp m) / 1000" using ts by simp
  have n: "interpolationTargetParams (animationLoop catalog gen role selected u0 us rs ts m) = Some ip"
    "animationRunning (animationLoop catalog gen role selected u0 us rs ts m)"
    "rhythm (ecg (currentParams (animationLoop catalog gen role selected u0 us rs ts m))) =
       rhythm (ecg (currentParams m))"
    "params (ecg (currentParams (animationLoop catalog gen role selected u0 us rs ts m))) =
       params (ecg (currentParams m))"
    using callback_numeric[OF run ip dt, of catalog gen role selected u0 us rs]
    unfolding Let_def by blast+
  have "0 < ts" using r ts by (simp add: ready_def)
  then show ?thesis
    using n callback_misc[OF run, of catalog gen role selected u0 us rs ts]
    by (simp add: ready_def hrFixed_def split: option.splits)
qed

lemma toward_trans: "toward c x t \<Longrightarrow> toward x y t \<Longrightarrow> toward c y t"
  by (auto simp add: toward_def)

lemma toward_refl [simp]: "toward c c t = True"
  by (cases "c \<le> t") (auto simp add: toward_def)

lemma toward_gap: "toward c x t \<Longrightarrow> \<bar>t - x\<bar> \<le> \<bar>t - c\<bar>"
  by (auto simp add: toward_def)

lemma paced_append:
  "paced l (a @ b) = (paced l a \<and> paced (last (l # a)) b)"
  by (induction a arbitrary: l) auto

lemma callbacks_append:
  "callbacks catalog gen role selected (xs @ ys) m =
   callbacks catalog gen role selected ys (callbacks catalog gen role selected xs m)"
  by (induction xs arbitrary: m) auto

lemma chain:
  assumes step: "\<And>m ts u0 us rs. P m \<Longrightarrow> lastTimestamp m < ts \<Longrightarrow>
      ts - lastTimestamp m \<le> 10000 / 3 \<Longrightarrow>
      P (animationLoop catalog gen role selected u0 us rs ts m) \<and>
      lastTimestamp (animationLoop catalog gen role selected u0 us rs ts m) = ts \<and>
      toward (v m) (v (animationLoop catalog gen role selected u0 us rs ts m)) t \<and>
      (Q \<and> \<bar>t - v m\<bar> \<le> INTERPOLATION_SNAP_THRESHOLD \<longrightarrow>
         v (animationLoop catalog gen role selected u0 us rs ts m) = t) \<and>
      (v m \<noteq> t \<longrightarrow>
         \<bar>t - v (animationLoop catalog gen role selected u0 us rs ts m)\<bar> < \<bar>t - v m\<bar>)"
  shows "P m \<Longrightarrow> paced (lastTimestamp m) (map fst ys) \<Longrightarrow>
         P (callbacks catalog gen role selected ys m) \<and>
         lastTimestamp (callbacks catalog gen role selected ys m) =
           last (lastTimestamp m # map fst ys) \<and>
         toward (v m) (v (callbacks catalog gen role selected ys m)) t \<and>
         (Q \<and> \<bar>t - v m\<bar> \<le> INTERPOLATION_SNAP_THRESHOLD \<and> ys \<noteq> [] \<longrightarrow>
            v (callbacks catalog gen role selected ys m) = t) \<and>
         (v m \<noteq> t \<and> ys \<noteq> [] \<longrightarrow>
            \<bar>t - v (callbacks catalog gen role selected ys m)\<bar> < \<bar>t - v m\<bar>)"
proof (induction ys arbitrary: m)
  case Nil
  then show ?case by simp
next
  case (Cons a rest)
  obtain ts u0 us rs where a: "a = (ts, u0, us, rs)" by (cases a) auto
  define m1 where "m1 = animationLoop catalog gen role selected u0 us rs ts m"
  have p: "lastTimestamp m < ts" "ts - lastTimestamp m \<le> 10000 / 3" "paced ts (map fst rest)"
    using Cons.prems(2) by (simp_all add: a)
  have s: "P m1" "lastTimestamp m1 = ts" "toward (v m) (v m1) t"
    "Q \<and> \<bar>t - v m\<bar> \<le> INTERPOLATION_SNAP_THRESHOLD \<longrightarrow> v m1 = t"
    "v m \<noteq> t \<longrightarrow> \<bar>t - v m1\<bar> < \<bar>t - v m\<bar>"
    using step[OF Cons.prems(1) p(1) p(2), of u0 us rs] unfolding m1_def by blast+
  have ih: "P (callbacks catalog gen role selected rest m1) \<and>
         lastTimestamp (callbacks catalog gen role selected rest m1) =
           last (lastTimestamp m1 # map fst rest) \<and>
         toward (v m1) (v (callbacks catalog gen role selected rest m1)) t \<and>
         (Q \<and> \<bar>t - v m1\<bar> \<le> INTERPOLATION_SNAP_THRESHOLD \<and> rest \<noteq> [] \<longrightarrow>
            v (callbacks catalog gen role selected rest m1) = t)"
    using Cons.IH[OF s(1)] p(3) s(2) by simp
  have c: "callbacks catalog gen role selected (a # rest) m =
           callbacks catalog gen role selected rest m1"
    by (simp add: a m1_def)
  have l: "last (lastTimestamp m # map fst (a # rest)) = last (lastTimestamp m1 # map fst rest)"
    by (simp add: a s(2))
  have tw: "toward (v m) (v (callbacks catalog gen role selected rest m1)) t"
    using toward_trans[OF s(3)] ih by blast
  have sn: "v (callbacks catalog gen role selected rest m1) = t"
    if q: "Q \<and> \<bar>t - v m\<bar> \<le> INTERPOLATION_SNAP_THRESHOLD"
  proof (cases "rest = []")
    case True
    then show ?thesis using s(4) q by simp
  next
    case False
    have "v m1 = t" using s(4) q by blast
    then have "\<bar>t - v m1\<bar> \<le> INTERPOLATION_SNAP_THRESHOLD"
      by (simp add: INTERPOLATION_SNAP_THRESHOLD_def)
    then show ?thesis using ih False q by blast
  qed
  have st: "\<bar>t - v (callbacks catalog gen role selected rest m1)\<bar> < \<bar>t - v m\<bar>" if "v m \<noteq> t"
  proof -
    have "\<bar>t - v (callbacks catalog gen role selected rest m1)\<bar> \<le> \<bar>t - v m1\<bar>"
      using toward_gap ih by blast
    then show ?thesis using s(5) that by linarith
  qed
  show ?case unfolding c l using ih tw sn st by blast
qed

lemma callback_delta:
  assumes "lastTimestamp m < ts" "ts - lastTimestamp m \<le> 10000 / 3"
  shows "0 < (ts - lastTimestamp m) / 1000" "(ts - lastTimestamp m) / 1000 \<le> 10 / 3"
  using assms by simp_all

lemma lin_closer:
  assumes "0 < k" "k \<le> 1" "c \<noteq> (t::real)"
  shows "\<bar>t - (c + (t - c) * k)\<bar> < \<bar>t - c\<bar>"
proof -
  have e: "t - (c + (t - c) * k) = (t - c) * (1 - k)" by (simp add: algebra_simps)
  have "\<bar>t - c\<bar> * (1 - k) < \<bar>t - c\<bar> * 1"
    using assms by (intro mult_strict_left_mono) auto
  then show ?thesis unfolding e abs_mult using assms by simp
qed

lemma nudge_closer:
  assumes "0 < rate * dt" "rate * dt \<le> 1" "c \<noteq> t"
  shows "\<bar>t - nudge rate dt c t\<bar> < \<bar>t - c\<bar>"
proof (cases "INTERPOLATION_SNAP_THRESHOLD < \<bar>t - c\<bar>")
  case True
  then show ?thesis using nudge_far[OF True, of rate dt] lin_closer[OF assms] by simp
next
  case False
  then have "nudge rate dt c t = t" using nudge_snap[of t c rate dt] by simp
  then show ?thesis using assms(3) by simp
qed

lemma rate_dt_pos:
  assumes "0 < dt"
  shows "0 < VITAL_INTERPOLATION_RATE * dt" "0 < VITAL_INTERPOLATION_RATE / 2 * dt"
  using assms by (simp_all add: VITAL_INTERPOLATION_RATE_def)

lemma nudge_step:
  assumes "0 < dt" "dt \<le> 10 / 3"
  shows "toward c (nudge VITAL_INTERPOLATION_RATE dt c t) t \<and>
         (\<bar>t - c\<bar> \<le> INTERPOLATION_SNAP_THRESHOLD \<longrightarrow> nudge VITAL_INTERPOLATION_RATE dt c t = t) \<and>
         (c \<noteq> t \<longrightarrow> \<bar>t - nudge VITAL_INTERPOLATION_RATE dt c t\<bar> < \<bar>t - c\<bar>)"
    and "toward c (nudge (VITAL_INTERPOLATION_RATE / 2) dt c t) t \<and>
         (\<bar>t - c\<bar> \<le> INTERPOLATION_SNAP_THRESHOLD \<longrightarrow>
            nudge (VITAL_INTERPOLATION_RATE / 2) dt c t = t) \<and>
         (c \<noteq> t \<longrightarrow> \<bar>t - nudge (VITAL_INTERPOLATION_RATE / 2) dt c t\<bar> < \<bar>t - c\<bar>)"
  using nudge_toward[OF rate_dt(1,2)[OF assms]] nudge_toward[OF rate_dt(3,4)[OF assms]] nudge_snap
    nudge_closer[OF rate_dt_pos(1)[OF assms(1)] rate_dt(2)[OF assms]]
    nudge_closer[OF rate_dt_pos(2)[OF assms(1)] rate_dt(4)[OF assms]]
  by blast+

lemma interpolateAbp_step:
  assumes dt: "0 < dt" "dt \<le> 10 / 3"
    and c: "abp_approachable cur tgt" and t: "abp_ordered tgt"
  shows "abp_ordered (interpolateAbp dt pend cur tgt)"
    and "toward (abp_dia cur) (abp_dia (interpolateAbp dt pend cur tgt)) (abp_dia tgt)"
    and "toward (abp_sys cur) (abp_sys (interpolateAbp dt pend cur tgt)) (abp_sys tgt)"
    and "abp_dia cur \<noteq> abp_dia tgt \<longrightarrow>
           \<bar>abp_dia tgt - abp_dia (interpolateAbp dt pend cur tgt)\<bar> < \<bar>abp_dia tgt - abp_dia cur\<bar>"
    and "abp_sys cur \<noteq> abp_sys tgt \<longrightarrow>
           \<bar>abp_sys tgt - abp_sys (interpolateAbp dt pend cur tgt)\<bar> < \<bar>abp_sys tgt - abp_sys cur\<bar>"
    and "\<bar>abp_dia tgt - abp_dia cur\<bar> \<le> INTERPOLATION_SNAP_THRESHOLD \<longrightarrow>
            abp_dia (interpolateAbp dt pend cur tgt) = abp_dia tgt"
    and "abp_dia cur \<le> abp_dia tgt \<and> \<bar>abp_sys tgt - abp_sys cur\<bar> \<le> INTERPOLATION_SNAP_THRESHOLD \<longrightarrow>
            abp_sys (interpolateAbp dt pend cur tgt) = abp_sys tgt"
proof -
  define s1 where "s1 = nudge VITAL_INTERPOLATION_RATE dt (abp_sys cur) (abp_sys tgt)"
  define d1 where "d1 = nudge VITAL_INTERPOLATION_RATE dt (abp_dia cur) (abp_dia tgt)"
  define sc where "sc = abp_sys cur"
  define dc where "dc = abp_dia cur"
  define sg where "sg = abp_sys tgt"
  define dg where "dg = abp_dia tgt"
  note n = nudge_step(1)[OF dt]
  have ts: "(sc \<le> s1 \<and> s1 \<le> sg) \<or> (sg \<le> s1 \<and> s1 \<le> sc)"
    and ms: "sc \<noteq> sg \<longrightarrow> \<bar>sg - s1\<bar> < \<bar>sg - sc\<bar>"
    and ss: "\<bar>sg - sc\<bar> \<le> INTERPOLATION_SNAP_THRESHOLD \<longrightarrow> s1 = sg"
    using n[of sc sg] unfolding s1_def sc_def sg_def toward_def by blast+
  have td: "(dc \<le> d1 \<and> d1 \<le> dg) \<or> (dg \<le> d1 \<and> d1 \<le> dc)"
    and md: "dc \<noteq> dg \<longrightarrow> \<bar>dg - d1\<bar> < \<bar>dg - dc\<bar>"
    and sd: "\<bar>dg - dc\<bar> \<le> INTERPOLATION_SNAP_THRESHOLD \<longrightarrow> d1 = dg"
    using n[of dc dg] unfolding d1_def dc_def dg_def toward_def by blast+
  have tg: "0 \<le> dg" "dg + 1 \<le> sg" using t by (simp_all add: abp_ordered_def dg_def sg_def)
  have cc: "(0 \<le> dc \<and> dc + 1 \<le> sc) \<or> (0 \<le> dc \<and> dc \<le> dg \<and> sc \<le> sg)"
    using c by (simp add: abp_approachable_def abp_ordered_def dc_def sc_def dg_def sg_def)
  have nz: "\<not> (abp_sys tgt = 0 \<and> abp_dia tgt = 0)" using t by (auto simp add: abp_ordered_def)
  have sys: "abp_sys (interpolateAbp dt pend cur tgt) = max (max 0 d1 + 1) s1"
    and dia: "abp_dia (interpolateAbp dt pend cur tgt) = max 0 d1"
    using nz by (auto simp add: interpolateAbp_def Let_def s1_def d1_def)
  have d0: "0 \<le> d1" using td cc tg by linarith
  have dm: "max 0 d1 = d1" using d0 by simp
  show "abp_ordered (interpolateAbp dt pend cur tgt)"
    unfolding abp_ordered_def sys dia by simp
  show "toward (abp_dia cur) (abp_dia (interpolateAbp dt pend cur tgt)) (abp_dia tgt)"
    unfolding dia dm toward_def dc_def[symmetric] dg_def[symmetric] using td .
  have up: "d1 + 1 \<le> s1 \<or> (sc \<le> d1 + 1 \<and> d1 + 1 \<le> sg) \<or> (sg \<le> d1 + 1 \<and> d1 + 1 \<le> sc)"
    using ts td cc tg ms md by (cases "sc \<le> sg"; cases "dc \<le> dg"; cases "dc = dg") auto
  show "toward (abp_sys cur) (abp_sys (interpolateAbp dt pend cur tgt)) (abp_sys tgt)"
    unfolding sys dm toward_def sc_def[symmetric] sg_def[symmetric]
    using ts up by (auto simp add: max_def)
  show "abp_dia cur \<noteq> abp_dia tgt \<longrightarrow>
           \<bar>abp_dia tgt - abp_dia (interpolateAbp dt pend cur tgt)\<bar> < \<bar>abp_dia tgt - abp_dia cur\<bar>"
    unfolding dia dm dc_def[symmetric] dg_def[symmetric] using md .
  have st: "sc \<noteq> sg \<Longrightarrow> d1 + 1 > s1 \<Longrightarrow> \<bar>sg - (d1 + 1)\<bar> < \<bar>sg - sc\<bar>"
    using ts td cc tg ms md by (cases "sc \<le> sg"; cases "dc \<le> dg"; cases "dc = dg") auto
  show "abp_sys cur \<noteq> abp_sys tgt \<longrightarrow>
           \<bar>abp_sys tgt - abp_sys (interpolateAbp dt pend cur tgt)\<bar> < \<bar>abp_sys tgt - abp_sys cur\<bar>"
    unfolding sys dm sc_def[symmetric] sg_def[symmetric]
    using ms st by (auto simp add: max_def)
  show "\<bar>abp_dia tgt - abp_dia cur\<bar> \<le> INTERPOLATION_SNAP_THRESHOLD \<longrightarrow>
            abp_dia (interpolateAbp dt pend cur tgt) = abp_dia tgt"
    unfolding dia dm dc_def[symmetric] dg_def[symmetric] using sd .
  show "abp_dia cur \<le> abp_dia tgt \<and> \<bar>abp_sys tgt - abp_sys cur\<bar> \<le> INTERPOLATION_SNAP_THRESHOLD \<longrightarrow>
            abp_sys (interpolateAbp dt pend cur tgt) = abp_sys tgt"
    unfolding sys dm sc_def[symmetric] sg_def[symmetric] dc_def[symmetric] dg_def[symmetric]
    using ss td tg by (auto simp add: max_def)
qed

lemma step_values:
  assumes r: "ready ip m" and ts: "lastTimestamp m < ts" "ts - lastTimestamp m \<le> 10000 / 3"
  shows "let d = (ts - lastTimestamp m) / 1000;
             m' = animationLoop catalog gen role selected u0 us rs ts m
         in 0 < d \<and> d \<le> 10 / 3 \<and> ready ip m' \<and> lastTimestamp m' = ts \<and>
            hrFixed (ecg (currentParams m')) = hrFixed (ecg (currentParams m)) \<and>
            hr (ecg (currentParams m')) = interpolateHr d (ecg (currentParams m)) (hr (ecg ip)) \<and>
            spo2_value (spo2 (currentParams m')) =
              nudge VITAL_INTERPOLATION_RATE d (spo2_value (spo2 (currentParams m)))
                (spo2_value (spo2 ip)) \<and>
            abp_sys (abp (currentParams m')) =
              abp_sys (interpolateAbp d False (abp (currentParams m)) (abp ip)) \<and>
            abp_dia (abp (currentParams m')) =
              abp_dia (interpolateAbp d False (abp (currentParams m)) (abp ip)) \<and>
            valueC (temp (currentParams m')) =
              nudge (VITAL_INTERPOLATION_RATE / 2) d (valueC (temp (currentParams m)))
                (valueC (temp ip))"
proof -
  have run: "animationRunning m" "\<not> shockRequested m" "lastTimestamp m \<noteq> 0"
    and ip: "interpolationTargetParams m = Some ip"
    using r by (auto simp add: ready_def)
  note d = callback_delta[OF ts]
  show ?thesis
    using callback_numeric[OF run ip d(1), of catalog gen role selected u0 us rs]
      callback_ready[OF r ts(1), of catalog gen role selected u0 us rs] d
    unfolding Let_def by blast
qed

lemma step_spo2:
  assumes "ready ip m" "lastTimestamp m < ts" "ts - lastTimestamp m \<le> 10000 / 3"
  shows "ready ip (animationLoop catalog gen role selected u0 us rs ts m) \<and>
      lastTimestamp (animationLoop catalog gen role selected u0 us rs ts m) = ts \<and>
      toward (spo2_value (spo2 (currentParams m)))
        (spo2_value (spo2 (currentParams (animationLoop catalog gen role selected u0 us rs ts m))))
        (spo2_value (spo2 ip)) \<and>
      (True \<and> \<bar>spo2_value (spo2 ip) - spo2_value (spo2 (currentParams m))\<bar>
          \<le> INTERPOLATION_SNAP_THRESHOLD \<longrightarrow>
         spo2_value (spo2 (currentParams (animationLoop catalog gen role selected u0 us rs ts m))) =
           spo2_value (spo2 ip)) \<and>
      (spo2_value (spo2 (currentParams m)) \<noteq> spo2_value (spo2 ip) \<longrightarrow>
         \<bar>spo2_value (spo2 ip) -
          spo2_value (spo2 (currentParams (animationLoop catalog gen role selected u0 us rs ts m)))\<bar>
         < \<bar>spo2_value (spo2 ip) - spo2_value (spo2 (currentParams m))\<bar>)"
proof -
  define d where "d = (ts - lastTimestamp m) / 1000"
  define m' where "m' = animationLoop catalog gen role selected u0 us rs ts m"
  have s: "0 < d" "d \<le> 10 / 3" "ready ip m'" "lastTimestamp m' = ts"
    "spo2_value (spo2 (currentParams m')) =
       nudge VITAL_INTERPOLATION_RATE d (spo2_value (spo2 (currentParams m))) (spo2_value (spo2 ip))"
    using step_values[OF assms, of catalog gen role selected u0 us rs]
    unfolding Let_def d_def m'_def by blast+
  show ?thesis unfolding m'_def[symmetric] s(5)
    using s(3,4) nudge_step(1)[OF s(1,2)] by blast
qed

lemma step_temp:
  assumes "ready ip m" "lastTimestamp m < ts" "ts - lastTimestamp m \<le> 10000 / 3"
  shows "ready ip (animationLoop catalog gen role selected u0 us rs ts m) \<and>
      lastTimestamp (animationLoop catalog gen role selected u0 us rs ts m) = ts \<and>
      toward (valueC (temp (currentParams m)))
        (valueC (temp (currentParams (animationLoop catalog gen role selected u0 us rs ts m))))
        (valueC (temp ip)) \<and>
      (True \<and> \<bar>valueC (temp ip) - valueC (temp (currentParams m))\<bar>
          \<le> INTERPOLATION_SNAP_THRESHOLD \<longrightarrow>
         valueC (temp (currentParams (animationLoop catalog gen role selected u0 us rs ts m))) =
           valueC (temp ip)) \<and>
      (valueC (temp (currentParams m)) \<noteq> valueC (temp ip) \<longrightarrow>
         \<bar>valueC (temp ip) -
          valueC (temp (currentParams (animationLoop catalog gen role selected u0 us rs ts m)))\<bar>
         < \<bar>valueC (temp ip) - valueC (temp (currentParams m))\<bar>)"
proof -
  define d where "d = (ts - lastTimestamp m) / 1000"
  define m' where "m' = animationLoop catalog gen role selected u0 us rs ts m"
  have s: "0 < d" "d \<le> 10 / 3" "ready ip m'" "lastTimestamp m' = ts"
    "valueC (temp (currentParams m')) =
       nudge (VITAL_INTERPOLATION_RATE / 2) d (valueC (temp (currentParams m))) (valueC (temp ip))"
    using step_values[OF assms, of catalog gen role selected u0 us rs]
    unfolding Let_def d_def m'_def by blast+
  show ?thesis unfolding m'_def[symmetric] s(5)
    using s(3,4) nudge_step(2)[OF s(1,2)] by blast
qed

lemma step_hr:
  assumes "ready ip m \<and> \<not> hrFixed (ecg (currentParams m))"
    "lastTimestamp m < ts" "ts - lastTimestamp m \<le> 10000 / 3"
  shows "(ready ip (animationLoop catalog gen role selected u0 us rs ts m) \<and>
       \<not> hrFixed (ecg (currentParams (animationLoop catalog gen role selected u0 us rs ts m)))) \<and>
      lastTimestamp (animationLoop catalog gen role selected u0 us rs ts m) = ts \<and>
      toward (hr (ecg (currentParams m)))
        (hr (ecg (currentParams (animationLoop catalog gen role selected u0 us rs ts m))))
        (hr (ecg ip)) \<and>
      (True \<and> \<bar>hr (ecg ip) - hr (ecg (currentParams m))\<bar> \<le> INTERPOLATION_SNAP_THRESHOLD \<longrightarrow>
         hr (ecg (currentParams (animationLoop catalog gen role selected u0 us rs ts m))) =
           hr (ecg ip)) \<and>
      (hr (ecg (currentParams m)) \<noteq> hr (ecg ip) \<longrightarrow>
         \<bar>hr (ecg ip) -
          hr (ecg (currentParams (animationLoop catalog gen role selected u0 us rs ts m)))\<bar>
         < \<bar>hr (ecg ip) - hr (ecg (currentParams m))\<bar>)"
proof -
  define d where "d = (ts - lastTimestamp m) / 1000"
  define m' where "m' = animationLoop catalog gen role selected u0 us rs ts m"
  have r: "ready ip m" and nf: "\<not> hrFixed (ecg (currentParams m))" using assms(1) by blast+
  have s: "0 < d" "d \<le> 10 / 3" "ready ip m'" "lastTimestamp m' = ts"
    "hrFixed (ecg (currentParams m')) = hrFixed (ecg (currentParams m))"
    "hr (ecg (currentParams m')) = interpolateHr d (ecg (currentParams m)) (hr (ecg ip))"
    using step_values[OF r assms(2,3), of catalog gen role selected u0 us rs]
    unfolding Let_def d_def m'_def by blast+
  have e: "hr (ecg (currentParams m')) =
      nudge VITAL_INTERPOLATION_RATE d (hr (ecg (currentParams m))) (hr (ecg ip))"
    using s(6) interpolateHr_free[OF nf] by simp
  show ?thesis unfolding m'_def[symmetric] e
    using s(3,4,5) nf nudge_step(1)[OF s(1,2)] by blast
qed

lemma step_hr_fixed:
  assumes "ready ip m \<and> hrFixed (ecg (currentParams m))" and z: "hr (ecg ip) = 0"
    and "lastTimestamp m < ts" "ts - lastTimestamp m \<le> 10000 / 3"
  shows "(ready ip (animationLoop catalog gen role selected u0 us rs ts m) \<and>
       hrFixed (ecg (currentParams (animationLoop catalog gen role selected u0 us rs ts m)))) \<and>
      lastTimestamp (animationLoop catalog gen role selected u0 us rs ts m) = ts \<and>
      hr (ecg (currentParams (animationLoop catalog gen role selected u0 us rs ts m))) = 0"
proof -
  define d where "d = (ts - lastTimestamp m) / 1000"
  define m' where "m' = animationLoop catalog gen role selected u0 us rs ts m"
  have r: "ready ip m" and f: "hrFixed (ecg (currentParams m))" using assms(1) by blast+
  have s: "ready ip m'" "lastTimestamp m' = ts"
    "hrFixed (ecg (currentParams m')) = hrFixed (ecg (currentParams m))"
    "hr (ecg (currentParams m')) = interpolateHr d (ecg (currentParams m)) (hr (ecg ip))"
    using step_values[OF r assms(3,4), of catalog gen role selected u0 us rs]
    unfolding Let_def d_def m'_def by blast+
  have "interpolateHr d (ecg (currentParams m)) 0 = 0"
    using interpolateHr_fixed[OF f, of d 0] by simp
  then show ?thesis unfolding m'_def[symmetric] using s f z by simp
qed

lemma step_abp:
  assumes t: "abp_ordered (abp ip)"
    and p: "ready ip m \<and> abp_approachable (abp (currentParams m)) (abp ip)"
    and ts: "lastTimestamp m < ts" "ts - lastTimestamp m \<le> 10000 / 3"
  shows "let m' = animationLoop catalog gen role selected u0 us rs ts m
         in ready ip m' \<and> abp_ordered (abp (currentParams m')) \<and> lastTimestamp m' = ts \<and>
            toward (abp_sys (abp (currentParams m))) (abp_sys (abp (currentParams m')))
              (abp_sys (abp ip)) \<and>
            toward (abp_dia (abp (currentParams m))) (abp_dia (abp (currentParams m')))
              (abp_dia (abp ip)) \<and>
            (\<bar>abp_dia (abp ip) - abp_dia (abp (currentParams m))\<bar> \<le> INTERPOLATION_SNAP_THRESHOLD
               \<longrightarrow> abp_dia (abp (currentParams m')) = abp_dia (abp ip)) \<and>
            (abp_dia (abp (currentParams m)) \<le> abp_dia (abp ip) \<and>
             \<bar>abp_sys (abp ip) - abp_sys (abp (currentParams m))\<bar> \<le> INTERPOLATION_SNAP_THRESHOLD
               \<longrightarrow> abp_sys (abp (currentParams m')) = abp_sys (abp ip)) \<and>
            (abp_dia (abp (currentParams m)) \<noteq> abp_dia (abp ip) \<longrightarrow>
               \<bar>abp_dia (abp ip) - abp_dia (abp (currentParams m'))\<bar>
                 < \<bar>abp_dia (abp ip) - abp_dia (abp (currentParams m))\<bar>) \<and>
            (abp_sys (abp (currentParams m)) \<noteq> abp_sys (abp ip) \<longrightarrow>
               \<bar>abp_sys (abp ip) - abp_sys (abp (currentParams m'))\<bar>
                 < \<bar>abp_sys (abp ip) - abp_sys (abp (currentParams m))\<bar>)"
proof -
  define d where "d = (ts - lastTimestamp m) / 1000"
  define m' where "m' = animationLoop catalog gen role selected u0 us rs ts m"
  define a' where "a' = interpolateAbp d False (abp (currentParams m)) (abp ip)"
  have r: "ready ip m" and c: "abp_approachable (abp (currentParams m)) (abp ip)"
    using p by blast+
  have s: "0 < d" "d \<le> 10 / 3" "ready ip m'" "lastTimestamp m' = ts"
    "abp_sys (abp (currentParams m')) = abp_sys a'"
    "abp_dia (abp (currentParams m')) = abp_dia a'"
    using step_values[OF r ts, of catalog gen role selected u0 us rs]
    unfolding Let_def d_def m'_def a'_def by blast+
  note i = interpolateAbp_step[OF s(1,2) c t, of False, folded a'_def]
  have o: "abp_ordered (abp (currentParams m'))"
    using i(1) by (simp add: abp_ordered_def s(5) s(6))
  show ?thesis unfolding Let_def m'_def[symmetric] s(5) s(6)
    using s(3,4) o i(2-7) by blast
qed

lemma ordered_approachable: "abp_ordered a \<Longrightarrow> abp_approachable a t"
  by (simp add: abp_approachable_def)

lemma chain_spo2:
  assumes "ready ip m" "paced (lastTimestamp m) (map fst ys)"
  shows "ready ip (callbacks catalog gen role selected ys m) \<and>
         lastTimestamp (callbacks catalog gen role selected ys m) =
           last (lastTimestamp m # map fst ys) \<and>
         toward (spo2_value (spo2 (currentParams m)))
           (spo2_value (spo2 (currentParams (callbacks catalog gen role selected ys m))))
           (spo2_value (spo2 ip)) \<and>
         (\<bar>spo2_value (spo2 ip) - spo2_value (spo2 (currentParams m))\<bar>
            \<le> INTERPOLATION_SNAP_THRESHOLD \<and> ys \<noteq> [] \<longrightarrow>
          spo2_value (spo2 (currentParams (callbacks catalog gen role selected ys m))) =
            spo2_value (spo2 ip)) \<and>
         (spo2_value (spo2 (currentParams m)) \<noteq> spo2_value (spo2 ip) \<and> ys \<noteq> [] \<longrightarrow>
          \<bar>spo2_value (spo2 ip) -
           spo2_value (spo2 (currentParams (callbacks catalog gen role selected ys m)))\<bar>
          < \<bar>spo2_value (spo2 ip) - spo2_value (spo2 (currentParams m))\<bar>)"
  using chain[where P = "ready ip" and v = "\<lambda>x. spo2_value (spo2 (currentParams x))"
      and t = "spo2_value (spo2 ip)" and Q = True and catalog = catalog and gen = gen
      and role = role and selected = selected and m = m and ys = ys, OF step_spo2 assms]
  by simp

lemma chain_temp:
  assumes "ready ip m" "paced (lastTimestamp m) (map fst ys)"
  shows "toward (valueC (temp (currentParams m)))
           (valueC (temp (currentParams (callbacks catalog gen role selected ys m))))
           (valueC (temp ip)) \<and>
         (\<bar>valueC (temp ip) - valueC (temp (currentParams m))\<bar>
            \<le> INTERPOLATION_SNAP_THRESHOLD \<and> ys \<noteq> [] \<longrightarrow>
          valueC (temp (currentParams (callbacks catalog gen role selected ys m))) =
            valueC (temp ip)) \<and>
         (valueC (temp (currentParams m)) \<noteq> valueC (temp ip) \<and> ys \<noteq> [] \<longrightarrow>
          \<bar>valueC (temp ip) -
           valueC (temp (currentParams (callbacks catalog gen role selected ys m)))\<bar>
          < \<bar>valueC (temp ip) - valueC (temp (currentParams m))\<bar>)"
  using chain[where P = "ready ip" and v = "\<lambda>x. valueC (temp (currentParams x))"
      and t = "valueC (temp ip)" and Q = True and catalog = catalog and gen = gen
      and role = role and selected = selected and m = m and ys = ys, OF step_temp assms]
  by simp

lemma chain_hr:
  assumes "ready ip m \<and> \<not> hrFixed (ecg (currentParams m))" "paced (lastTimestamp m) (map fst ys)"
  shows "\<not> hrFixed (ecg (currentParams (callbacks catalog gen role selected ys m))) \<and>
         toward (hr (ecg (currentParams m)))
           (hr (ecg (currentParams (callbacks catalog gen role selected ys m))))
           (hr (ecg ip)) \<and>
         (\<bar>hr (ecg ip) - hr (ecg (currentParams m))\<bar>
            \<le> INTERPOLATION_SNAP_THRESHOLD \<and> ys \<noteq> [] \<longrightarrow>
          hr (ecg (currentParams (callbacks catalog gen role selected ys m))) = hr (ecg ip)) \<and>
         (hr (ecg (currentParams m)) \<noteq> hr (ecg ip) \<and> ys \<noteq> [] \<longrightarrow>
          \<bar>hr (ecg ip) - hr (ecg (currentParams (callbacks catalog gen role selected ys m)))\<bar>
          < \<bar>hr (ecg ip) - hr (ecg (currentParams m))\<bar>)"
  using chain[where P = "\<lambda>x. ready ip x \<and> \<not> hrFixed (ecg (currentParams x))"
      and v = "\<lambda>x. hr (ecg (currentParams x))"
      and t = "hr (ecg ip)" and Q = True and catalog = catalog and gen = gen
      and role = role and selected = selected and m = m and ys = ys, OF step_hr assms]
  by simp

lemma chain_hr_fixed:
  assumes z: "hr (ecg ip) = 0"
  shows "ready ip m \<and> hrFixed (ecg (currentParams m)) \<Longrightarrow> paced (lastTimestamp m) (map fst ys) \<Longrightarrow>
         (ready ip (callbacks catalog gen role selected ys m) \<and>
          hrFixed (ecg (currentParams (callbacks catalog gen role selected ys m)))) \<and>
         (ys \<noteq> [] \<longrightarrow> hr (ecg (currentParams (callbacks catalog gen role selected ys m))) = 0)"
proof (induction ys arbitrary: m)
  case Nil
  then show ?case by simp
next
  case (Cons a rest)
  obtain ts u0 us rs where a: "a = (ts, u0, us, rs)" by (cases a) auto
  define m1 where "m1 = animationLoop catalog gen role selected u0 us rs ts m"
  have p: "lastTimestamp m < ts" "ts - lastTimestamp m \<le> 10000 / 3" "paced ts (map fst rest)"
    using Cons.prems(2) by (simp_all add: a)
  have s: "ready ip m1 \<and> hrFixed (ecg (currentParams m1))" "lastTimestamp m1 = ts"
    "hr (ecg (currentParams m1)) = 0"
    using step_hr_fixed[OF Cons.prems(1) z p(1) p(2), of catalog gen role selected u0 us rs]
    unfolding m1_def by blast+
  have ih: "(ready ip (callbacks catalog gen role selected rest m1) \<and>
          hrFixed (ecg (currentParams (callbacks catalog gen role selected rest m1)))) \<and>
         (rest \<noteq> [] \<longrightarrow> hr (ecg (currentParams (callbacks catalog gen role selected rest m1))) = 0)"
    using Cons.IH[OF s(1)] p(3) s(2) by simp
  have c: "callbacks catalog gen role selected (a # rest) m =
           callbacks catalog gen role selected rest m1"
    by (simp add: a m1_def)
  show ?case unfolding c using ih s(3) by (cases "rest = []") auto
qed

lemma chain_abp_step:
  assumes t: "abp_ordered (abp ip)"
    and h: "ready ip x \<and> abp_approachable (abp (currentParams x)) (abp ip)"
    and ts: "lastTimestamp x < ts" "ts - lastTimestamp x \<le> 10000 / 3"
  shows "(ready ip (animationLoop catalog gen role selected u0 us rs ts x) \<and>
       abp_approachable (abp (currentParams (animationLoop catalog gen role selected u0 us rs ts x)))
         (abp ip)) \<and>
      lastTimestamp (animationLoop catalog gen role selected u0 us rs ts x) = ts"
    and "abp_ordered (abp (currentParams (animationLoop catalog gen role selected u0 us rs ts x)))"
    and "toward (abp_dia (abp (currentParams x)))
        (abp_dia (abp (currentParams (animationLoop catalog gen role selected u0 us rs ts x))))
        (abp_dia (abp ip)) \<and>
      (True \<and> \<bar>abp_dia (abp ip) - abp_dia (abp (currentParams x))\<bar>
          \<le> INTERPOLATION_SNAP_THRESHOLD \<longrightarrow>
         abp_dia (abp (currentParams (animationLoop catalog gen role selected u0 us rs ts x))) =
           abp_dia (abp ip)) \<and>
      (abp_dia (abp (currentParams x)) \<noteq> abp_dia (abp ip) \<longrightarrow>
         \<bar>abp_dia (abp ip) -
          abp_dia (abp (currentParams (animationLoop catalog gen role selected u0 us rs ts x)))\<bar>
         < \<bar>abp_dia (abp ip) - abp_dia (abp (currentParams x))\<bar>)"
    and "toward (abp_sys (abp (currentParams x)))
        (abp_sys (abp (currentParams (animationLoop catalog gen role selected u0 us rs ts x))))
        (abp_sys (abp ip)) \<and>
      (False \<and> \<bar>abp_sys (abp ip) - abp_sys (abp (currentParams x))\<bar>
          \<le> INTERPOLATION_SNAP_THRESHOLD \<longrightarrow>
         abp_sys (abp (currentParams (animationLoop catalog gen role selected u0 us rs ts x))) =
           abp_sys (abp ip)) \<and>
      (abp_sys (abp (currentParams x)) \<noteq> abp_sys (abp ip) \<longrightarrow>
         \<bar>abp_sys (abp ip) -
          abp_sys (abp (currentParams (animationLoop catalog gen role selected u0 us rs ts x)))\<bar>
         < \<bar>abp_sys (abp ip) - abp_sys (abp (currentParams x))\<bar>)"
    and "abp_dia (abp (currentParams x)) \<le> abp_dia (abp ip) \<longrightarrow>
      abp_dia (abp (currentParams (animationLoop catalog gen role selected u0 us rs ts x)))
        \<le> abp_dia (abp ip) \<and>
      (True \<and> \<bar>abp_sys (abp ip) - abp_sys (abp (currentParams x))\<bar>
          \<le> INTERPOLATION_SNAP_THRESHOLD \<longrightarrow>
         abp_sys (abp (currentParams (animationLoop catalog gen role selected u0 us rs ts x))) =
           abp_sys (abp ip))"
proof -
  note s = step_abp[OF t h ts, of catalog gen role selected u0 us rs, unfolded Let_def]
  show o: "abp_ordered (abp (currentParams (animationLoop catalog gen role selected u0 us rs ts x)))"
    using s by blast
  show "(ready ip (animationLoop catalog gen role selected u0 us rs ts x) \<and>
       abp_approachable (abp (currentParams (animationLoop catalog gen role selected u0 us rs ts x)))
         (abp ip)) \<and>
      lastTimestamp (animationLoop catalog gen role selected u0 us rs ts x) = ts"
    using s ordered_approachable[OF o] by blast
  show "toward (abp_dia (abp (currentParams x)))
        (abp_dia (abp (currentParams (animationLoop catalog gen role selected u0 us rs ts x))))
        (abp_dia (abp ip)) \<and>
      (True \<and> \<bar>abp_dia (abp ip) - abp_dia (abp (currentParams x))\<bar>
          \<le> INTERPOLATION_SNAP_THRESHOLD \<longrightarrow>
         abp_dia (abp (currentParams (animationLoop catalog gen role selected u0 us rs ts x))) =
           abp_dia (abp ip)) \<and>
      (abp_dia (abp (currentParams x)) \<noteq> abp_dia (abp ip) \<longrightarrow>
         \<bar>abp_dia (abp ip) -
          abp_dia (abp (currentParams (animationLoop catalog gen role selected u0 us rs ts x)))\<bar>
         < \<bar>abp_dia (abp ip) - abp_dia (abp (currentParams x))\<bar>)"
    using s by blast
  show "toward (abp_sys (abp (currentParams x)))
        (abp_sys (abp (currentParams (animationLoop catalog gen role selected u0 us rs ts x))))
        (abp_sys (abp ip)) \<and>
      (False \<and> \<bar>abp_sys (abp ip) - abp_sys (abp (currentParams x))\<bar>
          \<le> INTERPOLATION_SNAP_THRESHOLD \<longrightarrow>
         abp_sys (abp (currentParams (animationLoop catalog gen role selected u0 us rs ts x))) =
           abp_sys (abp ip)) \<and>
      (abp_sys (abp (currentParams x)) \<noteq> abp_sys (abp ip) \<longrightarrow>
         \<bar>abp_sys (abp ip) -
          abp_sys (abp (currentParams (animationLoop catalog gen role selected u0 us rs ts x)))\<bar>
         < \<bar>abp_sys (abp ip) - abp_sys (abp (currentParams x))\<bar>)"
    using s by blast
  have td: "toward (abp_dia (abp (currentParams x)))
        (abp_dia (abp (currentParams (animationLoop catalog gen role selected u0 us rs ts x))))
        (abp_dia (abp ip))" using s by blast
  show "abp_dia (abp (currentParams x)) \<le> abp_dia (abp ip) \<longrightarrow>
      abp_dia (abp (currentParams (animationLoop catalog gen role selected u0 us rs ts x)))
        \<le> abp_dia (abp ip) \<and>
      (True \<and> \<bar>abp_sys (abp ip) - abp_sys (abp (currentParams x))\<bar>
          \<le> INTERPOLATION_SNAP_THRESHOLD \<longrightarrow>
         abp_sys (abp (currentParams (animationLoop catalog gen role selected u0 us rs ts x))) =
           abp_sys (abp ip))"
    using s td by (auto simp add: toward_def)
qed

lemma chain_dia:
  assumes t: "abp_ordered (abp ip)"
    and p: "ready ip m \<and> abp_approachable (abp (currentParams m)) (abp ip)"
    and pc: "paced (lastTimestamp m) (map fst ys)"
  shows "abp_approachable (abp (currentParams (callbacks catalog gen role selected ys m))) (abp ip) \<and>
         toward (abp_dia (abp (currentParams m)))
           (abp_dia (abp (currentParams (callbacks catalog gen role selected ys m))))
           (abp_dia (abp ip)) \<and>
         (\<bar>abp_dia (abp ip) - abp_dia (abp (currentParams m))\<bar>
            \<le> INTERPOLATION_SNAP_THRESHOLD \<and> ys \<noteq> [] \<longrightarrow>
          abp_dia (abp (currentParams (callbacks catalog gen role selected ys m))) =
            abp_dia (abp ip)) \<and>
         (abp_dia (abp (currentParams m)) \<noteq> abp_dia (abp ip) \<and> ys \<noteq> [] \<longrightarrow>
          \<bar>abp_dia (abp ip) -
           abp_dia (abp (currentParams (callbacks catalog gen role selected ys m)))\<bar>
          < \<bar>abp_dia (abp ip) - abp_dia (abp (currentParams m))\<bar>)"
proof -
  have step: "(ready ip (animationLoop catalog gen role selected u0 us rs ts x) \<and>
       abp_approachable (abp (currentParams (animationLoop catalog gen role selected u0 us rs ts x)))
         (abp ip)) \<and>
      lastTimestamp (animationLoop catalog gen role selected u0 us rs ts x) = ts \<and>
      toward (abp_dia (abp (currentParams x)))
        (abp_dia (abp (currentParams (animationLoop catalog gen role selected u0 us rs ts x))))
        (abp_dia (abp ip)) \<and>
      (True \<and> \<bar>abp_dia (abp ip) - abp_dia (abp (currentParams x))\<bar>
          \<le> INTERPOLATION_SNAP_THRESHOLD \<longrightarrow>
         abp_dia (abp (currentParams (animationLoop catalog gen role selected u0 us rs ts x))) =
           abp_dia (abp ip)) \<and>
      (abp_dia (abp (currentParams x)) \<noteq> abp_dia (abp ip) \<longrightarrow>
         \<bar>abp_dia (abp ip) -
          abp_dia (abp (currentParams (animationLoop catalog gen role selected u0 us rs ts x)))\<bar>
         < \<bar>abp_dia (abp ip) - abp_dia (abp (currentParams x))\<bar>)"
    if "ready ip x \<and> abp_approachable (abp (currentParams x)) (abp ip)"
      "lastTimestamp x < ts" "ts - lastTimestamp x \<le> 10000 / 3" for x ts u0 us rs
    using chain_abp_step(1,3)[OF t that, of catalog gen role selected u0 us rs] by blast
  show ?thesis
    using chain[where P = "\<lambda>x. ready ip x \<and> abp_approachable (abp (currentParams x)) (abp ip)"
      and v = "\<lambda>x. abp_dia (abp (currentParams x))"
      and t = "abp_dia (abp ip)" and Q = True and catalog = catalog and gen = gen
      and role = role and selected = selected and m = m and ys = ys, OF step p pc]
    by simp
qed

lemma chain_sys:
  assumes t: "abp_ordered (abp ip)"
    and p: "ready ip m \<and> abp_approachable (abp (currentParams m)) (abp ip)"
    and pc: "paced (lastTimestamp m) (map fst ys)"
  shows "toward (abp_sys (abp (currentParams m)))
           (abp_sys (abp (currentParams (callbacks catalog gen role selected ys m))))
           (abp_sys (abp ip)) \<and>
         (abp_sys (abp (currentParams m)) \<noteq> abp_sys (abp ip) \<and> ys \<noteq> [] \<longrightarrow>
          \<bar>abp_sys (abp ip) -
           abp_sys (abp (currentParams (callbacks catalog gen role selected ys m)))\<bar>
          < \<bar>abp_sys (abp ip) - abp_sys (abp (currentParams m))\<bar>)"
proof -
  have step: "(ready ip (animationLoop catalog gen role selected u0 us rs ts x) \<and>
       abp_approachable (abp (currentParams (animationLoop catalog gen role selected u0 us rs ts x)))
         (abp ip)) \<and>
      lastTimestamp (animationLoop catalog gen role selected u0 us rs ts x) = ts \<and>
      toward (abp_sys (abp (currentParams x)))
        (abp_sys (abp (currentParams (animationLoop catalog gen role selected u0 us rs ts x))))
        (abp_sys (abp ip)) \<and>
      (False \<and> \<bar>abp_sys (abp ip) - abp_sys (abp (currentParams x))\<bar>
          \<le> INTERPOLATION_SNAP_THRESHOLD \<longrightarrow>
         abp_sys (abp (currentParams (animationLoop catalog gen role selected u0 us rs ts x))) =
           abp_sys (abp ip)) \<and>
      (abp_sys (abp (currentParams x)) \<noteq> abp_sys (abp ip) \<longrightarrow>
         \<bar>abp_sys (abp ip) -
          abp_sys (abp (currentParams (animationLoop catalog gen role selected u0 us rs ts x)))\<bar>
         < \<bar>abp_sys (abp ip) - abp_sys (abp (currentParams x))\<bar>)"
    if "ready ip x \<and> abp_approachable (abp (currentParams x)) (abp ip)"
      "lastTimestamp x < ts" "ts - lastTimestamp x \<le> 10000 / 3" for x ts u0 us rs
    using chain_abp_step(1,4)[OF t that, of catalog gen role selected u0 us rs] by blast
  show ?thesis
    using chain[where P = "\<lambda>x. ready ip x \<and> abp_approachable (abp (currentParams x)) (abp ip)"
      and v = "\<lambda>x. abp_sys (abp (currentParams x))"
      and t = "abp_sys (abp ip)" and Q = False and catalog = catalog and gen = gen
      and role = role and selected = selected and m = m and ys = ys, OF step p pc]
    by simp
qed

lemma chain_sys_snap:
  assumes t: "abp_ordered (abp ip)"
    and p: "(ready ip m \<and> abp_approachable (abp (currentParams m)) (abp ip)) \<and>
            abp_dia (abp (currentParams m)) \<le> abp_dia (abp ip)"
    and pc: "paced (lastTimestamp m) (map fst ys)"
  shows "\<bar>abp_sys (abp ip) - abp_sys (abp (currentParams m))\<bar>
            \<le> INTERPOLATION_SNAP_THRESHOLD \<and> ys \<noteq> [] \<longrightarrow>
          abp_sys (abp (currentParams (callbacks catalog gen role selected ys m))) =
            abp_sys (abp ip)"
proof -
  have step: "((ready ip (animationLoop catalog gen role selected u0 us rs ts x) \<and>
       abp_approachable (abp (currentParams (animationLoop catalog gen role selected u0 us rs ts x)))
         (abp ip)) \<and>
       abp_dia (abp (currentParams (animationLoop catalog gen role selected u0 us rs ts x)))
         \<le> abp_dia (abp ip)) \<and>
      lastTimestamp (animationLoop catalog gen role selected u0 us rs ts x) = ts \<and>
      toward (abp_sys (abp (currentParams x)))
        (abp_sys (abp (currentParams (animationLoop catalog gen role selected u0 us rs ts x))))
        (abp_sys (abp ip)) \<and>
      (True \<and> \<bar>abp_sys (abp ip) - abp_sys (abp (currentParams x))\<bar>
          \<le> INTERPOLATION_SNAP_THRESHOLD \<longrightarrow>
         abp_sys (abp (currentParams (animationLoop catalog gen role selected u0 us rs ts x))) =
           abp_sys (abp ip)) \<and>
      (abp_sys (abp (currentParams x)) \<noteq> abp_sys (abp ip) \<longrightarrow>
         \<bar>abp_sys (abp ip) -
          abp_sys (abp (currentParams (animationLoop catalog gen role selected u0 us rs ts x)))\<bar>
         < \<bar>abp_sys (abp ip) - abp_sys (abp (currentParams x))\<bar>)"
    if h: "(ready ip x \<and> abp_approachable (abp (currentParams x)) (abp ip)) \<and>
        abp_dia (abp (currentParams x)) \<le> abp_dia (abp ip)"
      and ts: "lastTimestamp x < ts" "ts - lastTimestamp x \<le> 10000 / 3" for x ts u0 us rs
  proof -
    have h1: "ready ip x \<and> abp_approachable (abp (currentParams x)) (abp ip)" using h by blast
    have le: "abp_dia (abp (currentParams x)) \<le> abp_dia (abp ip)" using h by blast
    show ?thesis
      using chain_abp_step(1,4,5)[OF t h1 ts, of catalog gen role selected u0 us rs] le by blast
  qed
  show ?thesis
    using chain[where P = "\<lambda>x. (ready ip x \<and> abp_approachable (abp (currentParams x)) (abp ip)) \<and>
          abp_dia (abp (currentParams x)) \<le> abp_dia (abp ip)"
      and v = "\<lambda>x. abp_sys (abp (currentParams x))"
      and t = "abp_sys (abp ip)" and Q = True and catalog = catalog and gen = gen
      and role = role and selected = selected and m = m and ys = ys, OF step p pc]
    by simp
qed

lemma chain_ordered:
  assumes t: "abp_ordered (abp ip)"
    and p: "ready ip m \<and> abp_approachable (abp (currentParams m)) (abp ip)"
    and pc: "paced (lastTimestamp m) (map fst ys)" and ne: "ys \<noteq> []"
  shows "abp_ordered (abp (currentParams (callbacks catalog gen role selected ys m)))"
proof -
  obtain zs z where y: "ys = zs @ [z]" using ne by (cases ys rule: rev_cases) auto
  obtain ts u0 us rs where z: "z = (ts, u0, us, rs)" by (cases z) auto
  define m1 where "m1 = callbacks catalog gen role selected zs m"
  have pz: "paced (lastTimestamp m) (map fst zs)"
    and pl: "paced (last (lastTimestamp m # map fst zs)) [ts]"
    using pc by (simp_all add: y z paced_append)
  have d: "abp_approachable (abp (currentParams m1)) (abp ip)"
    using chain_dia[OF t p pz, of catalog gen role selected] unfolding m1_def by blast
  have r: "ready ip m1" "lastTimestamp m1 = last (lastTimestamp m # map fst zs)"
    using chain_spo2[of ip m zs catalog gen role selected] p pz unfolding m1_def by blast+
  have ts: "lastTimestamp m1 < ts" "ts - lastTimestamp m1 \<le> 10000 / 3" using pl r(2) by simp_all
  have c: "callbacks catalog gen role selected ys m =
      animationLoop catalog gen role selected u0 us rs ts m1"
    by (simp add: y z callbacks_append m1_def)
  show ?thesis unfolding c
    using chain_abp_step(2)[OF t _ ts, of catalog gen role selected u0 us rs] r(1) d by blast
qed
section \<open>Convergence of the interpolated values\<close>

text \<open>
  Claim C5, for callbacks that are at most 10/3 seconds apart.  Let the loop be running
  with the interpolation target \<open>ip\<close>, and let the callbacks \<open>xs\<close> and then \<open>ys\<close> run, each
  later than the one before and at most 10/3 seconds after it.  The target is still \<open>ip\<close>
  afterwards.  For the SpO2 value, the temperature and, for a rhythm whose heart rate is
  interpolated, the heart rate: the value after \<open>ys\<close> lies between the value after \<open>xs\<close>
  and the target (the values approach the target from one side, without passing it); it
  is strictly nearer to the target when \<open>ys\<close> is not empty and the target was not yet
  reached; and a value that is within the snap threshold of the target is equal to the
  target after one more callback, and stays there.  For a rhythm whose heart rate is not
  interpolated the heart rate is 0 after a callback when the target is 0.  The same three
  properties hold for the diastolic and the systolic pressure when the target pressures
  are ordered (diastolic at least 0, systolic at least one above it) and the current
  pressures are ordered or at or below their targets; the current pressures are ordered
  after the first callback, and the systolic value snaps once the diastolic value is not
  above its target.
\<close>

theorem interpolation_approaches_target:
  "animationRunning m \<and> \<not> shockRequested m \<and> 0 < lastTimestamp m \<and>
   interpolationTargetParams m = Some ip \<and> paced (lastTimestamp m) (map fst (xs @ ys)) \<longrightarrow>
   (let m1 = callbacks catalog gen role selected xs m;
        m2 = callbacks catalog gen role selected ys m1;
        snap = INTERPOLATION_SNAP_THRESHOLD
    in m2 = callbacks catalog gen role selected (xs @ ys) m \<and>
       interpolationTargetParams m2 = Some ip \<and>
       (\<not> hrFixed (ecg (currentParams m)) \<longrightarrow>
          toward (hr (ecg (currentParams m1))) (hr (ecg (currentParams m2))) (hr (ecg ip)) \<and>
          (hr (ecg (currentParams m1)) \<noteq> hr (ecg ip) \<and> ys \<noteq> [] \<longrightarrow>
             \<bar>hr (ecg ip) - hr (ecg (currentParams m2))\<bar>
               < \<bar>hr (ecg ip) - hr (ecg (currentParams m1))\<bar>) \<and>
          (\<bar>hr (ecg ip) - hr (ecg (currentParams m1))\<bar> \<le> snap \<and> ys \<noteq> [] \<longrightarrow>
             hr (ecg (currentParams m2)) = hr (ecg ip))) \<and>
       (hrFixed (ecg (currentParams m)) \<and> hr (ecg ip) = 0 \<and> ys \<noteq> [] \<longrightarrow>
          hr (ecg (currentParams m2)) = 0) \<and>
       toward (spo2_value (spo2 (currentParams m1))) (spo2_value (spo2 (currentParams m2)))
         (spo2_value (spo2 ip)) \<and>
       (spo2_value (spo2 (currentParams m1)) \<noteq> spo2_value (spo2 ip) \<and> ys \<noteq> [] \<longrightarrow>
          \<bar>spo2_value (spo2 ip) - spo2_value (spo2 (currentParams m2))\<bar>
            < \<bar>spo2_value (spo2 ip) - spo2_value (spo2 (currentParams m1))\<bar>) \<and>
       (\<bar>spo2_value (spo2 ip) - spo2_value (spo2 (currentParams m1))\<bar> \<le> snap \<and> ys \<noteq> [] \<longrightarrow>
          spo2_value (spo2 (currentParams m2)) = spo2_value (spo2 ip)) \<and>
       toward (valueC (temp (currentParams m1))) (valueC (temp (currentParams m2)))
         (valueC (temp ip)) \<and>
       (valueC (temp (currentParams m1)) \<noteq> valueC (temp ip) \<and> ys \<noteq> [] \<longrightarrow>
          \<bar>valueC (temp ip) - valueC (temp (currentParams m2))\<bar>
            < \<bar>valueC (temp ip) - valueC (temp (currentParams m1))\<bar>) \<and>
       (\<bar>valueC (temp ip) - valueC (temp (currentParams m1))\<bar> \<le> snap \<and> ys \<noteq> [] \<longrightarrow>
          valueC (temp (currentParams m2)) = valueC (temp ip)) \<and>
       (abp_approachable (abp (currentParams m)) (abp ip) \<and> abp_ordered (abp ip) \<longrightarrow>
          abp_approachable (abp (currentParams m2)) (abp ip) \<and>
          (ys \<noteq> [] \<longrightarrow> abp_ordered (abp (currentParams m2))) \<and>
          toward (abp_dia (abp (currentParams m1))) (abp_dia (abp (currentParams m2)))
            (abp_dia (abp ip)) \<and>
          (abp_dia (abp (currentParams m1)) \<noteq> abp_dia (abp ip) \<and> ys \<noteq> [] \<longrightarrow>
             \<bar>abp_dia (abp ip) - abp_dia (abp (currentParams m2))\<bar>
               < \<bar>abp_dia (abp ip) - abp_dia (abp (currentParams m1))\<bar>) \<and>
          (\<bar>abp_dia (abp ip) - abp_dia (abp (currentParams m1))\<bar> \<le> snap \<and> ys \<noteq> [] \<longrightarrow>
             abp_dia (abp (currentParams m2)) = abp_dia (abp ip)) \<and>
          toward (abp_sys (abp (currentParams m1))) (abp_sys (abp (currentParams m2)))
            (abp_sys (abp ip)) \<and>
          (abp_sys (abp (currentParams m1)) \<noteq> abp_sys (abp ip) \<and> ys \<noteq> [] \<longrightarrow>
             \<bar>abp_sys (abp ip) - abp_sys (abp (currentParams m2))\<bar>
               < \<bar>abp_sys (abp ip) - abp_sys (abp (currentParams m1))\<bar>) \<and>
          (abp_dia (abp (currentParams m1)) \<le> abp_dia (abp ip) \<and>
           \<bar>abp_sys (abp ip) - abp_sys (abp (currentParams m1))\<bar> \<le> snap \<and> ys \<noteq> [] \<longrightarrow>
             abp_sys (abp (currentParams m2)) = abp_sys (abp ip))))"
proof
  assume h: "animationRunning m \<and> \<not> shockRequested m \<and> 0 < lastTimestamp m \<and>
   interpolationTargetParams m = Some ip \<and> paced (lastTimestamp m) (map fst (xs @ ys))"
  define m1 where "m1 = callbacks catalog gen role selected xs m"
  define m2 where "m2 = callbacks catalog gen role selected ys m1"
  have r: "ready ip m" using h by (simp add: ready_def)
  have pa: "paced (lastTimestamp m) (map fst xs)"
    and pb: "paced (last (lastTimestamp m # map fst xs)) (map fst ys)"
    using h by (simp_all add: paced_append)
  have r1: "ready ip m1" and l1: "lastTimestamp m1 = last (lastTimestamp m # map fst xs)"
    using chain_spo2[OF r pa, of catalog gen role selected] unfolding m1_def by blast+
  have p1: "paced (lastTimestamp m1) (map fst ys)" using pb l1 by simp
  have app: "m2 = callbacks catalog gen role selected (xs @ ys) m"
    by (simp add: m2_def m1_def callbacks_append)
  note sp = chain_spo2[OF r1 p1, of catalog gen role selected, folded m2_def]
  have ip2: "interpolationTargetParams m2 = Some ip" using sp by (simp add: ready_def)
  note tp = chain_temp[OF r1 p1, of catalog gen role selected, folded m2_def]
  have hr: "toward (hr (ecg (currentParams m1))) (hr (ecg (currentParams m2))) (hr (ecg ip)) \<and>
          (hr (ecg (currentParams m1)) \<noteq> hr (ecg ip) \<and> ys \<noteq> [] \<longrightarrow>
             \<bar>hr (ecg ip) - hr (ecg (currentParams m2))\<bar>
               < \<bar>hr (ecg ip) - hr (ecg (currentParams m1))\<bar>) \<and>
          (\<bar>hr (ecg ip) - hr (ecg (currentParams m1))\<bar> \<le> INTERPOLATION_SNAP_THRESHOLD \<and>
           ys \<noteq> [] \<longrightarrow> hr (ecg (currentParams m2)) = hr (ecg ip))"
    if nf: "\<not> hrFixed (ecg (currentParams m))"
  proof -
    have "\<not> hrFixed (ecg (currentParams m1))"
      using chain_hr[of ip m xs catalog gen role selected] r nf pa unfolding m1_def by blast
    then show ?thesis
      using chain_hr[of ip m1 ys catalog gen role selected] r1 p1 unfolding m2_def by blast
  qed
  have hf: "hr (ecg (currentParams m2)) = 0"
    if f: "hrFixed (ecg (currentParams m)) \<and> hr (ecg ip) = 0 \<and> ys \<noteq> []"
  proof -
    have z: "hr (ecg ip) = 0" using f by blast
    have "ready ip m1 \<and> hrFixed (ecg (currentParams m1))"
      using chain_hr_fixed[OF z _ pa, of catalog gen role selected] r f unfolding m1_def by blast
    then show ?thesis
      using chain_hr_fixed[OF z _ p1, of catalog gen role selected] f unfolding m2_def by blast
  qed
  have ab: "abp_approachable (abp (currentParams m2)) (abp ip) \<and>
          (ys \<noteq> [] \<longrightarrow> abp_ordered (abp (currentParams m2))) \<and>
          toward (abp_dia (abp (currentParams m1))) (abp_dia (abp (currentParams m2)))
            (abp_dia (abp ip)) \<and>
          (abp_dia (abp (currentParams m1)) \<noteq> abp_dia (abp ip) \<and> ys \<noteq> [] \<longrightarrow>
             \<bar>abp_dia (abp ip) - abp_dia (abp (currentParams m2))\<bar>
               < \<bar>abp_dia (abp ip) - abp_dia (abp (currentParams m1))\<bar>) \<and>
          (\<bar>abp_dia (abp ip) - abp_dia (abp (currentParams m1))\<bar> \<le> INTERPOLATION_SNAP_THRESHOLD \<and>
           ys \<noteq> [] \<longrightarrow> abp_dia (abp (currentParams m2)) = abp_dia (abp ip)) \<and>
          toward (abp_sys (abp (currentParams m1))) (abp_sys (abp (currentParams m2)))
            (abp_sys (abp ip)) \<and>
          (abp_sys (abp (currentParams m1)) \<noteq> abp_sys (abp ip) \<and> ys \<noteq> [] \<longrightarrow>
             \<bar>abp_sys (abp ip) - abp_sys (abp (currentParams m2))\<bar>
               < \<bar>abp_sys (abp ip) - abp_sys (abp (currentParams m1))\<bar>) \<and>
          (abp_dia (abp (currentParams m1)) \<le> abp_dia (abp ip) \<and>
           \<bar>abp_sys (abp ip) - abp_sys (abp (currentParams m1))\<bar> \<le> INTERPOLATION_SNAP_THRESHOLD \<and>
           ys \<noteq> [] \<longrightarrow> abp_sys (abp (currentParams m2)) = abp_sys (abp ip))"
    if o: "abp_approachable (abp (currentParams m)) (abp ip) \<and> abp_ordered (abp ip)"
  proof -
    have t: "abp_ordered (abp ip)" using o by blast
    have "abp_approachable (abp (currentParams m1)) (abp ip)"
      using chain_dia[OF t _ pa, of catalog gen role selected] r o unfolding m1_def by blast
    then have q1: "ready ip m1 \<and> abp_approachable (abp (currentParams m1)) (abp ip)"
      using r1 by blast
    note d = chain_dia[OF t q1 p1, of catalog gen role selected, folded m2_def]
    note s = chain_sys[OF t q1 p1, of catalog gen role selected, folded m2_def]
    have od: "abp_ordered (abp (currentParams m2))" if "ys \<noteq> []"
      using chain_ordered[OF t q1 p1 that, of catalog gen role selected] unfolding m2_def .
    have sn: "abp_sys (abp (currentParams m2)) = abp_sys (abp ip)"
      if "abp_dia (abp (currentParams m1)) \<le> abp_dia (abp ip) \<and>
           \<bar>abp_sys (abp ip) - abp_sys (abp (currentParams m1))\<bar> \<le> INTERPOLATION_SNAP_THRESHOLD \<and>
           ys \<noteq> []"
      using chain_sys_snap[OF t _ p1, of catalog gen role selected] q1 that
      unfolding m2_def by blast
    show ?thesis using d s sn od by blast
  qed
  show "(let m1 = callbacks catalog gen role selected xs m;
        m2 = callbacks catalog gen role selected ys m1;
        snap = INTERPOLATION_SNAP_THRESHOLD
    in m2 = callbacks catalog gen role selected (xs @ ys) m \<and>
       interpolationTargetParams m2 = Some ip \<and>
       (\<not> hrFixed (ecg (currentParams m)) \<longrightarrow>
          toward (hr (ecg (currentParams m1))) (hr (ecg (currentParams m2))) (hr (ecg ip)) \<and>
          (hr (ecg (currentParams m1)) \<noteq> hr (ecg ip) \<and> ys \<noteq> [] \<longrightarrow>
             \<bar>hr (ecg ip) - hr (ecg (currentParams m2))\<bar>
               < \<bar>hr (ecg ip) - hr (ecg (currentParams m1))\<bar>) \<and>
          (\<bar>hr (ecg ip) - hr (ecg (currentParams m1))\<bar> \<le> snap \<and> ys \<noteq> [] \<longrightarrow>
             hr (ecg (currentParams m2)) = hr (ecg ip))) \<and>
       (hrFixed (ecg (currentParams m)) \<and> hr (ecg ip) = 0 \<and> ys \<noteq> [] \<longrightarrow>
          hr (ecg (currentParams m2)) = 0) \<and>
       toward (spo2_value (spo2 (currentParams m1))) (spo2_value (spo2 (currentParams m2)))
         (spo2_value (spo2 ip)) \<and>
       (spo2_value (spo2 (currentParams m1)) \<noteq> spo2_value (spo2 ip) \<and> ys \<noteq> [] \<longrightarrow>
          \<bar>spo2_value (spo2 ip) - spo2_value (spo2 (currentParams m2))\<bar>
            < \<bar>spo2_value (spo2 ip) - spo2_value (spo2 (currentParams m1))\<bar>) \<and>
       (\<bar>spo2_value (spo2 ip) - spo2_value (spo2 (currentParams m1))\<bar> \<le> snap \<and> ys \<noteq> [] \<longrightarrow>
          spo2_value (spo2 (currentParams m2)) = spo2_value (spo2 ip)) \<and>
       toward (valueC (temp (currentParams m1))) (valueC (temp (currentParams m2)))
         (valueC (temp ip)) \<and>
       (valueC (temp (currentParams m1)) \<noteq> valueC (temp ip) \<and> ys \<noteq> [] \<longrightarrow>
          \<bar>valueC (temp ip) - valueC (temp (currentParams m2))\<bar>
            < \<bar>valueC (temp ip) - valueC (temp (currentParams m1))\<bar>) \<and>
       (\<bar>valueC (temp ip) - valueC (temp (currentParams m1))\<bar> \<le> snap \<and> ys \<noteq> [] \<longrightarrow>
          valueC (temp (currentParams m2)) = valueC (temp ip)) \<and>
       (abp_approachable (abp (currentParams m)) (abp ip) \<and> abp_ordered (abp ip) \<longrightarrow>
          abp_approachable (abp (currentParams m2)) (abp ip) \<and>
          (ys \<noteq> [] \<longrightarrow> abp_ordered (abp (currentParams m2))) \<and>
          toward (abp_dia (abp (currentParams m1))) (abp_dia (abp (currentParams m2)))
            (abp_dia (abp ip)) \<and>
          (abp_dia (abp (currentParams m1)) \<noteq> abp_dia (abp ip) \<and> ys \<noteq> [] \<longrightarrow>
             \<bar>abp_dia (abp ip) - abp_dia (abp (currentParams m2))\<bar>
               < \<bar>abp_dia (abp ip) - abp_dia (abp (currentParams m1))\<bar>) \<and>
          (\<bar>abp_dia (abp ip) - abp_dia (abp (currentParams m1))\<bar> \<le> snap \<and> ys \<noteq> [] \<longrightarrow>
             abp_dia (abp (currentParams m2)) = abp_dia (abp ip)) \<and>
          toward (abp_sys (abp (currentParams m1))) (abp_sys (abp (currentParams m2)))
            (abp_sys (abp ip)) \<and>
          (abp_sys (abp (currentParams m1)) \<noteq> abp_sys (abp ip) \<and> ys \<noteq> [] \<longrightarrow>
             \<bar>abp_sys (abp ip) - abp_sys (abp (currentParams m2))\<bar>
               < \<bar>abp_sys (abp ip) - abp_sys (abp (currentParams m1))\<bar>) \<and>
          (abp_dia (abp (currentParams m1)) \<le> abp_dia (abp ip) \<and>
           \<bar>abp_sys (abp ip) - abp_sys (abp (currentParams m1))\<bar> \<le> snap \<and> ys \<noteq> [] \<longrightarrow>
             abp_sys (abp (currentParams m2)) = abp_sys (abp ip))))"
    unfolding Let_def m1_def[symmetric] m2_def[symmetric]
    using app ip2 hr hf sp tp ab by blast
qed

lemma example_ordered:
  "abp_ordered (abp example_params)" "abp_ordered (abp example_target)"
  "abp_approachable (abp (with_pressure 0 0 example_params)) (abp example_params)"
  by (simp_all add: abp_ordered_def abp_approachable_def with_pressure_def example_params_def
      example_target_def)

lemma example_between_ready:
  "animationRunning (example_between c t) \<and> \<not> shockRequested (example_between c t) \<and>
   0 < lastTimestamp (example_between c t) \<and>
   interpolationTargetParams (example_between c t) = Some t \<and>
   lastTimestamp (example_between c t) = 1000 \<and> currentParams (example_between c t) = c"
  by (simp add: example_between_def example_monitor_def)

theorem interpolation_approaches_target_witness:
  "\<bar>120 - hr (ecg (currentParams (callbacks example_catalog example_gen ''monitor'' None
      [(1100, 0, \<lambda>k. 0, \<lambda>k. 0)] (example_between example_params example_target))))\<bar> < 45 \<and>
   toward 75 (hr (ecg (currentParams (callbacks example_catalog example_gen ''monitor'' None
      [(1100, 0, \<lambda>k. 0, \<lambda>k. 0)] (example_between example_params example_target))))) 120 \<and>
   spo2_value (spo2 (currentParams (callbacks example_catalog example_gen ''monitor'' None
      [(1100, 0, \<lambda>k. 0, \<lambda>k. 0)] (example_between example_params example_target)))) = 9805 / 100 \<and>
   \<bar>130 - abp_sys (abp (currentParams (callbacks example_catalog example_gen ''monitor'' None
      [(1100, 0, \<lambda>k. 0, \<lambda>k. 0)] (example_between example_params example_target))))\<bar> < 10 \<and>
   valueC (temp (currentParams (callbacks example_catalog example_gen ''monitor'' None
      [(1100, 0, \<lambda>k. 0, \<lambda>k. 0)] (example_between example_params example_target)))) = 37 \<and>
   abp_ordered (abp (currentParams (callbacks example_catalog example_gen ''monitor'' None
      [(1100, 0, \<lambda>k. 0, \<lambda>k. 0)]
      (example_between (with_pressure 0 0 example_params) example_params)))) \<and>
   \<bar>120 - abp_sys (abp (currentParams (callbacks example_catalog example_gen ''monitor'' None
      [(1100, 0, \<lambda>k. 0, \<lambda>k. 0)]
      (example_between (with_pressure 0 0 example_params) example_params))))\<bar> < 120 \<and>
   hr (ecg (currentParams (callbacks example_catalog example_gen ''monitor'' None
      [(1100, 0, \<lambda>k. 0, \<lambda>k. 0)] (example_between (example_pea 40) (example_pea 0))))) = 0"
proof -
  define ys :: "(real \<times> real \<times> (nat \<Rightarrow> real) \<times> (nat \<Rightarrow> real)) list"
    where "ys = [(1100, 0, \<lambda>k. 0, \<lambda>k. 0)]"
  define mx where "mx = example_between example_params example_target"
  define m0 where "m0 = example_between (with_pressure 0 0 example_params) example_params"
  define mp where "mp = example_between (example_pea 40) (example_pea 0)"
  have ne: "ys \<noteq> []" by (simp add: ys_def)
  have hx: "animationRunning mx \<and> \<not> shockRequested mx \<and> 0 < lastTimestamp mx \<and>
     interpolationTargetParams mx = Some example_target \<and>
     paced (lastTimestamp mx) (map fst ([] @ ys))"
    using example_between_ready[of example_params example_target] by (simp add: mx_def ys_def)
  have h0: "animationRunning m0 \<and> \<not> shockRequested m0 \<and> 0 < lastTimestamp m0 \<and>
     interpolationTargetParams m0 = Some example_params \<and>
     paced (lastTimestamp m0) (map fst ([] @ ys))"
    using example_between_ready[of "with_pressure 0 0 example_params" example_params]
    by (simp add: m0_def ys_def)
  have hp: "animationRunning mp \<and> \<not> shockRequested mp \<and> 0 < lastTimestamp mp \<and>
     interpolationTargetParams mp = Some (example_pea 0) \<and>
     paced (lastTimestamp mp) (map fst ([] @ ys))"
    using example_between_ready[of "example_pea 40" "example_pea 0"] by (simp add: mp_def ys_def)
  have cx: "currentParams mx = example_params"
    and c0: "currentParams m0 = with_pressure 0 0 example_params"
    and cp: "currentParams mp = example_pea 40"
    using example_between_ready by (simp_all add: mx_def m0_def mp_def)
  have v: "hr (ecg example_params) = 75" "hr (ecg example_target) = 120"
    "spo2_value (spo2 example_params) = 98" "spo2_value (spo2 example_target) = 9805 / 100"
    "abp_sys (abp example_params) = 120" "abp_sys (abp example_target) = 130"
    "valueC (temp example_params) = 37" "valueC (temp example_target) = 37"
    "abp_sys (abp (with_pressure 0 0 example_params)) = 0"
    "hr (ecg (example_pea 0)) = 0"
    by (simp_all add: example_target_def example_params_def with_pressure_def example_pea_def)
  have f: "\<not> hrFixed (ecg example_params)" "hrFixed (ecg (example_pea 40))"
    using example_not_fixed by (simp_all add: hrFixed_def example_pea_def truthy_def)
  have ox: "abp_approachable (abp (currentParams mx)) (abp example_target) \<and>
      abp_ordered (abp example_target)"
    using example_ordered(1,2) by (simp add: cx abp_approachable_def)
  have o0: "abp_approachable (abp (currentParams m0)) (abp example_params) \<and>
      abp_ordered (abp example_params)"
    using example_ordered(1,3) by (simp add: c0)
  have sn: "\<bar>9805 / 100 - (98::real)\<bar> \<le> INTERPOLATION_SNAP_THRESHOLD"
    "\<bar>37 - (37::real)\<bar> \<le> INTERPOLATION_SNAP_THRESHOLD"
    by (simp_all add: INTERPOLATION_SNAP_THRESHOLD_def)
  note a = interpolation_approaches_target[of mx example_target "[]" ys example_catalog
      example_gen "''monitor''" None, unfolded Let_def, rule_format, OF hx]
  note b = interpolation_approaches_target[of m0 example_params "[]" ys example_catalog
      example_gen "''monitor''" None, unfolded Let_def, rule_format, OF h0]
  note c = interpolation_approaches_target[of mp "example_pea 0" "[]" ys example_catalog
      example_gen "''monitor''" None, unfolded Let_def, rule_format, OF hp]
  have a1: "\<bar>120 - hr (ecg (currentParams
      (callbacks example_catalog example_gen ''monitor'' None ys mx)))\<bar> < 45"
    "toward 75 (hr (ecg (currentParams
      (callbacks example_catalog example_gen ''monitor'' None ys mx)))) 120"
    using a f(1) ne v by (simp_all add: cx)
  have a2: "spo2_value (spo2 (currentParams
      (callbacks example_catalog example_gen ''monitor'' None ys mx))) = 9805 / 100"
    using a ne sn(1) v by (simp add: cx)
  have a3: "\<bar>130 - abp_sys (abp (currentParams
      (callbacks example_catalog example_gen ''monitor'' None ys mx)))\<bar> < 10"
    using a ox ne v by (simp add: cx)
  have a4: "valueC (temp (currentParams
      (callbacks example_catalog example_gen ''monitor'' None ys mx))) = 37"
    using a ne sn(2) v by (simp add: cx)
  have b1: "abp_ordered (abp (currentParams
      (callbacks example_catalog example_gen ''monitor'' None ys m0)))"
    "\<bar>120 - abp_sys (abp (currentParams
      (callbacks example_catalog example_gen ''monitor'' None ys m0)))\<bar> < 120"
    using b o0 ne v by (simp_all add: c0)
  have c1: "hr (ecg (currentParams
      (callbacks example_catalog example_gen ''monitor'' None ys mp))) = 0"
    using c f(2) ne v by (simp add: cp)
  show ?thesis
    using a1 a2 a3 a4 b1 c1 unfolding mx_def m0_def mp_def ys_def by blast
qed

lemma example_callback_values:
  assumes "0 < ts - 1000"
  shows "hr (ecg (currentParams (animationLoop example_catalog example_gen ''monitor'' None 0
           (\<lambda>k. 0) (\<lambda>k. 0) ts (example_between c t)))) =
         interpolateHr ((ts - 1000) / 1000) (ecg c) (hr (ecg t))"
    and "abp_sys (abp (currentParams (animationLoop example_catalog example_gen ''monitor'' None 0
           (\<lambda>k. 0) (\<lambda>k. 0) ts (example_between c t)))) =
         abp_sys (interpolateAbp ((ts - 1000) / 1000) False (abp c) (abp t))"
    and "abp_dia (abp (currentParams (animationLoop example_catalog example_gen ''monitor'' None 0
           (\<lambda>k. 0) (\<lambda>k. 0) ts (example_between c t)))) =
         abp_dia (interpolateAbp ((ts - 1000) / 1000) False (abp c) (abp t))"
proof -
  define mx where "mx = example_between c t"
  have run: "animationRunning mx" "\<not> shockRequested mx" "lastTimestamp mx \<noteq> 0"
    and ip: "interpolationTargetParams mx = Some t"
    and l: "lastTimestamp mx = 1000" and cp: "currentParams mx = c"
    using example_between_ready[of c t] by (simp_all add: mx_def)
  have dt: "0 < (ts - lastTimestamp mx) / 1000" using assms l by simp
  note n = callback_numeric[OF run ip dt, of example_catalog example_gen "''monitor''" None 0
        "\<lambda>k. 0" "\<lambda>k. 0", unfolded Let_def l cp, folded mx_def]
  show "hr (ecg (currentParams (animationLoop example_catalog example_gen ''monitor'' None 0
           (\<lambda>k. 0) (\<lambda>k. 0) ts (example_between c t)))) =
         interpolateHr ((ts - 1000) / 1000) (ecg c) (hr (ecg t))"
    unfolding mx_def[symmetric] using n by blast
  show "abp_sys (abp (currentParams (animationLoop example_catalog example_gen ''monitor'' None 0
           (\<lambda>k. 0) (\<lambda>k. 0) ts (example_between c t)))) =
         abp_sys (interpolateAbp ((ts - 1000) / 1000) False (abp c) (abp t))"
    unfolding mx_def[symmetric] using n by blast
  show "abp_dia (abp (currentParams (animationLoop example_catalog example_gen ''monitor'' None 0
           (\<lambda>k. 0) (\<lambda>k. 0) ts (example_between c t)))) =
         abp_dia (interpolateAbp ((ts - 1000) / 1000) False (abp c) (abp t))"
    unfolding mx_def[symmetric] using n by blast
qed

text \<open>
  The claim as stated fails in four ways.  A callback 10 seconds after the one before
  takes the heart rate from 75 past the target 120 to 210.  With the current and the
  target pressures both 0/0 a callback sets the systolic value to 1: the coercion acts
  before the test for the target 0/0, which therefore never succeeds.  From the
  pressures 100/100 with the target 90/60 a callback 10 ms later raises the systolic
  value to 100.88, away from its target.  And the heart rate of a PEA rhythm at 40 with
  the target 60 is set to 0.
\<close>

theorem interpolation_overshoot_counterexample:
  "hr (ecg (currentParams (animationLoop example_catalog example_gen ''monitor'' None 0 (\<lambda>k. 0)
      (\<lambda>k. 0) 11000 (example_between example_params example_target)))) = 210 \<and>
   \<not> toward 75 210 120 \<and>
   abp_sys (abp (currentParams (animationLoop example_catalog example_gen ''monitor'' None 0
      (\<lambda>k. 0) (\<lambda>k. 0) 1100
      (example_between (with_pressure 0 0 example_params) (with_pressure 0 0 example_params)))))
     = 1 \<and>
   abp_dia (abp (currentParams (animationLoop example_catalog example_gen ''monitor'' None 0
      (\<lambda>k. 0) (\<lambda>k. 0) 1100
      (example_between (with_pressure 0 0 example_params) (with_pressure 0 0 example_params)))))
     = 0 \<and>
   abp_sys (abp (currentParams (animationLoop example_catalog example_gen ''monitor'' None 0
      (\<lambda>k. 0) (\<lambda>k. 0) 1010
      (example_between (with_pressure 100 100 example_params)
         (with_pressure 90 60 example_params))))) = 10088 / 100 \<and>
   \<not> toward 100 (10088 / 100) 90 \<and>
   hr (ecg (currentParams (animationLoop example_catalog example_gen ''monitor'' None 0 (\<lambda>k. 0)
      (\<lambda>k. 0) 1100 (example_between (example_pea 40) (example_pea 60))))) = 0 \<and>
   \<not> toward 40 0 60"
proof -
  have a: "hr (ecg (currentParams (animationLoop example_catalog example_gen ''monitor'' None 0
      (\<lambda>k. 0) (\<lambda>k. 0) 11000 (example_between example_params example_target)))) = 210"
    unfolding example_callback_values(1)[of 11000 example_params example_target, simplified]
    by (simp add: interpolateHr_def hrFixed_def example_target_def
        example_params_def example_sinus_def empty_params_def truthy_def Let_def
        INTERPOLATION_SNAP_THRESHOLD_def VITAL_INTERPOLATION_RATE_def)
  have b: "abp_sys (abp (currentParams (animationLoop example_catalog example_gen ''monitor''
      None 0 (\<lambda>k. 0) (\<lambda>k. 0) 1100
      (example_between (with_pressure 0 0 example_params) (with_pressure 0 0 example_params)))))
     = 1"
    "abp_dia (abp (currentParams (animationLoop example_catalog example_gen ''monitor''
      None 0 (\<lambda>k. 0) (\<lambda>k. 0) 1100
      (example_between (with_pressure 0 0 example_params) (with_pressure 0 0 example_params)))))
     = 0"
    unfolding example_callback_values(2,3)[of 1100 "with_pressure 0 0 example_params"
        "with_pressure 0 0 example_params", simplified]
    by (simp_all add: interpolateAbp_def nudge_def with_pressure_def example_params_def Let_def
        INTERPOLATION_SNAP_THRESHOLD_def VITAL_INTERPOLATION_RATE_def)
  have c: "abp_sys (abp (currentParams (animationLoop example_catalog example_gen ''monitor''
      None 0 (\<lambda>k. 0) (\<lambda>k. 0) 1010
      (example_between (with_pressure 100 100 example_params)
         (with_pressure 90 60 example_params))))) = 10088 / 100"
    unfolding example_callback_values(2)[of 1010 "with_pressure 100 100 example_params"
        "with_pressure 90 60 example_params", simplified]
    by (simp add: interpolateAbp_def nudge_def with_pressure_def example_params_def Let_def
        INTERPOLATION_SNAP_THRESHOLD_def VITAL_INTERPOLATION_RATE_def)
  have d: "hr (ecg (currentParams (animationLoop example_catalog example_gen ''monitor'' None 0
      (\<lambda>k. 0) (\<lambda>k. 0) 1100 (example_between (example_pea 40) (example_pea 60))))) = 0"
    unfolding example_callback_values(1)[of 1100 "example_pea 40" "example_pea 60", simplified]
    by (simp add: interpolateHr_def hrFixed_def example_pea_def truthy_def Let_def
        INTERPOLATION_SNAP_THRESHOLD_def)
  show ?thesis using a b c d by (simp add: toward_def)
qed
section \<open>The fields that change at cycle boundaries\<close>













lemma ipc_hr_changed_fields [simp]:
  "etco2 (currentParams (fst (ipc_hr_changed m))) = etco2 (currentParams m)"
  "spo2 (currentParams (fst (ipc_hr_changed m))) = spo2 (currentParams m)"
  "abp (currentParams (fst (ipc_hr_changed m))) = abp (currentParams m)"
  "isEtco2UpdatePending (fst (ipc_hr_changed m)) = isEtco2UpdatePending m"
  "pendingEtco2Params (fst (ipc_hr_changed m)) = pendingEtco2Params m"
  "isSpo2UpdatePending (fst (ipc_hr_changed m)) = isSpo2UpdatePending m"
  "pendingSpo2Params (fst (ipc_hr_changed m)) = pendingSpo2Params m"
  "isAbpUpdatePending (fst (ipc_hr_changed m)) = isAbpUpdatePending m"
  "pendingAbpParams (fst (ipc_hr_changed m)) = pendingAbpParams m"
  by (simp_all add: ipc_hr_changed_def Let_def)







lemma ipc_rhythm_eq:
  assumes ch: "rhythm (ecg (targetParams m)) \<noteq> []"
    "rhythm (ecg (targetParams m)) \<noteq> rhythm (ecg (currentParams m))"
  shows "initiateParameterChange catalog u m =
     ipc_timing_reset u
       (ipc_rhythm_changed catalog (rhythm (ecg (currentParams m)))
          (ipc_etco2 (m\<lparr>interpolationTargetParams := Some (targetParams m)\<rparr>)))"
proof -
  define m0 where "m0 = m\<lparr>interpolationTargetParams := Some (targetParams m)\<rparr>"
  define m3 where "m3 = ipc_etco2 m0"
  have t3: "targetParams m3 = targetParams m" by (simp add: m3_def m0_def)
  have front: "ipc_abp s2 (ipc_spo2 s1 m3) = m3" for s1 s2
    unfolding m3_def m0_def by (rule ipc_front)
  have "initiateParameterChange catalog u m =
      (let m3' = ipc_abp (abp_shape (abp (currentParams m)))
                   (ipc_spo2 (spo2_shape (spo2 (currentParams m))) m3);
           targetRhythmKey = rhythm (ecg (targetParams m3'));
           (m4, ecgTimingResetNeeded) =
             (if targetRhythmKey \<noteq> [] \<and> targetRhythmKey \<noteq> rhythm (ecg (currentParams m))
              then (ipc_rhythm_changed catalog (rhythm (ecg (currentParams m))) m3', True)
              else if hr (ecg (targetParams m3')) \<noteq> hr (ecg (currentParams m))
              then ipc_hr_changed m3'
              else (m3', False))
       in if ecgTimingResetNeeded then ipc_timing_reset u m4 else m4)"
    unfolding initiateParameterChange_def m3_def m0_def Let_def ..
  then show ?thesis
    unfolding front m3_def[symmetric] m0_def[symmetric] using ch t3 by (simp add: Let_def)
qed





section \<open>A rhythm that the catalog does not hold\<close>

lemma ipc_unknown_rhythm:
  assumes un: "catalog (rhythm (ecg (targetParams m))) = None"
    and ch: "rhythm (ecg (targetParams m)) \<noteq> []"
      "rhythm (ecg (targetParams m)) \<noteq> rhythm (ecg (currentParams m))"
    and nv: "rhythm (ecg (targetParams m)) \<noteq> ''vt_pulseless''"
  shows "rhythm (ecg (currentParams (initiateParameterChange catalog u m))) =
           rhythm (ecg (targetParams m)) \<and>
         params (ecg (currentParams (initiateParameterChange catalog u m))) = Some empty_params"
proof -
  define m3 where "m3 = ipc_etco2 (m\<lparr>interpolationTargetParams := Some (targetParams m)\<rparr>)"
  have t3: "targetParams m3 = targetParams m" by (simp add: m3_def)
  have np: "\<not> pulselessOrCpr empty_params (rhythm (ecg (targetParams m)))"
    using nv by (simp add: pulselessOrCpr_def empty_params_def truthy_def)
  have "rhythm (ecg (currentParams (ipc_rhythm_changed catalog k m3))) =
           rhythm (ecg (targetParams m)) \<and>
        params (ecg (currentParams (ipc_rhythm_changed catalog k m3))) = Some empty_params" for k
    using un np t3 by (simp add: ipc_rhythm_changed_def Let_def)
  then show ?thesis unfolding ipc_rhythm_eq[OF ch] m3_def[symmetric] by simp
qed

lemma executeShock_unknown_rhythm:
  assumes "catalog (shockRhythmKey role selected remoteRhythmKey) = None"
  shows "\<exists>m'. executeShock catalog role selected u remoteRhythmKey m = Inr m' \<and>
              currentParams m' = currentParams m \<and> targetParams m' = targetParams m \<and>
              interpolationTargetParams m' = interpolationTargetParams m"
  using assms by (simp add: executeShock_def shockBeatReset_def Let_def)


lemma remote_unknown_rhythm:
  assumes e: "rx_ecg receivedParams = Some e" and un: "catalog (rhythm e) = None"
    and run: "animationRunning m"
    and ch: "rhythm e \<noteq> []" "rhythm e \<noteq> rhythm (ecg (currentParams m))"
      "rhythm e \<noteq> ''vt_pulseless''"
  shows "rhythm (ecg (currentParams (handleRemoteParamUpdate catalog u receivedParams m))) =
           rhythm e \<and>
         params (ecg (currentParams (handleRemoteParamUpdate catalog u receivedParams m))) =
           Some empty_params"
proof -
  define tp2 where "tp2 =
     \<lparr>ecg = e\<lparr>params := Some empty_params\<rparr>,
      spo2 = nullish (rx_spo2 receivedParams) (spo2 (targetParams m)),
      abp = nullish (rx_abp receivedParams) (abp (targetParams m)),
      etco2 = nullish (rx_etco2 receivedParams) (etco2 (targetParams m)),
      temp = nullish (rx_temp receivedParams) (temp (targetParams m))\<rparr>"
  define m1 where "m1 = m\<lparr>targetParams := tp2\<rparr>"
  have h: "handleRemoteParamUpdate catalog u receivedParams m =
      initiateParameterChange catalog u m1"
    using e un run by (simp add: handleRemoteParamUpdate_def Let_def nullish_def m1_def tp2_def)
  have r: "rhythm (ecg (targetParams m1)) = rhythm e" by (simp add: m1_def tp2_def)
  have c: "currentParams m1 = currentParams m" by (simp add: m1_def)
  show ?thesis unfolding h
    using ipc_unknown_rhythm[of catalog m1 u] un ch r c by simp
qed

text \<open>
  Claim C8 (as amended).  A shock whose post-shock rhythm has no entry in the catalog
  leaves the current, the requested and the interpolation-target parameters as they are.
  A remote parameter update that names such a rhythm (not empty, other than the current
  one) while the loop is running is not refused: the current rhythm key becomes the
  unknown key and the current ECG parameters become the empty object, which has no
  generator type.
\<close>

theorem unknown_rhythm_handling:
  "(catalog (shockRhythmKey role selected remoteRhythmKey) = None \<longrightarrow>
      (\<exists>m'. executeShock catalog role selected u remoteRhythmKey m = Inr m' \<and>
            currentParams m' = currentParams m \<and> targetParams m' = targetParams m \<and>
            interpolationTargetParams m' = interpolationTargetParams m)) \<and>
   (rx_ecg receivedParams = Some e \<and> catalog (rhythm e) = None \<and> animationRunning m \<and>
    rhythm e \<noteq> [] \<and> rhythm e \<noteq> rhythm (ecg (currentParams m)) \<and>
    rhythm e \<noteq> ''vt_pulseless'' \<longrightarrow>
      rhythm (ecg (currentParams (handleRemoteParamUpdate catalog u receivedParams m))) =
        rhythm e \<and>
      params (ecg (currentParams (handleRemoteParamUpdate catalog u receivedParams m))) =
        Some empty_params \<and>
      generatorType empty_params = None)"
proof -
  have a: "\<exists>m'. executeShock catalog role selected u remoteRhythmKey m = Inr m' \<and>
            currentParams m' = currentParams m \<and> targetParams m' = targetParams m \<and>
            interpolationTargetParams m' = interpolationTargetParams m"
    if "catalog (shockRhythmKey role selected remoteRhythmKey) = None"
    using executeShock_unknown_rhythm[where catalog = catalog and role = role
        and selected = selected and remoteRhythmKey = remoteRhythmKey and u = u and m = m] that
    by blast
  have b: "rhythm (ecg (currentParams (handleRemoteParamUpdate catalog u receivedParams m))) =
        rhythm e \<and>
      params (ecg (currentParams (handleRemoteParamUpdate catalog u receivedParams m))) =
        Some empty_params \<and>
      generatorType empty_params = None"
    if "rx_ecg receivedParams = Some e \<and> catalog (rhythm e) = None \<and> animationRunning m \<and>
    rhythm e \<noteq> [] \<and> rhythm e \<noteq> rhythm (ecg (currentParams m)) \<and>
    rhythm e \<noteq> ''vt_pulseless''"
    using remote_unknown_rhythm[of receivedParams e catalog m u] that
    by (simp add: empty_params_def)
  show ?thesis using a b by blast
qed

lemma example_unknown:
  "rx_ecg example_unknown_update = Some \<lparr>rhythm = ''bogus'', hr = 80, params = None\<rparr>"
  "example_catalog ''bogus'' = None" "animationRunning example_monitor"
  "rhythm (ecg (currentParams example_monitor)) = ''normal''"
  "shockRhythmKey ''monitor'' None (Some ''bogus'') = ''bogus''"
  by (simp_all add: example_unknown_update_def example_catalog_def example_monitor_def
      example_params_def shockRhythmKey_def)

theorem unknown_rhythm_handling_witness:
  "(\<exists>m'. executeShock example_catalog ''monitor'' None (1 / 2) (Some ''bogus'') example_monitor =
          Inr m' \<and> currentParams m' = example_params) \<and>
   rhythm (ecg (currentParams (handleRemoteParamUpdate example_catalog (1 / 2)
     example_unknown_update example_monitor))) = ''bogus'' \<and>
   params (ecg (currentParams (handleRemoteParamUpdate example_catalog (1 / 2)
     example_unknown_update example_monitor))) = Some empty_params"
proof -
  note t = unknown_rhythm_handling[of example_catalog "''monitor''" None "Some ''bogus''"
      "1 / 2" example_monitor example_unknown_update
      "\<lparr>rhythm = ''bogus'', hr = 80, params = None\<rparr>"]
  have c: "currentParams example_monitor = example_params" by (simp add: example_monitor_def)
  have a: "\<exists>m'. executeShock example_catalog ''monitor'' None (1 / 2) (Some ''bogus'')
      example_monitor = Inr m' \<and> currentParams m' = example_params"
    using t example_unknown(2,5) c by auto
  have b: "rhythm (ecg (currentParams (handleRemoteParamUpdate example_catalog (1 / 2)
     example_unknown_update example_monitor))) = ''bogus'' \<and>
   params (ecg (currentParams (handleRemoteParamUpdate example_catalog (1 / 2)
     example_unknown_update example_monitor))) = Some empty_params"
    using t example_unknown by simp
  show ?thesis using a b by blast
qed

text \<open>
  The claim as stated fails: the remote update that names the rhythm \<open>bogus\<close>, which the
  catalog does not hold, replaces the rhythm that is being rendered.
\<close>

theorem unknown_rhythm_counterexample:
  "example_catalog ''bogus'' = None \<and>
   rhythm (ecg (currentParams example_monitor)) = ''normal'' \<and>
   params (ecg (currentParams example_monitor)) = Some example_sinus \<and>
   rhythm (ecg (currentParams (handleRemoteParamUpdate example_catalog (1 / 2)
     example_unknown_update example_monitor))) = ''bogus'' \<and>
   params (ecg (currentParams (handleRemoteParamUpdate example_catalog (1 / 2)
     example_unknown_update example_monitor))) = Some empty_params \<and>
   generatorType empty_params = None"
proof -
  have p: "params (ecg (currentParams example_monitor)) = Some example_sinus"
    by (simp add: example_monitor_def example_params_def)
  have g: "generatorType empty_params = None" by (simp add: empty_params_def)
  show ?thesis
    using remote_unknown_rhythm[of example_unknown_update
        "\<lparr>rhythm = ''bogus'', hr = 80, params = None\<rparr>" example_catalog example_monitor "1 / 2"]
      example_unknown p g
    by simp
qed
end
